theory Spec2Isabelle
  imports
    Complex_Main
    "HOL-Library.Option_ord"
    "HOL-Library.Char_ord"
    "HOL-Library.List_Lexorder"
    "HOL-Library.Product_Lexorder"
    "HOL-Library.Multiset"
begin

section \<open>Python values and exceptions\<close>

text \<open>
  The exceptions the pipeline can meet.  A function of the source that can raise returns
  \<open>py_error + 'a\<close>, with \<open>Inl\<close> for the raised exception.
\<close>

datatype py_error =
    AttributeError | IndexError | KeyError | TypeError | ValueError | OverflowError
  | OSError | FileNotFoundError | JSONDecodeError
  | OperationalError | ProgrammingError | DatabaseError

definition and_then :: "'e + 'a \<Rightarrow> ('a \<Rightarrow> 'e + 'b) \<Rightarrow> 'e + 'b" where
  "and_then m f = (case m of Inl e \<Rightarrow> Inl e | Inr x \<Rightarrow> f x)"

section \<open>transform.py: the forecast frame\<close>

text \<open>
  One row of the data frame that \<open>get_forecast_data\<close> reads from table \<open>forecast\<close>, with the
  columns of the \<open>CREATE TABLE\<close> statement in load.py.  A cell is \<open>None\<close> where the table
  holds NULL; otherwise it holds a value of the declared type of its column.  Measurements
  are the real numbers that the stored floats denote: comparisons of floats agree with
  comparisons of these reals.  A time is kept as the text of the table, also after
  \<open>pd.to_datetime\<close> has converted it.
\<close>

record forecast_rec =
  rec_id :: nat
  city_id :: "int option"
  city_name :: "string option"
  country :: "string option"
  forecast_time :: "string option"
  weather_main :: "string option"
  weather_description :: "string option"
  temperature :: "real option"
  feels_like :: "real option"
  temp_min :: "real option"
  temp_max :: "real option"
  pressure :: "int option"
  humidity :: "int option"
  wind_speed :: "real option"
  wind_direction :: "int option"
  cloudiness :: "int option"
  rain_3h :: "real option"
  snow_3h :: "real option"
  retrieved_at :: "string option"

record extreme_event =
  event_row :: forecast_rec
  event_description :: string

record daily_aggregate =
  agg_city_name :: "string option"
  agg_country :: "string option"
  date :: "string option"
  avg_temp :: "real option"
  min_temp :: "real option"
  max_temp :: "real option"
  avg_humidity :: "real option"
  avg_wind_speed :: "real option"

record temperature_anomaly =
  an_city_name :: "string option"
  an_country :: "string option"
  an_forecast_time :: "string option"
  an_temperature :: "real option"
  city_avg_temp :: "real option"
  temp_anomaly :: "real option"

text \<open>
  The part of the SQLite file that transform.py reads and writes.  A table that does not
  exist is \<open>None\<close>.
\<close>

record warehouse =
  forecast_table :: "forecast_rec list option"
  daily_aggregates :: "daily_aggregate list option"
  temperature_anomalies :: "temperature_anomaly list option"
  extreme_weather_events :: "extreme_event list option"

text \<open>
  What transform.py takes from its libraries, whose code is not part of the repository:

    \<^item> \<open>sql_date\<close>: SQLite's \<open>date()\<close> on a cell of column \<open>forecast_time\<close>;
    \<^item> \<open>to_datetime\<close>: whether \<open>pd.to_datetime\<close> converts a column of texts; where it does
      not (a text that is no time, texts in two layouts, a time out of range) it raises
      \<open>ValueError\<close>;
    \<^item> \<open>float_mean\<close>: the float64 mean that pandas computes for the values of a group, given
      in the order of the frame;
    \<^item> \<open>float_minus\<close>: the float64 difference of two floats.
\<close>

record engine =
  sql_date :: "string option \<Rightarrow> string option"
  to_datetime :: "string option list \<Rightarrow> bool"
  float_mean :: "real list \<Rightarrow> real"
  float_minus :: "real \<Rightarrow> real \<Rightarrow> real"

text \<open>
  \<open>SELECT * FROM forecast ORDER BY city_name, forecast_time\<close>.  NULL sorts first and text
  is compared bytewise, as the orders on \<open>option\<close> and \<open>string\<close> do; rows with equal keys keep
  their table order.  A missing table makes \<open>pd.read_sql_query\<close> raise.  Then the columns
  \<open>forecast_time\<close> and \<open>retrieved_at\<close> are converted, in this order.
\<close>

definition get_forecast_data :: "engine \<Rightarrow> warehouse \<Rightarrow> py_error + forecast_rec list" where
  "get_forecast_data eng db =
     (case forecast_table db of
        None \<Rightarrow> Inl DatabaseError
      | Some rows \<Rightarrow>
          let df = sort_key (\<lambda>r. (city_name r, forecast_time r)) rows
          in if \<not> to_datetime eng (map forecast_time df) then Inl ValueError
             else if \<not> to_datetime eng (map retrieved_at df) then Inl ValueError
             else Inr df)"

subsection \<open>Extreme weather events\<close>

text \<open>
  The comparisons of the mask are made on whole columns; there a comparison with a missing
  value is false.
\<close>

definition lt :: "real option \<Rightarrow> real \<Rightarrow> bool" where
  "lt v c = (case v of None \<Rightarrow> False | Some x \<Rightarrow> x < c)"

definition gt :: "real option \<Rightarrow> real \<Rightarrow> bool" where
  "gt v c = (case v of None \<Rightarrow> False | Some x \<Rightarrow> c < x)"

definition extreme_conditions :: "forecast_rec \<Rightarrow> bool" where
  "extreme_conditions row \<longleftrightarrow>
     lt (temperature row) (- 10) \<or>
     gt (temperature row) 40 \<or>
     gt (wind_speed row) 20 \<or>
     gt (rain_3h row) 10 \<or>
     gt (snow_3h row) 10"

text \<open>
  The format specification \<open>.1f\<close>: the value rounded to the nearest tenth, a tie going to the
  even tenth, with a minus sign for a negative value.
\<close>

definition round_half_even :: "real \<Rightarrow> int" where
  "round_half_even q =
     (let f = \<lfloor>q\<rfloor>; d = q - of_int f
      in if d < 1 / 2 then f
         else if 1 / 2 < d then f + 1
         else if even f then f else f + 1)"

definition digit_char :: "nat \<Rightarrow> char" where
  "digit_char d = ''0123456789'' ! d"

fun dec :: "nat \<Rightarrow> string" where
  "dec n = (if n < 10 then [digit_char n] else dec (n div 10) @ [digit_char (n mod 10)])"

declare dec.simps [simp del]

definition format_1f :: "real \<Rightarrow> string" where
  "format_1f x =
     (let t = nat (round_half_even (\<bar>x\<bar> * 10))
      in (if x < 0 then ''-'' else '''') @ dec (t div 10) @ ''.'' @ [digit_char (t mod 10)])"

definition format_cell :: "real option \<Rightarrow> string" where
  "format_cell v = (case v of None \<Rightarrow> ''nan'' | Some x \<Rightarrow> format_1f x)"

text \<open>The degree sign, as its two bytes in UTF-8.\<close>

definition degree :: string where
  "degree = [CHR 0xC2, CHR 0xB0]"

fun join :: "string \<Rightarrow> string list \<Rightarrow> string" where
  "join sep [] = []"
| "join sep [x] = x"
| "join sep (x # y # ys) = x @ sep @ join sep (y # ys)"

text \<open>
  A column in which every row of the table holds NULL is read with dtype \<open>object\<close> and its
  cells are Python's \<open>None\<close>; a column with a number has dtype float64 and holds NaN where the
  table holds NULL.  Selecting rows keeps the dtype.
\<close>

definition none_cells :: "'a option list \<Rightarrow> bool" where
  "none_cells col = list_all (\<lambda>v. v = None) col"

text \<open>
  A comparison in the loop over the rows, on one cell: false for NaN; on \<open>None\<close> it raises
  \<open>TypeError\<close>.
\<close>

definition compare_cell :: "bool \<Rightarrow> real option \<Rightarrow> (real \<Rightarrow> bool) \<Rightarrow> py_error + bool" where
  "compare_cell none_cell v test =
     (case v of
        Some x \<Rightarrow> Inr (test x)
      | None \<Rightarrow> if none_cell then Inl TypeError else Inr False)"

text \<open>
  The body of the loop, for one row of the selected frame: the five tests in turn, each
  adding its text to \<open>event_descriptions\<close>, and the texts joined.
\<close>

definition row_description :: "forecast_rec list \<Rightarrow> forecast_rec \<Rightarrow> py_error + string" where
  "row_description forecast_df row =
     and_then (compare_cell (none_cells (map temperature forecast_df)) (temperature row)
                 (\<lambda>x. x < - 10)) (\<lambda>cold.
     and_then (compare_cell (none_cells (map temperature forecast_df)) (temperature row)
                 (\<lambda>x. 40 < x)) (\<lambda>heat.
     and_then (compare_cell (none_cells (map wind_speed forecast_df)) (wind_speed row)
                 (\<lambda>x. 20 < x)) (\<lambda>wind.
     and_then (compare_cell (none_cells (map rain_3h forecast_df)) (rain_3h row)
                 (\<lambda>x. 10 < x)) (\<lambda>rain.
     and_then (compare_cell (none_cells (map snow_3h forecast_df)) (snow_3h row)
                 (\<lambda>x. 10 < x)) (\<lambda>snow.
       Inr (join ''; ''
              ((if cold
                then [''Extreme cold: '' @ format_cell (temperature row) @ degree @ ''C'']
                else []) @
               (if heat
                then [''Extreme heat: '' @ format_cell (temperature row) @ degree @ ''C'']
                else []) @
               (if wind
                then [''Strong winds: '' @ format_cell (wind_speed row) @ '' m/s''] else []) @
               (if rain
                then [''Heavy rain: '' @ format_cell (rain_3h row) @ '' mm/3h''] else []) @
               (if snow
                then [''Heavy snow: '' @ format_cell (snow_3h row) @ '' mm/3h'']
                else []))))))))"

text \<open>The loop: the descriptions of the rows in order; the first exception ends it.\<close>

fun description_loop :: "forecast_rec list \<Rightarrow> forecast_rec list \<Rightarrow> py_error + string list" where
  "description_loop forecast_df [] = Inr []"
| "description_loop forecast_df (row # rows) =
     and_then (row_description forecast_df row) (\<lambda>d.
     and_then (description_loop forecast_df rows) (\<lambda>ds. Inr (d # ds)))"

definition find_extreme_weather_events :: "engine \<Rightarrow> warehouse \<Rightarrow> py_error + extreme_event list" where
  "find_extreme_weather_events eng db =
     and_then (get_forecast_data eng db) (\<lambda>forecast_df.
       let extreme_events = filter extreme_conditions forecast_df
       in and_then (description_loop forecast_df extreme_events) (\<lambda>conditions.
            Inr (map (\<lambda>p. \<lparr>event_row = fst p, event_description = snd p\<rparr>)
                   (zip extreme_events conditions))))"

subsection \<open>Daily aggregates\<close>

text \<open>The values of a column that are not NULL.\<close>

fun non_null :: "'a option list \<Rightarrow> 'a list" where
  "non_null [] = []"
| "non_null (None # vs) = non_null vs"
| "non_null (Some x # vs) = x # non_null vs"

text \<open>
  The SQL aggregates \<open>avg\<close>, \<open>min\<close> and \<open>max\<close> skip NULL and give NULL for a group with no
  value.  \<open>avg\<close> is the sum divided by the number of values; the rounding of the float sum
  and quotient is left out.
\<close>

definition sql_avg :: "real option list \<Rightarrow> real option" where
  "sql_avg vs =
     (case non_null vs of [] \<Rightarrow> None | x # xs \<Rightarrow> Some (sum_list (x # xs) / real (length (x # xs))))"

definition sql_min :: "real option list \<Rightarrow> real option" where
  "sql_min vs = (case non_null vs of [] \<Rightarrow> None | x # xs \<Rightarrow> Some (fold min xs x))"

definition sql_max :: "real option list \<Rightarrow> real option" where
  "sql_max vs = (case non_null vs of [] \<Rightarrow> None | x # xs \<Rightarrow> Some (fold max xs x))"

type_synonym group_key = "string option \<times> string option \<times> string option"

text \<open>
  The key of \<open>GROUP BY city_name, country, date(forecast_time)\<close>.  \<open>GROUP BY\<close> puts NULL keys
  in one group.
\<close>

definition group_key :: "engine \<Rightarrow> forecast_rec \<Rightarrow> group_key" where
  "group_key eng r = (city_name r, country r, sql_date eng (forecast_time r))"

text \<open>
  The groups of the query with their keys, in the order of \<open>ORDER BY city_name, date\<close>;
  groups that agree on both come in the order of their countries.
\<close>

definition daily_groups :: "engine \<Rightarrow> forecast_rec list \<Rightarrow> (group_key \<times> forecast_rec list) list" where
  "daily_groups eng rows =
     map (\<lambda>k. (k, filter (\<lambda>r. group_key eng r = k) rows))
       (sort_key (\<lambda>(c, co, d). (c, d)) (sort (remdups (map (group_key eng) rows))))"

definition daily_row :: "group_key \<times> forecast_rec list \<Rightarrow> daily_aggregate" where
  "daily_row g =
     (case g of ((c, co, d), rs) \<Rightarrow>
        \<lparr>agg_city_name = c, agg_country = co, date = d,
         avg_temp = sql_avg (map temperature rs),
         min_temp = sql_min (map temperature rs),
         max_temp = sql_max (map temperature rs),
         avg_humidity = sql_avg (map (\<lambda>r. map_option real_of_int (humidity r)) rs),
         avg_wind_speed = sql_avg (map wind_speed rs)\<rparr>)"

text \<open>The query, and the conversion of column \<open>date\<close> of its result.\<close>

definition calculate_daily_aggregates :: "engine \<Rightarrow> warehouse \<Rightarrow> py_error + daily_aggregate list" where
  "calculate_daily_aggregates eng db =
     (case forecast_table db of
        None \<Rightarrow> Inl DatabaseError
      | Some rows \<Rightarrow>
          let df = map daily_row (daily_groups eng rows)
          in if to_datetime eng (map date df) then Inr df else Inl ValueError)"

subsection \<open>Temperature anomalies\<close>

text \<open>The pandas \<open>mean\<close> skips missing values and is missing for a group without values.\<close>

definition mean :: "engine \<Rightarrow> real option list \<Rightarrow> real option" where
  "mean eng vs = (case non_null vs of [] \<Rightarrow> None | x # xs \<Rightarrow> Some (float_mean eng (x # xs)))"

text \<open>
  \<open>forecast_df.groupby('city_name')['temperature'].mean().reset_index()\<close>: one row per city
  name, the names sorted; \<open>groupby\<close> drops the rows whose key is missing.
\<close>

definition city_avg_temp_frame :: "engine \<Rightarrow> forecast_rec list \<Rightarrow> (string \<times> real option) list" where
  "city_avg_temp_frame eng forecast_df =
     map (\<lambda>c. (c, mean eng (map temperature (filter (\<lambda>r. city_name r = Some c) forecast_df))))
       (sort (remdups (non_null (map city_name forecast_df))))"

text \<open>
  \<open>pd.merge(forecast_df, city_avg_temp, on='city_name')\<close>: the inner join, in the order of
  the left frame; a left row is paired with every right row of the same city name, and a
  left row without a partner is dropped.
\<close>

definition merge_on_city_name ::
  "forecast_rec list \<Rightarrow> (string \<times> real option) list \<Rightarrow> (forecast_rec \<times> real option) list"
where
  "merge_on_city_name left right =
     concat (map (\<lambda>r. case city_name r of
                         None \<Rightarrow> []
                       | Some c \<Rightarrow> map (\<lambda>p. (r, snd p)) (filter (\<lambda>p. fst p = c) right)) left)"

text \<open>The difference of two columns: missing where either cell is missing.\<close>

definition minus_cell :: "engine \<Rightarrow> real option \<Rightarrow> real option \<Rightarrow> real option" where
  "minus_cell eng a b =
     (case (a, b) of (Some x, Some y) \<Rightarrow> Some (float_minus eng x y) | _ \<Rightarrow> None)"

definition anomaly_row :: "engine \<Rightarrow> forecast_rec \<times> real option \<Rightarrow> temperature_anomaly" where
  "anomaly_row eng p =
     (case p of (r, m) \<Rightarrow>
        \<lparr>an_city_name = city_name r, an_country = country r,
         an_forecast_time = forecast_time r, an_temperature = temperature r,
         city_avg_temp = m, temp_anomaly = minus_cell eng (temperature r) m\<rparr>)"

definition calculate_temperature_anomalies ::
  "engine \<Rightarrow> warehouse \<Rightarrow> py_error + temperature_anomaly list"
where
  "calculate_temperature_anomalies eng db =
     and_then (get_forecast_data eng db) (\<lambda>forecast_df.
       Inr (map (anomaly_row eng)
              (merge_on_city_name forecast_df (city_avg_temp_frame eng forecast_df))))"

subsection \<open>Storing the derived tables\<close>

text \<open>
  \<open>store_transformed_data\<close> creates the table from the frame when it does not exist and
  appends the frame otherwise.  The table it writes is the one named by the caller; here
  the caller passes the table's content and stores the result.
\<close>

definition store_transformed_data :: "'a list \<Rightarrow> 'a list option \<Rightarrow> 'a list option" where
  "store_transformed_data df tbl = (case tbl of None \<Rightarrow> Some df | Some old \<Rightarrow> Some (old @ df))"

text \<open>
  \<open>run_transformations\<close> returns the exception it re-raises, if any, and the warehouse as
  the statements executed before have left it.
\<close>

definition run_transformations :: "engine \<Rightarrow> warehouse \<Rightarrow> py_error option \<times> warehouse" where
  "run_transformations eng db =
     (case calculate_daily_aggregates eng db of
        Inl e \<Rightarrow> (Some e, db)
      | Inr daily_agg \<Rightarrow>
          let db1 = db\<lparr>daily_aggregates :=
                         store_transformed_data daily_agg (daily_aggregates db)\<rparr>
          in (case calculate_temperature_anomalies eng db1 of
                Inl e \<Rightarrow> (Some e, db1)
              | Inr temp_anomalies \<Rightarrow>
                  let db2 = db1\<lparr>temperature_anomalies :=
                                  store_transformed_data temp_anomalies (temperature_anomalies db1)\<rparr>
                  in (case find_extreme_weather_events eng db2 of
                        Inl e \<Rightarrow> (Some e, db2)
                      | Inr extreme_events \<Rightarrow>
                          (None,
                           if extreme_events \<noteq> []
                           then db2\<lparr>extreme_weather_events :=
                                      store_transformed_data extreme_events
                                        (extreme_weather_events db2)\<rparr>
                           else db2))))"

section \<open>load.py: the relational loader\<close>

text \<open>
  What \<open>json.load\<close> returns: a number without fraction or exponent is a Python \<open>int\<close>, any
  other number a \<open>float\<close> (taken as the real it denotes), an object is a \<open>dict\<close>, given as
  the list of its items, whose first item for a key is the key's value.
\<close>

datatype json =
    JNull | JBool bool | JInt int | JFloat real | JStr string
  | JArr "json list" | JObj "(string \<times> json) list"

text \<open>
  The values of the loader's local variables: what was read from the payload, or a
  \<open>datetime\<close>, kept as the text that sqlite3 writes for it.
\<close>

datatype pyval = Json json | Datetime string

datatype sqlval = SNull | SInt int | SReal real | SText string

text \<open>A table row: the columns of the \<open>INSERT\<close> statement with the values bound to them.\<close>

type_synonym row = "(string \<times> sqlval) list"

record database =
  current_weather :: "row list option"
  forecast :: "row list option"
  raw_data_files :: "row list option"

text \<open>The content of a raw artifact: text that \<open>json.load\<close> rejects, or the value it returns.\<close>

datatype artifact = Unreadable | Parsed json

text \<open>
  The log: \<open>LogInfo city\<close> for "Loaded ... data for city into database", \<open>LogError path e\<close> for
  "Error loading ... data from path: e".
\<close>

datatype log_entry = LogInfo pyval | LogError string py_error

text \<open>
  What the loader reads from outside: the files, the local-time conversion
  \<open>datetime.fromtimestamp\<close> (which raises for a time out of range), and the wall clock
  \<open>datetime.now()\<close> during the n-th load of an artifact.
\<close>

record world =
  files :: "string \<Rightarrow> artifact option"
  fromtimestamp :: "real \<Rightarrow> py_error + string"
  clock :: "nat \<Rightarrow> string"

record loader_state =
  st_db :: database
  st_log :: "log_entry list"
  st_loads :: nat

definition create_table_if_not_exists :: "row list option \<Rightarrow> row list option" where
  "create_table_if_not_exists tbl = (case tbl of None \<Rightarrow> Some [] | Some rows \<Rightarrow> Some rows)"

text \<open>\<open>sqlite3.connect\<close> creates an empty database when the file does not exist.\<close>

definition connect :: "database option \<Rightarrow> database" where
  "connect dbfile =
     (case dbfile of
        None \<Rightarrow> \<lparr>current_weather = None, forecast = None, raw_data_files = None\<rparr>
      | Some db \<Rightarrow> db)"

definition init_database :: "database option \<Rightarrow> database" where
  "init_database dbfile =
     (let db = connect dbfile
      in \<lparr>current_weather = create_table_if_not_exists (current_weather db),
          forecast = create_table_if_not_exists (forecast db),
          raw_data_files = create_table_if_not_exists (raw_data_files db)\<rparr>)"

text \<open>\<open>d.get(key, default)\<close>; a value that is not a \<open>dict\<close> has no method \<open>get\<close>.\<close>

fun py_get :: "json \<Rightarrow> string \<Rightarrow> json \<Rightarrow> py_error + json" where
  "py_get (JObj kvs) k d = Inr (case map_of kvs k of None \<Rightarrow> d | Some v \<Rightarrow> v)"
| "py_get _ k d = Inl AttributeError"

text \<open>
  \<open>x[0]\<close>.  The first character of a text is given as its first byte; the loader only calls
  \<open>get\<close> on it, which raises for every text.
\<close>

fun py_first :: "json \<Rightarrow> py_error + json" where
  "py_first (JArr []) = Inl IndexError"
| "py_first (JArr (x # xs)) = Inr x"
| "py_first (JStr []) = Inl IndexError"
| "py_first (JStr (c # cs)) = Inr (JStr [c])"
| "py_first (JObj kvs) = Inl KeyError"
| "py_first _ = Inl TypeError"

text \<open>What a \<open>for\<close> loop iterates over: the items of a list, the keys of a dict, the characters of a text.\<close>

fun py_iter :: "json \<Rightarrow> py_error + json list" where
  "py_iter (JArr xs) = Inr xs"
| "py_iter (JObj kvs) = Inr (map JStr (remdups (map fst kvs)))"
| "py_iter (JStr s) = Inr (map (\<lambda>c. JStr [c]) s)"
| "py_iter _ = Inl TypeError"

definition as_json :: "py_error + json \<Rightarrow> py_error + pyval" where
  "as_json m = and_then m (\<lambda>v. Inr (Json v))"

text \<open>\<open>data.get(k1, {}).get(k2, d)\<close>.\<close>

definition get2 :: "json \<Rightarrow> string \<Rightarrow> string \<Rightarrow> json \<Rightarrow> py_error + pyval" where
  "get2 data k1 k2 d = as_json (and_then (py_get data k1 (JObj [])) (\<lambda>x. py_get x k2 d))"

text \<open>\<open>data.get('weather', [{}])[0].get(k)\<close>.\<close>

definition weather_field :: "json \<Rightarrow> string \<Rightarrow> py_error + pyval" where
  "weather_field data k =
     as_json (and_then (py_get data ''weather'' (JArr [JObj []])) (\<lambda>w.
              and_then (py_first w) (\<lambda>x. py_get x k JNull)))"

text \<open>\<open>datetime.fromtimestamp(v)\<close>: a number is required; \<open>True\<close> and \<open>False\<close> are the integers 1 and 0.\<close>

definition py_fromtimestamp :: "world \<Rightarrow> json \<Rightarrow> py_error + pyval" where
  "py_fromtimestamp w v =
     (case v of
        JInt i \<Rightarrow> and_then (fromtimestamp w (real_of_int i)) (\<lambda>t. Inr (Datetime t))
      | JFloat x \<Rightarrow> and_then (fromtimestamp w x) (\<lambda>t. Inr (Datetime t))
      | JBool b \<Rightarrow> and_then (fromtimestamp w (if b then 1 else 0)) (\<lambda>t. Inr (Datetime t))
      | _ \<Rightarrow> Inl TypeError)"

text \<open>A sequence of assignments \<open>name = expression\<close>: the first expression that raises ends it.\<close>

fun assignments :: "(string \<times> (py_error + 'a)) list \<Rightarrow> py_error + (string \<times> 'a) list" where
  "assignments [] = Inr []"
| "assignments ((name, m) # rest) =
     and_then m (\<lambda>v. and_then (assignments rest) (\<lambda>vs. Inr ((name, v) # vs)))"

text \<open>The value of a local variable (every name read below has been assigned before).\<close>

definition local_var :: "(string \<times> pyval) list \<Rightarrow> string \<Rightarrow> pyval" where
  "local_var vars name = (case map_of vars name of None \<Rightarrow> Json JNull | Some v \<Rightarrow> v)"

text \<open>
  How sqlite3 binds a Python value: \<open>None\<close> is NULL, an \<open>int\<close> must fit 64 bits, a \<open>bool\<close> is
  an \<open>int\<close>, a \<open>datetime\<close> is written as text, a \<open>list\<close> or \<open>dict\<close> is not supported.  The
  rows keep the value as it was bound; the conversions of SQLite's column affinity are not
  modelled.
\<close>

fun adapt :: "pyval \<Rightarrow> py_error + sqlval" where
  "adapt (Json JNull) = Inr SNull"
| "adapt (Json (JBool b)) = Inr (SInt (if b then 1 else 0))"
| "adapt (Json (JInt i)) =
     (if - (2 ^ 63) \<le> i \<and> i < 2 ^ 63 then Inr (SInt i) else Inl OverflowError)"
| "adapt (Json (JFloat x)) = Inr (SReal x)"
| "adapt (Json (JStr s)) = Inr (SText s)"
| "adapt (Json (JArr xs)) = Inl ProgrammingError"
| "adapt (Json (JObj kvs)) = Inl ProgrammingError"
| "adapt (Datetime t) = Inr (SText t)"

text \<open>
  \<open>cursor.execute('INSERT INTO table (columns) VALUES (?, ...)', values)\<close> inside the open
  transaction: the statement needs the table, then the values are bound in order, and the
  row is appended.
\<close>

definition execute_insert :: "row list option \<Rightarrow> (string \<times> pyval) list \<Rightarrow> py_error + row list option" where
  "execute_insert tbl params =
     (case tbl of
        None \<Rightarrow> Inl OperationalError
      | Some rows \<Rightarrow>
          and_then (assignments (map (\<lambda>p. (fst p, adapt (snd p))) params)) (\<lambda>r.
            Inr (Some (rows @ [r]))))"

definition json_load :: "world \<Rightarrow> string \<Rightarrow> py_error + json" where
  "json_load w file_path =
     (case files w file_path of
        None \<Rightarrow> Inl FileNotFoundError
      | Some Unreadable \<Rightarrow> Inl JSONDecodeError
      | Some (Parsed data) \<Rightarrow> Inr data)"

subsection \<open>Observations\<close>

text \<open>
  The assignments of the \<open>try\<close> block of \<open>load_current_weather\<close>, in the order of the source.
\<close>

definition current_weather_values :: "world \<Rightarrow> json \<Rightarrow> py_error + (string \<times> pyval) list" where
  "current_weather_values w data =
     assignments
       [(''retrieved_at'', as_json (py_get data ''retrieved_at'' JNull)),
        (''city_id'', as_json (py_get data ''id'' JNull)),
        (''city_name'', as_json (py_get data ''name'' JNull)),
        (''country'', get2 data ''sys'' ''country'' JNull),
        (''latitude'', get2 data ''coord'' ''lat'' JNull),
        (''longitude'', get2 data ''coord'' ''lon'' JNull),
        (''weather_main'', weather_field data ''main''),
        (''weather_description'', weather_field data ''description''),
        (''temperature'', get2 data ''main'' ''temp'' JNull),
        (''feels_like'', get2 data ''main'' ''feels_like'' JNull),
        (''temp_min'', get2 data ''main'' ''temp_min'' JNull),
        (''temp_max'', get2 data ''main'' ''temp_max'' JNull),
        (''pressure'', get2 data ''main'' ''pressure'' JNull),
        (''humidity'', get2 data ''main'' ''humidity'' JNull),
        (''wind_speed'', get2 data ''wind'' ''speed'' JNull),
        (''wind_direction'', get2 data ''wind'' ''deg'' JNull),
        (''cloudiness'', get2 data ''clouds'' ''all'' JNull),
        (''rain_1h'', get2 data ''rain'' ''1h'' (JInt 0)),
        (''snow_1h'', get2 data ''snow'' ''1h'' (JInt 0)),
        (''timestamp'', and_then (py_get data ''dt'' (JInt 0)) (py_fromtimestamp w)),
        (''sunrise'',
           and_then (and_then (py_get data ''sys'' (JObj [])) (\<lambda>x. py_get x ''sunrise'' (JInt 0)))
             (py_fromtimestamp w)),
        (''sunset'',
           and_then (and_then (py_get data ''sys'' (JObj [])) (\<lambda>x. py_get x ''sunset'' (JInt 0)))
             (py_fromtimestamp w))]"

text \<open>
  The body of the \<open>try\<close> block up to \<open>conn.commit()\<close>: the city name and the database as the
  transaction would commit it, or the exception raised.  The \<open>INSERT\<close> lists the variables in the order of
  their assignment, except that \<open>retrieved_at\<close>, assigned first, is bound last.
\<close>

definition raw_data_file :: "string \<Rightarrow> string \<Rightarrow> pyval \<Rightarrow> string \<Rightarrow> (string \<times> pyval) list" where
  "raw_data_file file_path data_type city now =
     [(''file_path'', Json (JStr file_path)), (''data_type'', Json (JStr data_type)),
      (''city'', city), (''timestamp'', Datetime now)]"

definition current_weather_transaction ::
  "world \<Rightarrow> string \<Rightarrow> string \<Rightarrow> json \<Rightarrow> database \<Rightarrow> py_error + pyval \<times> database"
where
  "current_weather_transaction w file_path now data db =
     and_then (current_weather_values w data) (\<lambda>vars.
     and_then (execute_insert (current_weather db) (rotate1 vars)) (\<lambda>cw.
     and_then (execute_insert (raw_data_files db)
                 (raw_data_file file_path ''current'' (local_var vars ''city_name'') now)) (\<lambda>rf.
     Inr (local_var vars ''city_name'', db\<lparr>current_weather := cw, raw_data_files := rf\<rparr>))))"

text \<open>
  \<open>load_current_weather\<close>: \<open>json.load\<close> runs before the \<open>try\<close> block, so what it raises leaves
  the function.  An exception of the \<open>try\<close> block is logged and the transaction rolled back:
  the database stays as it was.
\<close>

definition load_current_weather :: "world \<Rightarrow> string \<Rightarrow> loader_state \<Rightarrow> py_error + loader_state" where
  "load_current_weather w file_path st =
     and_then (json_load w file_path) (\<lambda>data.
       Inr (case current_weather_transaction w file_path (clock w (st_loads st)) data (st_db st) of
              Inr (city, db') \<Rightarrow>
                st\<lparr>st_db := db', st_log := st_log st @ [LogInfo city],
                   st_loads := Suc (st_loads st)\<rparr>
            | Inl e \<Rightarrow>
                st\<lparr>st_log := st_log st @ [LogError file_path e],
                   st_loads := Suc (st_loads st)\<rparr>))"

subsection \<open>Forecasts\<close>

definition forecast_header :: "json \<Rightarrow> py_error + (string \<times> pyval) list" where
  "forecast_header data =
     assignments
       [(''retrieved_at'', as_json (py_get data ''retrieved_at'' JNull)),
        (''city_id'', get2 data ''city'' ''id'' JNull),
        (''city_name'', get2 data ''city'' ''name'' JNull),
        (''country'', get2 data ''city'' ''country'' JNull)]"

definition forecast_values :: "world \<Rightarrow> json \<Rightarrow> py_error + (string \<times> pyval) list" where
  "forecast_values w slot =
     assignments
       [(''forecast_time'', and_then (py_get slot ''dt'' (JInt 0)) (py_fromtimestamp w)),
        (''weather_main'', weather_field slot ''main''),
        (''weather_description'', weather_field slot ''description''),
        (''temperature'', get2 slot ''main'' ''temp'' JNull),
        (''feels_like'', get2 slot ''main'' ''feels_like'' JNull),
        (''temp_min'', get2 slot ''main'' ''temp_min'' JNull),
        (''temp_max'', get2 slot ''main'' ''temp_max'' JNull),
        (''pressure'', get2 slot ''main'' ''pressure'' JNull),
        (''humidity'', get2 slot ''main'' ''humidity'' JNull),
        (''wind_speed'', get2 slot ''wind'' ''speed'' JNull),
        (''wind_direction'', get2 slot ''wind'' ''deg'' JNull),
        (''cloudiness'', get2 slot ''clouds'' ''all'' JNull),
        (''rain_3h'', get2 slot ''rain'' ''3h'' (JInt 0)),
        (''snow_3h'', get2 slot ''snow'' ''3h'' (JInt 0))]"

text \<open>
  The loop over the forecast list: one \<open>INSERT\<close> per entry (the loop variable \<open>forecast\<close> of
  the source is \<open>slot\<close> here), all in the same transaction.
\<close>

fun forecast_loop ::
  "world \<Rightarrow> (string \<times> pyval) list \<Rightarrow> json list \<Rightarrow> row list option \<Rightarrow> py_error + row list option"
where
  "forecast_loop w header [] tbl = Inr tbl"
| "forecast_loop w header (slot # rest) tbl =
     and_then (forecast_values w slot) (\<lambda>vars.
     and_then (execute_insert tbl (rotate1 (header @ vars))) (\<lambda>tbl'.
     forecast_loop w header rest tbl'))"

definition forecast_transaction ::
  "world \<Rightarrow> string \<Rightarrow> string \<Rightarrow> json \<Rightarrow> database \<Rightarrow> py_error + pyval \<times> database"
where
  "forecast_transaction w file_path now data db =
     and_then (forecast_header data) (\<lambda>header.
     and_then (and_then (py_get data ''list'' (JArr [])) py_iter) (\<lambda>entries.
     and_then (forecast_loop w header entries (forecast db)) (\<lambda>fc.
     and_then (execute_insert (raw_data_files db)
                 (raw_data_file file_path ''forecast'' (local_var header ''city_name'') now)) (\<lambda>rf.
     Inr (local_var header ''city_name'', db\<lparr>forecast := fc, raw_data_files := rf\<rparr>)))))"

definition load_forecast_data :: "world \<Rightarrow> string \<Rightarrow> loader_state \<Rightarrow> py_error + loader_state" where
  "load_forecast_data w file_path st =
     and_then (json_load w file_path) (\<lambda>data.
       Inr (case forecast_transaction w file_path (clock w (st_loads st)) data (st_db st) of
              Inr (city, db') \<Rightarrow>
                st\<lparr>st_db := db', st_log := st_log st @ [LogInfo city],
                   st_loads := Suc (st_loads st)\<rparr>
            | Inl e \<Rightarrow>
                st\<lparr>st_log := st_log st @ [LogError file_path e],
                   st_loads := Suc (st_loads st)\<rparr>))"

subsection \<open>The batch\<close>

text \<open>
  The dictionary that \<open>extract_weather_data\<close> returns: for each kind the artifact path of
  each city, in the order of insertion.
\<close>

record results =
  res_current :: "(string \<times> string) list"
  res_forecast :: "(string \<times> string) list"

text \<open>A \<open>for\<close> loop whose body may raise: the exception ends the loop and leaves the function.\<close>

fun for_each :: "('a \<Rightarrow> 's \<Rightarrow> py_error + 's) \<Rightarrow> 'a list \<Rightarrow> 's \<Rightarrow> py_error + 's" where
  "for_each body [] st = Inr st"
| "for_each body (x # xs) st = and_then (body x st) (for_each body xs)"

text \<open>
  \<open>load_data_files\<close>, from the database file as it is found (\<open>None\<close> when there is no file)
  and an empty log.
\<close>

definition load_data_files :: "world \<Rightarrow> results \<Rightarrow> database option \<Rightarrow> py_error + loader_state" where
  "load_data_files w res dbfile =
     (let db = (case dbfile of None \<Rightarrow> init_database None | Some db \<Rightarrow> db);
          st = \<lparr>st_db = db, st_log = [], st_loads = 0\<rparr>
      in and_then (for_each (\<lambda>item. load_current_weather w (snd item)) (res_current res) st)
           (for_each (\<lambda>item. load_forecast_data w (snd item)) (res_forecast res)))"

section \<open>extract.py: the source client and the raw store\<close>

text \<open>
  What \<open>requests.get\<close> meets: no connection, or a response with a status code and a body,
  which \<open>response.json()\<close> decodes (\<open>None\<close>: the body is not JSON).
\<close>

datatype response = ConnectionError | Response nat "json option"

text \<open>
  What the outside does when one kind of data is fetched for one city: the provider's
  response, the two readings of \<open>datetime.now()\<close> (as \<open>isoformat()\<close> and as
  \<open>strftime('%Y%m%d_%H%M%S')\<close>), and whether the raw file can be written.
\<close>

record fetch =
  response :: response
  retrieved_at_now :: string
  filename_stamp :: string
  writable :: bool

datatype kind = Current | Forecast

text \<open>
  The surroundings of a run: the API key of the environment, what the outside does for each
  fetch, and \<open>str.lower\<close>, which lowers every cased letter of a text.
\<close>

record extract_env =
  api_key :: "string option"
  provider :: "kind \<Rightarrow> string \<Rightarrow> fetch"
  str_lower :: "string \<Rightarrow> string"

definition load_api_key :: "extract_env \<Rightarrow> py_error + string" where
  "load_api_key env =
     (case api_key env of
        None \<Rightarrow> Inl ValueError
      | Some k \<Rightarrow> if k = [] then Inl ValueError else Inr k)"

text \<open>\<open>d[key] = value\<close> on a dict: a key that is present keeps its place.\<close>

fun dict_set :: "'k \<Rightarrow> 'v \<Rightarrow> ('k \<times> 'v) list \<Rightarrow> ('k \<times> 'v) list" where
  "dict_set k v [] = [(k, v)]"
| "dict_set k v (p # ps) = (if fst p = k then (k, v) # ps else p # dict_set k v ps)"

text \<open>
  \<open>get_current_weather\<close> and \<open>get_forecast\<close> differ in the URL only.  \<open>raise_for_status\<close>
  raises for the codes 400 to 599 and for no other code; that, a failed connection and a
  body that is not JSON are \<open>RequestException\<close>s, which are caught and give \<open>None\<close>.
  Storing \<open>retrieved_at\<close> in a body that is JSON but not an object raises \<open>TypeError\<close>, which
  is not caught.
\<close>

definition get_weather :: "extract_env \<Rightarrow> kind \<Rightarrow> string \<Rightarrow> string \<Rightarrow> py_error + json option" where
  "get_weather env k city key =
     (case response (provider env k city) of
        ConnectionError \<Rightarrow> Inr None
      | Response code body \<Rightarrow>
          if 400 \<le> code \<and> code < 600 then Inr None
          else (case body of
                  None \<Rightarrow> Inr None
                | Some (JObj kvs) \<Rightarrow>
                    Inr (Some (JObj (dict_set ''retrieved_at''
                                      (JStr (retrieved_at_now (provider env k city))) kvs)))
                | Some _ \<Rightarrow> Inl TypeError))"

definition get_current_weather :: "extract_env \<Rightarrow> string \<Rightarrow> string \<Rightarrow> py_error + json option" where
  "get_current_weather env city key = get_weather env Current city key"

definition get_forecast :: "extract_env \<Rightarrow> string \<Rightarrow> string \<Rightarrow> py_error + json option" where
  "get_forecast env city key = get_weather env Forecast city key"

definition kind_name :: "kind \<Rightarrow> string" where
  "kind_name k = (case k of Current \<Rightarrow> ''current'' | Forecast \<Rightarrow> ''forecast'')"

text \<open>\<open>city.split(',')[0].lower().replace(' ', '_')\<close> and the file name built from it.\<close>

definition raw_filename :: "extract_env \<Rightarrow> kind \<Rightarrow> string \<Rightarrow> string \<Rightarrow> string" where
  "raw_filename env k city stamp =
     (let name = map (\<lambda>c. if c = CHR '' '' then CHR ''_'' else c)
                   (str_lower env (takeWhile (\<lambda>c. c \<noteq> CHR '','') city))
      in ''raw_data/'' @ kind_name k @ ''_'' @ name @ ''_'' @ stamp @ ''.json'')"

type_synonym raw_store = "string \<Rightarrow> json option"

text \<open>\<open>save_raw_data\<close> writes the file (replacing one of the same name) and returns its name.\<close>

definition save_raw_data ::
  "extract_env \<Rightarrow> json \<Rightarrow> kind \<Rightarrow> string \<Rightarrow> raw_store \<Rightarrow> py_error + string \<times> raw_store"
where
  "save_raw_data env data k city store =
     (let filename = raw_filename env k city (filename_stamp (provider env k city))
      in if writable (provider env k city)
         then Inr (filename, store(filename \<mapsto> data))
         else Inl OSError)"

text \<open>The truth value of \<open>if current_data:\<close> for what \<open>get_weather\<close> returns.\<close>

definition truthy :: "json option \<Rightarrow> bool" where
  "truthy v = (case v of Some (JObj kvs) \<Rightarrow> kvs \<noteq> [] | _ \<Rightarrow> False)"

definition record_path :: "kind \<Rightarrow> string \<Rightarrow> string \<Rightarrow> results \<Rightarrow> results" where
  "record_path k city file_path res =
     (case k of
        Current \<Rightarrow> res\<lparr>res_current := dict_set city file_path (res_current res)\<rparr>
      | Forecast \<Rightarrow> res\<lparr>res_forecast := dict_set city file_path (res_forecast res)\<rparr>)"

text \<open>One half of the loop body: fetch one kind for one city, save and record it.\<close>

definition fetch_and_save ::
  "extract_env \<Rightarrow> string \<Rightarrow> kind \<Rightarrow> string \<Rightarrow> results \<times> raw_store \<Rightarrow> py_error + results \<times> raw_store"
where
  "fetch_and_save env key k city st =
     and_then (get_weather env k city key) (\<lambda>data.
       if truthy data
       then (case data of
               Some payload \<Rightarrow>
                 and_then (save_raw_data env payload k city (snd st)) (\<lambda>saved.
                   Inr (record_path k city (fst saved) (fst st), snd saved))
             | None \<Rightarrow> Inr st)
       else Inr st)"

definition extract_weather_data ::
  "extract_env \<Rightarrow> string list \<Rightarrow> raw_store \<Rightarrow> py_error + results \<times> raw_store"
where
  "extract_weather_data env cities store =
     and_then (load_api_key env) (\<lambda>key.
       for_each (\<lambda>city st.
           and_then (fetch_and_save env key Current city st) (fetch_and_save env key Forecast city))
         cities (\<lparr>res_current = [], res_forecast = []\<rparr>, store))"


section \<open>The specification's wording\<close>

text \<open>
  The five extreme-condition predicates in the order of the specification (cold, heat,
  wind, rain, snow), each with its label, the measurement it tests and its unit; a clause
  is "label: value unit" with the value to one decimal place.
\<close>

datatype predicate = Cold | Heat | Wind | Rain | Snow

fun matches :: "forecast_rec \<Rightarrow> predicate \<Rightarrow> bool" where
  "matches r Cold = (case temperature r of None \<Rightarrow> False | Some t \<Rightarrow> t < - 10)"
| "matches r Heat = (case temperature r of None \<Rightarrow> False | Some t \<Rightarrow> 40 < t)"
| "matches r Wind = (case wind_speed r of None \<Rightarrow> False | Some v \<Rightarrow> 20 < v)"
| "matches r Rain = (case rain_3h r of None \<Rightarrow> False | Some v \<Rightarrow> 10 < v)"
| "matches r Snow = (case snow_3h r of None \<Rightarrow> False | Some v \<Rightarrow> 10 < v)"

fun label :: "predicate \<Rightarrow> string" where
  "label Cold = ''Extreme cold''"
| "label Heat = ''Extreme heat''"
| "label Wind = ''Strong winds''"
| "label Rain = ''Heavy rain''"
| "label Snow = ''Heavy snow''"

fun unit_of :: "predicate \<Rightarrow> string" where
  "unit_of Cold = degree @ ''C''"
| "unit_of Heat = degree @ ''C''"
| "unit_of Wind = '' m/s''"
| "unit_of Rain = '' mm/3h''"
| "unit_of Snow = '' mm/3h''"

fun measured :: "forecast_rec \<Rightarrow> predicate \<Rightarrow> real option" where
  "measured r Cold = temperature r"
| "measured r Heat = temperature r"
| "measured r Wind = wind_speed r"
| "measured r Rain = rain_3h r"
| "measured r Snow = snow_3h r"

definition clause :: "forecast_rec \<Rightarrow> predicate \<Rightarrow> string" where
  "clause r p = label p @ '': '' @ format_cell (measured r p) @ unit_of p"


text \<open>The decimal numeral that a string of digits denotes.\<close>

definition digit_value :: "char \<Rightarrow> nat" where
  "digit_value c = of_char c - 48"

definition undec :: "string \<Rightarrow> nat" where
  "undec s = foldl (\<lambda>a c. 10 * a + digit_value c) 0 s"

text \<open>
  The mean temperature of a city name over a frame: the float64 mean of the temperatures,
  those that are not missing, of all records with that name, whatever their country; missing
  when there is none.
\<close>

definition city_mean :: "engine \<Rightarrow> forecast_rec list \<Rightarrow> string option \<Rightarrow> real option" where
  "city_mean eng df c =
     (let temps = List.map_filter (\<lambda>r. if city_name r = c then temperature r else None) df
      in if temps = [] then None else Some (float_mean eng temps))"

text \<open>The anomaly row that the specification describes for a record of a frame.\<close>

definition spec_anomaly :: "engine \<Rightarrow> forecast_rec list \<Rightarrow> forecast_rec \<Rightarrow> temperature_anomaly" where
  "spec_anomaly eng df r =
     \<lparr>an_city_name = city_name r, an_country = country r,
      an_forecast_time = forecast_time r, an_temperature = temperature r,
      city_avg_temp = city_mean eng df (city_name r),
      temp_anomaly =
        (case temperature r of
           None \<Rightarrow> None
         | Some t \<Rightarrow> map_option (float_minus eng t) (city_mean eng df (city_name r)))\<rparr>"

text \<open>The frame of a table: its records in the order of city name and forecast time.\<close>

definition frame :: "forecast_rec list \<Rightarrow> forecast_rec list" where
  "frame rows = sort_key (\<lambda>r. (city_name r, forecast_time r)) rows"

text \<open>
  Each of the four columns that the extreme-condition predicates test holds a number in
  some row.
\<close>

definition tested_columns_numeric :: "forecast_rec list \<Rightarrow> bool" where
  "tested_columns_numeric rows \<longleftrightarrow>
     list_ex (\<lambda>r. temperature r \<noteq> None) rows \<and>
     list_ex (\<lambda>r. wind_speed r \<noteq> None) rows \<and>
     list_ex (\<lambda>r. rain_3h r \<noteq> None) rows \<and>
     list_ex (\<lambda>r. snow_3h r \<noteq> None) rows"

text \<open>
  The values of a group that are not missing; the average, the least and the greatest of
  a list of values, missing for the empty list.
\<close>

definition values_of :: "('r \<Rightarrow> 'a option) \<Rightarrow> 'r list \<Rightarrow> 'a list" where
  "values_of col rs = List.map_filter col rs"

definition average :: "real list \<Rightarrow> real option" where
  "average xs = (if xs = [] then None else Some (sum_list xs / real (length xs)))"

definition least :: "real list \<Rightarrow> real option" where
  "least xs = (if xs = [] then None else Some (Min (set xs)))"

definition greatest :: "real list \<Rightarrow> real option" where
  "greatest xs = (if xs = [] then None else Some (Max (set xs)))"

text \<open>The rows of a table, none for a table that does not exist.\<close>

definition table_rows :: "'a list option \<Rightarrow> 'a list" where
  "table_rows tbl = (case tbl of None \<Rightarrow> [] | Some rows \<Rightarrow> rows)"

text \<open>
  An optional block lacks a field: the payload is an object in which the block is absent,
  or is an object without the field.
\<close>

definition lacks :: "json \<Rightarrow> string \<Rightarrow> string \<Rightarrow> bool" where
  "lacks data block field =
     (case data of
        JObj kvs \<Rightarrow>
          (case map_of kvs block of
             None \<Rightarrow> True
           | Some (JObj b) \<Rightarrow> map_of b field = None
           | Some _ \<Rightarrow> False)
      | _ \<Rightarrow> False)"

text \<open>The payload with the block replaced by one that gives the field as 0.\<close>

definition with_zero :: "string \<Rightarrow> string \<Rightarrow> json \<Rightarrow> json" where
  "with_zero block field data =
     (case data of
        JObj kvs \<Rightarrow> JObj ((block, JObj [(field, JInt 0)]) # kvs)
      | _ \<Rightarrow> data)"

text \<open>
  A fetch ends in a \<open>RequestException\<close>: no connection, a status from 400 to 599, or a body
  that is not JSON.  These are the failures that extract.py recovers from; the
  specification's transport-level failures are more: a status outside 200 to 299 need not be
  one from 400 to 599, and a malformed body may be JSON that is not an object.
\<close>

definition request_exception :: "fetch \<Rightarrow> bool" where
  "request_exception f =
     (case response f of
        ConnectionError \<Rightarrow> True
      | Response code body \<Rightarrow> (400 \<le> code \<and> code < 600) \<or> body = None)"

text \<open>
  A fetch is delivered: a response with no status from 400 to 599 whose body is a JSON
  object, and a raw file that can be written.  Its payload is the object with the time of
  retrieval stored under \<open>retrieved_at\<close>.
\<close>

definition delivered :: "fetch \<Rightarrow> bool" where
  "delivered f =
     (case response f of
        Response code (Some (JObj kvs)) \<Rightarrow> \<not> (400 \<le> code \<and> code < 600) \<and> writable f
      | _ \<Rightarrow> False)"

text \<open>The paths recorded for one kind, and the path of the raw file of a fetch.\<close>

definition paths :: "kind \<Rightarrow> results \<Rightarrow> (string \<times> string) list" where
  "paths k res = (case k of Current \<Rightarrow> res_current res | Forecast \<Rightarrow> res_forecast res)"

definition artifact_path :: "extract_env \<Rightarrow> kind \<Rightarrow> string \<Rightarrow> string" where
  "artifact_path env k city = raw_filename env k city (filename_stamp (provider env k city))"

definition payload :: "fetch \<Rightarrow> json" where
  "payload f =
     (case response f of
        Response code (Some (JObj kvs)) \<Rightarrow>
          JObj (dict_set ''retrieved_at'' (JStr (retrieved_at_now f)) kvs)
      | _ \<Rightarrow> JNull)"

text \<open>
  The fetches of a run in their order, the paths recorded for the delivered ones of a kind,
  and the raw store after the delivered ones have been written.
\<close>

definition fetches :: "string list \<Rightarrow> (kind \<times> string) list" where
  "fetches cities = concat (map (\<lambda>city. [(Current, city), (Forecast, city)]) cities)"

definition recorded :: "extract_env \<Rightarrow> kind \<Rightarrow> string list \<Rightarrow> (string \<times> string) list" where
  "recorded env k cities =
     foldl (\<lambda>ps city. dict_set city (artifact_path env k city) ps) []
       (filter (\<lambda>city. delivered (provider env k city)) cities)"

definition persisted :: "extract_env \<Rightarrow> string list \<Rightarrow> raw_store \<Rightarrow> raw_store" where
  "persisted env cities store =
     foldl (\<lambda>s kc. s(artifact_path env (fst kc) (snd kc) \<mapsto> payload (provider env (fst kc) (snd kc))))
       store
       (filter (\<lambda>kc. delivered (provider env (fst kc) (snd kc))) (fetches cities))"


section \<open>Example data\<close>

definition example_slot :: "nat \<Rightarrow> string \<Rightarrow> string \<Rightarrow> string \<Rightarrow> real \<Rightarrow> forecast_rec" where
  "example_slot n city co t temp =
     \<lparr>rec_id = n, city_id = Some 1, city_name = Some city, country = Some co,
      forecast_time = Some t, weather_main = Some ''Clear'',
      weather_description = Some ''clear sky'', temperature = Some temp,
      feels_like = Some temp, temp_min = Some temp, temp_max = Some temp,
      pressure = Some 1013, humidity = Some 50, wind_speed = Some 5,
      wind_direction = Some 180, cloudiness = Some 0, rain_3h = Some 0, snow_3h = Some 0,
      retrieved_at = Some ''2024-01-05T09:00:00''\<rparr>"

definition example_warehouse :: "forecast_rec list \<Rightarrow> warehouse" where
  "example_warehouse rows =
     \<lparr>forecast_table = Some rows, daily_aggregates = None, temperature_anomalies = None,
      extreme_weather_events = None\<rparr>"

definition oslo_rows :: "forecast_rec list" where
  "oslo_rows =
     [example_slot 1 ''Oslo'' ''NO'' ''2024-01-05 12:00:00'' (- 10),
      example_slot 2 ''Oslo'' ''NO'' ''2024-01-05 15:00:00'' (- 10.1)]"

definition storm_rows :: "forecast_rec list" where
  "storm_rows =
     [(example_slot 1 ''Nuuk'' ''GL'' ''2024-01-05 12:00:00'' (- 25.25))
        \<lparr>wind_speed := Some 31.06, snow_3h := Some 12\<rparr>]"


text \<open>
  The engine of the examples.  The date of a time is its first ten characters.
  \<open>pd.to_datetime\<close> accepts a column whose texts all have the same length, as the times have
  that the pipeline writes in one layout, and rejects a column with texts of two lengths.  The
  float operations are the exact ones; in the examples the exact results are floats.
\<close>

definition date_prefix :: "string option \<Rightarrow> string option" where
  "date_prefix t = map_option (take 10) t"

definition one_layout :: "string option list \<Rightarrow> bool" where
  "one_layout col =
     (case non_null col of [] \<Rightarrow> True | t # ts \<Rightarrow> list_all (\<lambda>u. length u = length t) ts)"

definition example_engine :: engine where
  "example_engine =
     \<lparr>sql_date = date_prefix, to_datetime = one_layout,
      float_mean = (\<lambda>xs. sum_list xs / real (length xs)),
      float_minus = (\<lambda>x y. x - y)\<rparr>"

text \<open>
  A table whose column \<open>temperature\<close> holds NULL in every row, with a wind of 30 m/s; and a
  table whose column \<open>retrieved_at\<close> holds a time without and a time with microseconds, as
  \<open>isoformat()\<close> writes them.
\<close>

definition gale_rows :: "forecast_rec list" where
  "gale_rows =
     [(example_slot 1 ''Bergen'' ''NO'' ''2024-01-05 12:00:00'' 0)
        \<lparr>temperature := None, wind_speed := Some 30\<rparr>]"

definition mixed_rows :: "forecast_rec list" where
  "mixed_rows =
     [example_slot 1 ''Oslo'' ''NO'' ''2024-01-05 12:00:00'' (- 10),
      (example_slot 2 ''Oslo'' ''NO'' ''2024-01-05 15:00:00'' (- 10.1))
        \<lparr>retrieved_at := Some ''2024-01-05T12:00:00.250000''\<rparr>]"

definition nameless_rows :: "forecast_rec list" where
  "nameless_rows =
     [(example_slot 1 [] [] ''2024-01-05 12:00:00'' 5)\<lparr>city_name := None, country := None\<rparr>]"


definition level_rows :: "forecast_rec list" where
  "level_rows =
     [example_slot 1 ''Lima'' ''PE'' ''2024-01-05 12:00:00'' 18,
      example_slot 2 ''Lima'' ''PE'' ''2024-01-05 15:00:00'' 20,
      example_slot 3 ''Lima'' ''PE'' ''2024-01-05 18:00:00'' 22]"

definition heat_rows :: "forecast_rec list" where
  "heat_rows =
     [example_slot 1 ''Testville'' ''TV'' ''2024-07-01 12:00:00'' 45,
      example_slot 2 ''Testville'' ''TV'' ''2024-07-08 12:00:00'' 25]"

definition calm_rows :: "forecast_rec list" where
  "calm_rows = [example_slot 2 ''Testville'' ''TV'' ''2024-07-08 12:00:00'' 25]"

text \<open>
  A world for the examples: the given files, a local time that is written as its number
  of seconds and does not go back before 1970, and a clock that counts the loads.
\<close>

definition example_world :: "(string \<times> artifact) list \<Rightarrow> world" where
  "example_world fs =
     \<lparr>files = map_of fs,
      fromtimestamp = (\<lambda>t. if 0 \<le> t then Inr (dec (nat \<lfloor>t\<rfloor>)) else Inl OSError),
      clock = (\<lambda>n. ''load '' @ dec n)\<rparr>"

definition london_observation :: json where
  "london_observation =
     JObj [(''coord'', JObj [(''lon'', JFloat (- 0.1257)), (''lat'', JFloat 51.5085)]),
           (''weather'', JArr [JObj [(''main'', JStr ''Clouds''),
                                     (''description'', JStr ''overcast clouds'')]]),
           (''main'', JObj [(''temp'', JFloat 7.5), (''feels_like'', JFloat 4.5),
                            (''temp_min'', JFloat 6), (''temp_max'', JFloat 9),
                            (''pressure'', JInt 1009), (''humidity'', JInt 81)]),
           (''wind'', JObj [(''speed'', JFloat 5.1), (''deg'', JInt 250)]),
           (''clouds'', JObj [(''all'', JInt 100)]),
           (''dt'', JInt 1704456000),
           (''sys'', JObj [(''country'', JStr ''GB''), (''sunrise'', JInt 1704441900),
                           (''sunset'', JInt 1704470820)]),
           (''id'', JInt 2643743), (''name'', JStr ''London''),
           (''retrieved_at'', JStr ''2024-01-05T12:00:00'')]"

definition dry_slot :: "int \<Rightarrow> real \<Rightarrow> json" where
  "dry_slot t temp =
     JObj [(''dt'', JInt t),
           (''main'', JObj [(''temp'', JFloat temp), (''humidity'', JInt 70)]),
           (''weather'', JArr [JObj [(''main'', JStr ''Clear'')]]),
           (''wind'', JObj [(''speed'', JFloat 3)]),
           (''snow'', JObj [])]"

definition london_forecast :: json where
  "london_forecast =
     JObj [(''city'', JObj [(''id'', JInt 2643743), (''name'', JStr ''London''),
                            (''country'', JStr ''GB'')]),
           (''list'', JArr [dry_slot 1704456000 7.5, dry_slot 1704466800 6]),
           (''retrieved_at'', JStr ''2024-01-05T12:00:00'')]"

definition initial_state :: loader_state where
  "initial_state = \<lparr>st_db = init_database None, st_log = [], st_loads = 0\<rparr>"

definition london_world :: world where
  "london_world = example_world [(''current_london.json'', Parsed london_observation)]"

definition paris_observation :: json where
  "paris_observation =
     JObj [(''weather'', JArr []),
           (''main'', JObj [(''temp'', JFloat 9.5)]),
           (''dt'', JInt 1704456000), (''id'', JInt 2988507), (''name'', JStr ''Paris'')]"

definition paris_forecast :: json where
  "paris_forecast =
     JObj [(''city'', JObj [(''id'', JInt 2988507), (''name'', JStr ''Paris''),
                            (''country'', JStr ''FR'')]),
           (''list'', JArr [dry_slot 1704456000 9.5,
                            JObj [(''dt'', JInt 1704466800),
                                  (''main'', JObj [(''temp'', JObj [])])]])]"

definition batch_world :: world where
  "batch_world =
     example_world
       [(''current_paris.json'', Parsed paris_observation),
        (''current_london.json'', Parsed london_observation),
        (''forecast_paris.json'', Parsed paris_forecast),
        (''forecast_london.json'', Parsed london_forecast)]"

definition batch_results :: results where
  "batch_results =
     \<lparr>res_current = [(''Paris,fr'', ''current_paris.json''), (''London,uk'', ''current_london.json'')],
      res_forecast = [(''Paris,fr'', ''forecast_paris.json''), (''London,uk'', ''forecast_london.json'')]\<rparr>"

definition garbled_world :: world where
  "garbled_world =
     example_world
       [(''current_paris.json'', Unreadable),
        (''current_london.json'', Parsed london_observation)]"

definition current_results :: results where
  "current_results =
     \<lparr>res_current = [(''Paris,fr'', ''current_paris.json''), (''London,uk'', ''current_london.json'')],
      res_forecast = []\<rparr>"

definition example_fetch :: "response \<Rightarrow> fetch" where
  "example_fetch r =
     \<lparr>response = r, retrieved_at_now = ''2024-01-05T12:00:00'',
      filename_stamp = ''20240105_120000'', writable = True\<rparr>"

text \<open>\<open>str.lower\<close> on a text of ASCII characters, as the city names of the examples are.\<close>

definition ascii_lower :: "string \<Rightarrow> string" where
  "ascii_lower s =
     map (\<lambda>c. case map_of (zip ''ABCDEFGHIJKLMNOPQRSTUVWXYZ'' ''abcdefghijklmnopqrstuvwxyz'') c of
                 None \<Rightarrow> c
               | Some l \<Rightarrow> l) s"

definition example_env :: extract_env where
  "example_env =
     \<lparr>api_key = Some ''0123456789abcdef'',
      provider = (\<lambda>k city.
        if city = ''London,uk''
        then example_fetch (Response 200 (Some (case k of Current \<Rightarrow> london_observation
                                                  | Forecast \<Rightarrow> london_forecast)))
        else if k = Current then example_fetch ConnectionError
        else example_fetch (Response 404 (Some (JObj [(''cod'', JStr ''404'')])))),
      str_lower = ascii_lower\<rparr>"

text \<open>
  A provider that answers the observation of Paris with status 200 and a JSON array, and
  everything else as before.
\<close>

definition array_env :: extract_env where
  "array_env =
     example_env\<lparr>provider := (\<lambda>k city.
        if city = ''Paris,fr'' \<and> k = Current then example_fetch (Response 200 (Some (JArr [])))
        else provider example_env k city)\<rparr>"

definition nameless_forecast :: json where
  "nameless_forecast = JObj [(''list'', JArr [dry_slot 1704456000 5])]"


section \<open>Basic lemmas\<close>

lemma and_then_Inr [simp]: "and_then (Inr x) f = f x"
  by (simp add: and_then_def)

lemma and_then_Inl [simp]: "and_then (Inl e) f = Inl e"
  by (simp add: and_then_def)

lemma and_then_eq_Inr:
  "and_then m f = Inr y \<longleftrightarrow> (\<exists>x. m = Inr x \<and> f x = Inr y)"
  by (cases m) simp_all

section \<open>Properties of the extreme-event detection\<close>

lemma lt_iff: "lt v c \<longleftrightarrow> (\<exists>x. v = Some x \<and> x < c)"
  by (cases v) (simp_all add: lt_def)

lemma gt_iff: "gt v c \<longleftrightarrow> (\<exists>x. v = Some x \<and> c < x)"
  by (cases v) (simp_all add: gt_def)

lemma extreme_conditions_iff:
  "extreme_conditions r \<longleftrightarrow> (\<exists>p. matches r p)"
proof
  assume "extreme_conditions r"
  then consider "matches r Cold" | "matches r Heat" | "matches r Wind" | "matches r Rain" | "matches r Snow"
    unfolding extreme_conditions_def lt_def gt_def by auto
  then show "\<exists>p. matches r p" by cases blast+
next
  assume "\<exists>p. matches r p"
  then obtain p where "matches r p" ..
  then show "extreme_conditions r"
    unfolding extreme_conditions_def lt_def gt_def by (cases p) simp_all
qed

lemma frame_set [simp]: "set (frame rows) = set rows"
  by (simp add: frame_def)

lemma none_cells_iff: "none_cells (map f df) \<longleftrightarrow> (\<forall>r \<in> set df. f r = None)"
  by (simp add: none_cells_def list_all_iff)

lemma tested_columns_numeric_iff:
  "tested_columns_numeric df \<longleftrightarrow>
     \<not> none_cells (map temperature df) \<and> \<not> none_cells (map wind_speed df) \<and>
     \<not> none_cells (map rain_3h df) \<and> \<not> none_cells (map snow_3h df)"
  by (simp add: tested_columns_numeric_def none_cells_iff list_ex_iff)

lemma tested_columns_numeric_frame [simp]:
  "tested_columns_numeric (frame rows) = tested_columns_numeric rows"
  by (simp add: tested_columns_numeric_def list_ex_iff)

lemma compare_cell_number:
  "\<not> none_cell \<Longrightarrow>
   compare_cell none_cell v test = Inr (case v of None \<Rightarrow> False | Some x \<Rightarrow> test x)"
  by (cases v) (simp_all add: compare_cell_def)

lemma compare_cell_none:
  "none_cells (map f df) \<Longrightarrow> row \<in> set df \<Longrightarrow>
   compare_cell (none_cells (map f df)) (f row) test = Inl TypeError"
  by (simp add: compare_cell_def none_cells_iff)

lemma compare_cell_cases:
  "row \<in> set df \<Longrightarrow>
   compare_cell (none_cells (map f df)) (f row) test =
     (if none_cells (map f df) then Inl TypeError
      else Inr (case f row of None \<Rightarrow> False | Some x \<Rightarrow> test x))"
  by (auto simp: compare_cell_def none_cells_iff split: option.splits)

lemma row_description_eq:
  assumes "row \<in> set df"
  shows "row_description df row =
           (if tested_columns_numeric df
            then Inr (join ''; '' (map (clause row)
                        (filter (matches row) [Cold, Heat, Wind, Rain, Snow])))
            else Inl TypeError)"
  unfolding row_description_def tested_columns_numeric_iff compare_cell_cases [OF assms]
  by (simp add: clause_def)

lemma description_loop_eq:
  "set rs \<subseteq> set df \<Longrightarrow>
   description_loop df rs =
     (if rs = [] \<or> tested_columns_numeric df
      then Inr (map (\<lambda>row. join ''; '' (map (clause row)
                        (filter (matches row) [Cold, Heat, Wind, Rain, Snow]))) rs)
      else Inl TypeError)"
proof (induction rs)
  case Nil
  then show ?case by simp
next
  case (Cons r rs)
  then have r: "r \<in> set df" and rs: "set rs \<subseteq> set df" by simp_all
  show ?case
    unfolding description_loop.simps row_description_eq [OF r] Cons.IH [OF rs]
    by simp
qed

lemma map_zip_map: "map (\<lambda>p. g (fst p) (snd p)) (zip xs (map f xs)) = map (\<lambda>x. g x (f x)) xs"
  by (induction xs) simp_all

lemma get_forecast_data_eq:
  "forecast_table db = Some rows \<Longrightarrow>
   get_forecast_data eng db =
     (if to_datetime eng (map forecast_time (frame rows)) \<and>
         to_datetime eng (map retrieved_at (frame rows))
      then Inr (frame rows) else Inl ValueError)"
  by (simp add: get_forecast_data_def frame_def Let_def)

lemma find_extreme_eq:
  assumes "forecast_table db = Some rows"
  shows "find_extreme_weather_events eng db =
     (if \<not> (to_datetime eng (map forecast_time (frame rows)) \<and>
             to_datetime eng (map retrieved_at (frame rows)))
      then Inl ValueError
      else if (\<exists>r \<in> set rows. \<exists>p. matches r p) \<and> \<not> tested_columns_numeric rows
      then Inl TypeError
      else Inr (map (\<lambda>row. \<lparr>event_row = row,
                              event_description =
                                join ''; '' (map (clause row)
                                  (filter (matches row) [Cold, Heat, Wind, Rain, Snow]))\<rparr>)
                  (filter (\<lambda>r. \<exists>p. matches r p) (frame rows))))"
proof -
  let ?d = "\<lambda>row. join ''; '' (map (clause row) (filter (matches row) [Cold, Heat, Wind, Rain, Snow]))"
  let ?xs = "filter extreme_conditions (frame rows)"
  have ec: "extreme_conditions = (\<lambda>r. \<exists>p. matches r p)"
    by (rule ext) (rule extreme_conditions_iff)
  have sub: "set ?xs \<subseteq> set (frame rows)"
    by simp
  have emp: "?xs = [] \<longleftrightarrow> \<not> (\<exists>r \<in> set rows. \<exists>p. matches r p)"
    by (simp add: filter_empty_conv extreme_conditions_iff)
  have loop: "description_loop (frame rows) ?xs =
     (if (\<exists>r \<in> set rows. \<exists>p. matches r p) \<and> \<not> tested_columns_numeric rows
      then Inl TypeError else Inr (map ?d ?xs))"
    unfolding description_loop_eq [OF sub] emp by simp
  have "find_extreme_weather_events eng db =
     (if \<not> (to_datetime eng (map forecast_time (frame rows)) \<and>
             to_datetime eng (map retrieved_at (frame rows)))
      then Inl ValueError
      else if (\<exists>r \<in> set rows. \<exists>p. matches r p) \<and> \<not> tested_columns_numeric rows
      then Inl TypeError
      else Inr (map (\<lambda>row. \<lparr>event_row = row, event_description = ?d row\<rparr>) ?xs))"
    unfolding find_extreme_weather_events_def get_forecast_data_eq [OF assms] Let_def
    by (simp add: loop map_zip_map [where g = "\<lambda>a b. \<lparr>event_row = a, event_description = b\<rparr>"])
  then show ?thesis unfolding ec .
qed


lemma find_extreme_Inr:
  assumes "forecast_table db = Some rows" and "find_extreme_weather_events eng db = Inr evs"
  shows "evs = map (\<lambda>row. \<lparr>event_row = row,
                              event_description =
                                join ''; '' (map (clause row)
                                  (filter (matches row) [Cold, Heat, Wind, Rain, Snow]))\<rparr>)
                  (filter (\<lambda>r. \<exists>p. matches r p) (frame rows))"
  using assms(2) unfolding find_extreme_eq [OF assms(1)] by (simp split: if_splits)

lemma find_extreme_returns:
  assumes "forecast_table db = Some rows"
  shows "(\<exists>evs. find_extreme_weather_events eng db = Inr evs) \<longleftrightarrow>
            to_datetime eng (map forecast_time (frame rows)) \<and>
            to_datetime eng (map retrieved_at (frame rows)) \<and>
            ((\<exists>r \<in> set rows. \<exists>p. matches r p) \<longrightarrow> tested_columns_numeric rows)"
  unfolding find_extreme_eq [OF assms] by auto

lemma round_half_even_near: "\<bar>of_int (round_half_even q) - q\<bar> \<le> 1 / 2"
  unfolding round_half_even_def Let_def by (auto simp: abs_le_iff)

lemmas format_eval = format_1f_def round_half_even_def dec.simps digit_char_def Let_def format_cell_def

lemma format_minus_ten_point_one:
  "format_1f (- 10.1) = ''-10.1''"
  "format_1f (- 5685794529555251 / 562949953421312) = ''-10.1''"
  by (simp_all add: format_eval)

lemma digit_value_digit_char: "d < 10 \<Longrightarrow> digit_value (digit_char d) = d"
proof -
  assume "d < 10"
  then have "d \<in> {0,1,2,3,4,5,6,7,8,9}" by auto
  then show ?thesis by (auto simp: digit_value_def digit_char_def)
qed

lemma undec_dec: "undec (dec n) = n"
proof (induction n rule: dec.induct)
  case (1 n)
  show ?case
  proof (cases "n < 10")
    case True
    then show ?thesis by (simp add: dec.simps [of n] undec_def digit_value_digit_char)
  next
    case False
    with 1 have "undec (dec (n div 10)) = n div 10" by simp
    with False show ?thesis
      by (simp add: dec.simps [of n] undec_def digit_value_digit_char)
  qed
qed

lemma matches_cases:
  "(\<exists>p. matches r p) \<longleftrightarrow>
     matches r Cold \<or> matches r Heat \<or> matches r Wind \<or> matches r Rain \<or> matches r Snow"
  by (metis predicate.exhaust)

lemma oslo_sorted: "frame oslo_rows = oslo_rows"
  by (simp add: frame_def oslo_rows_def example_slot_def)

lemma oslo_extreme:
  "filter (\<lambda>r. \<exists>p. matches r p) oslo_rows =
     [example_slot 2 ''Oslo'' ''NO'' ''2024-01-05 15:00:00'' (- 10.1)]"
  by (simp add: oslo_rows_def matches_cases example_slot_def)

lemma example_engine_simps [simp]:
  "sql_date example_engine = date_prefix"
  "to_datetime example_engine = one_layout"
  "float_mean example_engine xs = sum_list xs / real (length xs)"
  "float_minus example_engine x y = x - y"
  by (simp_all add: example_engine_def)

text \<open>
  Claim C2, as amended.  On a forecast table that exists, whenever
  \<open>find_extreme_weather_events\<close> returns, the events are, in frame order, exactly the records
  that satisfy at least one of: temperature below -10, temperature above 40, wind speed
  above 20, 3-hour rain above 10, 3-hour snow above 10, each comparison strict and false for
  a missing value.  A record at exactly -10 that matches no other predicate is not flagged; a
  record at -10.1 is flagged, and when it matches nothing else its description is
  "Extreme cold: -10.1" followed by the degree sign and "C".  The function returns exactly
  when \<open>pd.to_datetime\<close> converts the columns \<open>forecast_time\<close> and \<open>retrieved_at\<close> and, if some
  record qualifies, each of the four tested columns holds a number in some row.
\<close>

theorem find_extreme_weather_events_thresholds:
  assumes "forecast_table db = Some rows"
  shows "(\<forall>evs. find_extreme_weather_events eng db = Inr evs \<longrightarrow>
           map event_row evs = filter (\<lambda>r. \<exists>p. matches r p) (frame rows) \<and>
           (\<forall>r. r \<in> event_row ` set evs \<longleftrightarrow> r \<in> set rows \<and>
              ((\<exists>t. temperature r = Some t \<and> t < - 10) \<or>
               (\<exists>t. temperature r = Some t \<and> 40 < t) \<or>
               (\<exists>v. wind_speed r = Some v \<and> 20 < v) \<or>
               (\<exists>v. rain_3h r = Some v \<and> 10 < v) \<or>
               (\<exists>v. snow_3h r = Some v \<and> 10 < v))) \<and>
           (\<forall>r. temperature r = Some (- 10) \<and> \<not> matches r Wind \<and> \<not> matches r Rain \<and>
                \<not> matches r Snow \<longrightarrow> r \<notin> event_row ` set evs) \<and>
           (\<forall>r \<in> set rows. temperature r = Some (- 10.1) \<longrightarrow>
              (\<exists>ev \<in> set evs. event_row ev = r)) \<and>
           (\<forall>ev \<in> set evs. temperature (event_row ev) = Some (- 10.1) \<and>
                \<not> matches (event_row ev) Wind \<and> \<not> matches (event_row ev) Rain \<and>
                \<not> matches (event_row ev) Snow \<longrightarrow>
              event_description ev = ''Extreme cold: -10.1'' @ degree @ ''C'')) \<and>
         ((\<exists>evs. find_extreme_weather_events eng db = Inr evs) \<longleftrightarrow>
            to_datetime eng (map forecast_time (frame rows)) \<and>
            to_datetime eng (map retrieved_at (frame rows)) \<and>
            ((\<exists>r \<in> set rows. \<exists>p. matches r p) \<longrightarrow> tested_columns_numeric rows))"
proof -
  have part: "map event_row evs = filter (\<lambda>r. \<exists>p. matches r p) (frame rows) \<and>
           (\<forall>r. r \<in> event_row ` set evs \<longleftrightarrow> r \<in> set rows \<and>
              ((\<exists>t. temperature r = Some t \<and> t < - 10) \<or>
               (\<exists>t. temperature r = Some t \<and> 40 < t) \<or>
               (\<exists>v. wind_speed r = Some v \<and> 20 < v) \<or>
               (\<exists>v. rain_3h r = Some v \<and> 10 < v) \<or>
               (\<exists>v. snow_3h r = Some v \<and> 10 < v))) \<and>
           (\<forall>r. temperature r = Some (- 10) \<and> \<not> matches r Wind \<and> \<not> matches r Rain \<and>
                \<not> matches r Snow \<longrightarrow> r \<notin> event_row ` set evs) \<and>
           (\<forall>r \<in> set rows. temperature r = Some (- 10.1) \<longrightarrow>
              (\<exists>ev \<in> set evs. event_row ev = r)) \<and>
           (\<forall>ev \<in> set evs. temperature (event_row ev) = Some (- 10.1) \<and>
                \<not> matches (event_row ev) Wind \<and> \<not> matches (event_row ev) Rain \<and>
                \<not> matches (event_row ev) Snow \<longrightarrow>
              event_description ev = ''Extreme cold: -10.1'' @ degree @ ''C'')"
    if ret: "find_extreme_weather_events eng db = Inr evs" for evs
  proof -
    let ?d = "\<lambda>row. join ''; '' (map (clause row) (filter (matches row) [Cold, Heat, Wind, Rain, Snow]))"
    let ?mk = "\<lambda>row. \<lparr>event_row = row, event_description = ?d row\<rparr>"
    have evs: "evs = map ?mk (filter (\<lambda>r. \<exists>p. matches r p) (frame rows))"
      using assms ret by (rule find_extreme_Inr)
    have rows: "map event_row evs = filter (\<lambda>r. \<exists>p. matches r p) (frame rows)"
      unfolding evs by (simp add: comp_def)
    have img: "event_row ` set evs = {r \<in> set rows. \<exists>p. matches r p}"
      unfolding evs by (auto simp: image_iff)
    have ex: "(\<exists>p. matches r p) \<longleftrightarrow>
              ((\<exists>t. temperature r = Some t \<and> t < - 10) \<or>
               (\<exists>t. temperature r = Some t \<and> 40 < t) \<or>
               (\<exists>v. wind_speed r = Some v \<and> 20 < v) \<or>
               (\<exists>v. rain_3h r = Some v \<and> 10 < v) \<or>
               (\<exists>v. snow_3h r = Some v \<and> 10 < v))" for r
      unfolding extreme_conditions_iff [symmetric] extreme_conditions_def lt_iff gt_iff ..
    have iff: "\<forall>r. r \<in> event_row ` set evs \<longleftrightarrow> r \<in> set rows \<and>
              ((\<exists>t. temperature r = Some t \<and> t < - 10) \<or>
               (\<exists>t. temperature r = Some t \<and> 40 < t) \<or>
               (\<exists>v. wind_speed r = Some v \<and> 20 < v) \<or>
               (\<exists>v. rain_3h r = Some v \<and> 10 < v) \<or>
               (\<exists>v. snow_3h r = Some v \<and> 10 < v))"
      unfolding img using ex by simp
    have ten: "\<forall>r. temperature r = Some (- 10) \<and> \<not> matches r Wind \<and> \<not> matches r Rain \<and>
                \<not> matches r Snow \<longrightarrow> r \<notin> event_row ` set evs"
    proof (intro allI impI)
      fix r assume a: "temperature r = Some (- 10) \<and> \<not> matches r Wind \<and> \<not> matches r Rain \<and>
                \<not> matches r Snow"
      have "\<not> matches r p" for p using a by (cases p) auto
      then show "r \<notin> event_row ` set evs" unfolding img by simp
    qed
    have cold: "\<forall>r \<in> set rows. temperature r = Some (- 10.1) \<longrightarrow> (\<exists>ev \<in> set evs. event_row ev = r)"
    proof (intro ballI impI)
      fix r assume r: "r \<in> set rows" and t: "temperature r = Some (- 10.1)"
      then have "matches r Cold" by simp
      then have "r \<in> event_row ` set evs" unfolding img using r by blast
      then show "\<exists>ev \<in> set evs. event_row ev = r" by blast
    qed
    have descr: "\<forall>ev \<in> set evs. temperature (event_row ev) = Some (- 10.1) \<and>
                \<not> matches (event_row ev) Wind \<and> \<not> matches (event_row ev) Rain \<and>
                \<not> matches (event_row ev) Snow \<longrightarrow>
              event_description ev = ''Extreme cold: -10.1'' @ degree @ ''C''"
    proof (intro ballI impI)
      fix ev assume "ev \<in> set evs"
        and a: "temperature (event_row ev) = Some (- 10.1) \<and>
                \<not> matches (event_row ev) Wind \<and> \<not> matches (event_row ev) Rain \<and>
                \<not> matches (event_row ev) Snow"
      then obtain r where ev: "ev = ?mk r" unfolding evs by auto
      from a have "filter (matches r) [Cold, Heat, Wind, Rain, Snow] = [Cold]"
        unfolding ev by simp
      moreover have "clause r Cold = ''Extreme cold: -10.1'' @ degree @ ''C''"
        using a unfolding ev by (simp add: clause_def format_cell_def format_minus_ten_point_one)
      ultimately show "event_description ev = ''Extreme cold: -10.1'' @ degree @ ''C''"
        unfolding ev by simp
    qed
    from rows iff ten cold descr show ?thesis by (intro conjI)
  qed
  show ?thesis
  proof (rule conjI)
    show "(\<exists>evs. find_extreme_weather_events eng db = Inr evs) \<longleftrightarrow>
            to_datetime eng (map forecast_time (frame rows)) \<and>
            to_datetime eng (map retrieved_at (frame rows)) \<and>
            ((\<exists>r \<in> set rows. \<exists>p. matches r p) \<longrightarrow> tested_columns_numeric rows)"
      by (rule find_extreme_returns [OF assms])
  qed (use part in blast)
qed

theorem find_extreme_weather_events_thresholds_witness:
  "forecast_table (example_warehouse oslo_rows) = Some oslo_rows \<and>
   find_extreme_weather_events example_engine (example_warehouse oslo_rows) =
     Inr [\<lparr>event_row = example_slot 2 ''Oslo'' ''NO'' ''2024-01-05 15:00:00'' (- 10.1),
           event_description = ''Extreme cold: -10.1'' @ degree @ ''C''\<rparr>]"
proof -
  let ?r = "example_slot 2 ''Oslo'' ''NO'' ''2024-01-05 15:00:00'' (- 10.1)"
  have tbl: "forecast_table (example_warehouse oslo_rows) = Some oslo_rows"
    by (simp add: example_warehouse_def)
  note inst = find_extreme_weather_events_thresholds [OF tbl, of example_engine]
  have "to_datetime example_engine (map forecast_time (frame oslo_rows)) \<and>
        to_datetime example_engine (map retrieved_at (frame oslo_rows)) \<and>
        ((\<exists>r \<in> set oslo_rows. \<exists>p. matches r p) \<longrightarrow> tested_columns_numeric oslo_rows)"
    unfolding oslo_sorted
    by (simp add: oslo_rows_def example_slot_def one_layout_def tested_columns_numeric_def)
  with inst [THEN conjunct2] obtain evs where
    ret: "find_extreme_weather_events example_engine (example_warehouse oslo_rows) = Inr evs"
    by blast
  with inst [THEN conjunct1] have
    *: "map event_row evs = filter (\<lambda>r. \<exists>p. matches r p) (frame oslo_rows) \<and>
        (\<forall>ev \<in> set evs. temperature (event_row ev) = Some (- 10.1) \<and>
                \<not> matches (event_row ev) Wind \<and> \<not> matches (event_row ev) Rain \<and>
                \<not> matches (event_row ev) Snow \<longrightarrow>
              event_description ev = ''Extreme cold: -10.1'' @ degree @ ''C'')"
    by blast
  then have "map event_row evs = [?r]"
    by (simp only: oslo_sorted oslo_extreme)
  then obtain ev where evs: "evs = [ev]" and ev: "event_row ev = ?r"
    by (cases evs) simp_all
  have "temperature ?r = Some (- 10.1)" "\<not> matches ?r Wind" "\<not> matches ?r Rain" "\<not> matches ?r Snow"
    by (simp_all add: example_slot_def)
  with * have "event_description ev = ''Extreme cold: -10.1'' @ degree @ ''C''"
    unfolding evs by (simp add: ev)
  with ev have "ev = \<lparr>event_row = ?r, event_description = ''Extreme cold: -10.1'' @ degree @ ''C''\<rparr>"
    by (cases ev) simp
  with ret evs tbl show ?thesis by simp
qed

text \<open>
  Claim C2 as stated fails on the tables on which the function raises.  In the first table
  the retrieval times have two layouts, \<open>pd.to_datetime\<close> raises \<open>ValueError\<close>, and the record
  at -10.1 is not flagged.  In the second the column \<open>temperature\<close> holds NULL in every row;
  the record with a wind of 30 m/s passes the mask, and the loop over the selected rows
  raises \<open>TypeError\<close> when it compares \<open>None\<close> with -10.
\<close>

theorem find_extreme_weather_events_raises_counterexample:
  "temperature (mixed_rows ! 1) = Some (- 10.1) \<and>
   find_extreme_weather_events example_engine (example_warehouse mixed_rows) = Inl ValueError \<and>
   wind_speed (gale_rows ! 0) = Some 30 \<and>
   find_extreme_weather_events example_engine (example_warehouse gale_rows) = Inl TypeError"
proof -
  have m: "forecast_table (example_warehouse mixed_rows) = Some mixed_rows"
    and g: "forecast_table (example_warehouse gale_rows) = Some gale_rows"
    by (simp_all add: example_warehouse_def)
  have fm: "frame mixed_rows = mixed_rows"
    by (simp add: frame_def mixed_rows_def example_slot_def)
  have fg: "frame gale_rows = gale_rows"
    by (simp add: frame_def gale_rows_def example_slot_def)
  have 1: "temperature (mixed_rows ! 1) = Some (- 10.1)"
    by (simp add: mixed_rows_def example_slot_def)
  have 2: "find_extreme_weather_events example_engine (example_warehouse mixed_rows) = Inl ValueError"
    unfolding find_extreme_eq [OF m] fm
    by (simp add: mixed_rows_def example_slot_def one_layout_def)
  have 3: "wind_speed (gale_rows ! 0) = Some 30"
    by (simp add: gale_rows_def example_slot_def)
  have "matches (gale_rows ! 0) Wind"
    by (simp add: gale_rows_def example_slot_def)
  moreover have "gale_rows ! 0 \<in> set gale_rows"
    by (simp add: gale_rows_def)
  ultimately have "\<exists>r \<in> set gale_rows. \<exists>p. matches r p"
    by blast
  moreover have "\<not> tested_columns_numeric gale_rows"
    by (simp add: tested_columns_numeric_def gale_rows_def example_slot_def)
  moreover have "to_datetime example_engine (map forecast_time gale_rows) \<and>
                 to_datetime example_engine (map retrieved_at gale_rows)"
    by (simp add: gale_rows_def example_slot_def one_layout_def)
  ultimately have 4: "find_extreme_weather_events example_engine (example_warehouse gale_rows) = Inl TypeError"
    unfolding find_extreme_eq [OF g] fg by simp
  from 1 2 3 4 show ?thesis by (intro conjI)
qed

text \<open>
  Claim C3.  The description of every flagged record is the clauses of the predicates it
  matches, taken in the order cold, heat, wind, rain, snow and joined by "; ".  There is at
  least one clause; each is the label, ": ", the tested value and the unit, the value
  printed as sign, integer digits, a point and one digit, at most 0.05 away from the value.
\<close>

theorem event_description_clauses:
  assumes "find_extreme_weather_events eng db = Inr evs" and "ev \<in> set evs"
  shows "event_description ev =
           join ''; '' (map (clause (event_row ev))
                          (filter (matches (event_row ev)) [Cold, Heat, Wind, Rain, Snow])) \<and>
         filter (matches (event_row ev)) [Cold, Heat, Wind, Rain, Snow] \<noteq> [] \<and>
         (\<forall>p. matches (event_row ev) p \<longrightarrow>
            (\<exists>x. measured (event_row ev) p = Some x \<and>
               clause (event_row ev) p = label p @ '': '' @ format_1f x @ unit_of p \<and>
               (\<exists>t. format_1f x = (if x < 0 then ''-'' else []) @ dec (t div 10) @ ''.'' @
                                       [digit_char (t mod 10)] \<and>
                    \<bar>real t / 10 - \<bar>x\<bar>\<bar> \<le> 1 / 20)))"
proof -
  obtain rows where tbl: "forecast_table db = Some rows"
    using assms(1)
    by (cases "forecast_table db")
       (simp_all add: find_extreme_weather_events_def get_forecast_data_def)
  let ?mk = "\<lambda>row. \<lparr>event_row = row,
                     event_description = join ''; '' (map (clause row)
                        (filter (matches row) [Cold, Heat, Wind, Rain, Snow]))\<rparr>"
  from assms(2) find_extreme_Inr [OF tbl assms(1)]
  obtain r where ev: "ev = ?mk r" and extr: "\<exists>p. matches r p" by auto
  have 1: "event_description ev =
           join ''; '' (map (clause (event_row ev))
                          (filter (matches (event_row ev)) [Cold, Heat, Wind, Rain, Snow]))"
    unfolding ev by (simp only: extreme_event.simps)
  from extr obtain p where "matches r p" ..
  moreover have "p \<in> set [Cold, Heat, Wind, Rain, Snow]" by (cases p) simp_all
  ultimately have "p \<in> set (filter (matches r) [Cold, Heat, Wind, Rain, Snow])"
    by (simp only: set_filter) blast
  then have 2: "filter (matches (event_row ev)) [Cold, Heat, Wind, Rain, Snow] \<noteq> []"
    unfolding ev by (metis extreme_event.simps(1) empty_iff list.set(1))
  have 3: "\<exists>x. measured r p = Some x \<and>
               clause r p = label p @ '': '' @ format_1f x @ unit_of p \<and>
               (\<exists>t. format_1f x = (if x < 0 then ''-'' else []) @ dec (t div 10) @ ''.'' @
                                       [digit_char (t mod 10)] \<and>
                    \<bar>real t / 10 - \<bar>x\<bar>\<bar> \<le> 1 / 20)" if m: "matches r p" for p
  proof -
    from m obtain x where x: "measured r p = Some x"
      by (cases p) (auto split: option.splits)
    let ?t = "nat (round_half_even (\<bar>x\<bar> * 10))"
    have near: "\<bar>of_int (round_half_even (\<bar>x\<bar> * 10)) - \<bar>x\<bar> * 10\<bar> \<le> 1 / 2"
      by (rule round_half_even_near)
    then have "0 \<le> round_half_even (\<bar>x\<bar> * 10)" by linarith
    then have "real ?t = of_int (round_half_even (\<bar>x\<bar> * 10))" by simp
    with near have "\<bar>real ?t / 10 - \<bar>x\<bar>\<bar> \<le> 1 / 20" by linarith
    moreover have "format_1f x = (if x < 0 then ''-'' else []) @ dec (?t div 10) @ ''.'' @
                                       [digit_char (?t mod 10)]"
      by (simp add: format_1f_def Let_def)
    moreover have "clause r p = label p @ '': '' @ format_1f x @ unit_of p"
      by (simp add: clause_def x format_cell_def)
    ultimately show ?thesis using x by blast
  qed
  from 1 2 3 show ?thesis unfolding ev by simp
qed

theorem event_description_clauses_witness:
  "find_extreme_weather_events example_engine (example_warehouse storm_rows) =
     Inr [\<lparr>event_row = hd storm_rows,
           event_description =
             ''Extreme cold: -25.2'' @ degree @ ''C; Strong winds: 31.1 m/s; Heavy snow: 12.0 mm/3h''\<rparr>]"
proof -
  let ?mk = "\<lambda>row. \<lparr>event_row = row,
                     event_description = join ''; '' (map (clause row)
                        (filter (matches row) [Cold, Heat, Wind, Rain, Snow]))\<rparr>"
  let ?ev = "?mk (hd storm_rows)"
  have tbl: "forecast_table (example_warehouse storm_rows) = Some storm_rows"
    by (simp add: example_warehouse_def)
  have fr: "frame storm_rows = storm_rows"
    by (simp add: frame_def storm_rows_def)
  have ext: "matches (hd storm_rows) Cold"
    by (simp add: storm_rows_def example_slot_def)
  then have ex: "\<exists>p. matches (hd storm_rows) p" ..
  have ok: "to_datetime example_engine (map forecast_time storm_rows) \<and>
            to_datetime example_engine (map retrieved_at storm_rows) \<and>
            tested_columns_numeric storm_rows"
    by (simp add: storm_rows_def example_slot_def one_layout_def tested_columns_numeric_def
          del: not_None_eq)
  have single: "storm_rows = [hd storm_rows]"
    by (simp add: storm_rows_def)
  have "filter (\<lambda>r. \<exists>p. matches r p) [hd storm_rows] = [hd storm_rows]"
    using ex by simp
  then have flt0: "filter (\<lambda>r. \<exists>p. matches r p) storm_rows = [hd storm_rows]"
    using single by simp
  have run: "find_extreme_weather_events example_engine (example_warehouse storm_rows) = Inr [?ev]"
    unfolding find_extreme_eq [OF tbl] fr flt0 using ok by simp
  have mem: "?ev \<in> set [?ev]" by simp
  have flt: "filter (matches (hd storm_rows)) [Cold, Heat, Wind, Rain, Snow] = [Cold, Wind, Snow]"
    by (simp add: storm_rows_def example_slot_def)
  have "event_description ?ev =
          ''Extreme cold: -25.2'' @ degree @ ''C; Strong winds: 31.1 m/s; Heavy snow: 12.0 mm/3h''"
  proof -
    have fmt: "format_1f (- (101 / 4)) = ''-25.2''" "format_1f (1553 / 50) = ''31.1''" "format_1f 12 = ''12.0''"
      by (simp_all add: format_eval)
    have "event_description ?ev = join ''; '' (map (clause (hd storm_rows)) [Cold, Wind, Snow])"
      using event_description_clauses [OF run mem, THEN conjunct1] unfolding extreme_event.simps flt .
    also have "\<dots> = ''Extreme cold: -25.2'' @ degree @ ''C; Strong winds: 31.1 m/s; Heavy snow: 12.0 mm/3h''"
      by (simp add: clause_def storm_rows_def example_slot_def format_cell_def fmt)
    finally show ?thesis .
  qed
  with run show ?thesis by simp
qed

section \<open>Properties of the daily aggregates\<close>








lemma fold_min_Min: "fold min xs (x :: real) = Min (set (x # xs))"
  by (rule Min.set_eq_fold [symmetric])

lemma fold_max_Max: "fold max xs (x :: real) = Max (set (x # xs))"
  by (rule Max.set_eq_fold [symmetric])

lemma sql_min_Min:
  "sql_min vs = (if non_null vs = [] then None else Some (Min (set (non_null vs))))"
  unfolding sql_min_def by (cases "non_null vs") (simp_all only: fold_min_Min list.case list.distinct simp_thms if_True if_False)

lemma sql_max_Max:
  "sql_max vs = (if non_null vs = [] then None else Some (Max (set (non_null vs))))"
  unfolding sql_max_def by (cases "non_null vs") (simp_all only: fold_max_Max list.case list.distinct simp_thms if_True if_False)

lemma sql_avg_mean:
  "sql_avg vs =
     (if non_null vs = [] then None
      else Some (sum_list (non_null vs) / real (length (non_null vs))))"
  unfolding sql_avg_def by (cases "non_null vs") simp_all


lemma non_null_map: "non_null (map f xs) = List.map_filter f xs"
proof (induction xs)
  case Nil
  then show ?case by (simp add: map_filter_simps)
next
  case (Cons x xs)
  then show ?case by (cases "f x") (simp_all add: map_filter_simps)
qed

lemma map_filter_map_option:
  "List.map_filter (\<lambda>x. map_option g (f x)) xs = map g (List.map_filter f xs)"
proof (induction xs)
  case Nil
  then show ?case by (simp add: map_filter_simps)
next
  case (Cons x xs)
  then show ?case by (cases "f x") (simp_all add: map_filter_simps)
qed

lemma sql_avg_average: "sql_avg (map f rs) = average (values_of f rs)"
  by (simp add: sql_avg_mean average_def values_of_def non_null_map)

lemma sql_min_least: "sql_min (map f rs) = least (values_of f rs)"
  by (simp add: sql_min_Min least_def values_of_def non_null_map)

lemma sql_max_greatest: "sql_max (map f rs) = greatest (values_of f rs)"
  by (simp add: sql_max_Max greatest_def values_of_def non_null_map)

lemma daily_row_fields:
  "agg_city_name (daily_row g) = fst (fst g)"
  "agg_country (daily_row g) = fst (snd (fst g))"
  "date (daily_row g) = snd (snd (fst g))"
  "avg_temp (daily_row g) = average (values_of temperature (snd g))"
  "min_temp (daily_row g) = least (values_of temperature (snd g))"
  "max_temp (daily_row g) = greatest (values_of temperature (snd g))"
  "avg_humidity (daily_row g) = average (map real_of_int (values_of humidity (snd g)))"
  "avg_wind_speed (daily_row g) = average (values_of wind_speed (snd g))"
proof -
  have "sql_avg (map (\<lambda>r. map_option real_of_int (humidity r)) rs) =
        average (map real_of_int (values_of humidity rs))" for rs :: "forecast_rec list"
    unfolding sql_avg_average by (simp add: values_of_def map_filter_map_option)
  then show
    "agg_city_name (daily_row g) = fst (fst g)"
    "agg_country (daily_row g) = fst (snd (fst g))"
    "date (daily_row g) = snd (snd (fst g))"
    "avg_temp (daily_row g) = average (values_of temperature (snd g))"
    "min_temp (daily_row g) = least (values_of temperature (snd g))"
    "max_temp (daily_row g) = greatest (values_of temperature (snd g))"
    "avg_humidity (daily_row g) = average (map real_of_int (values_of humidity (snd g)))"
    "avg_wind_speed (daily_row g) = average (values_of wind_speed (snd g))"
    by (simp_all add: daily_row_def sql_avg_average sql_min_least sql_max_greatest split: prod.splits)
qed

lemma daily_dates:
  "map date (map daily_row (daily_groups eng rows)) =
     map (\<lambda>g. snd (snd (fst g))) (daily_groups eng rows)"
  by (simp add: daily_row_fields)

lemma daily_eq:
  "forecast_table db = Some rows \<Longrightarrow>
   calculate_daily_aggregates eng db =
     (if to_datetime eng (map (\<lambda>g. snd (snd (fst g))) (daily_groups eng rows))
      then Inr (map daily_row (daily_groups eng rows)) else Inl ValueError)"
  by (simp add: calculate_daily_aggregates_def Let_def daily_dates del: map_map)





section \<open>Properties of the temperature anomalies\<close>

lemma non_null_map_filter:
  "non_null (map f (filter P xs)) = List.map_filter (\<lambda>x. if P x then f x else None) xs"
proof (induction xs)
  case Nil
  then show ?case by (simp add: map_filter_simps)
next
  case (Cons x xs)
  then show ?case by (cases "f x") (simp_all add: map_filter_simps)
qed

lemma mean_city_mean:
  "mean eng (map temperature (filter (\<lambda>r. city_name r = c) df)) = city_mean eng df c"
proof -
  let ?ts = "List.map_filter (\<lambda>r. if city_name r = c then temperature r else None) df"
  have "mean eng (map temperature (filter (\<lambda>r. city_name r = c) df)) =
        (case ?ts of [] \<Rightarrow> None | x # xs \<Rightarrow> Some (float_mean eng (x # xs)))"
    by (simp only: mean_def non_null_map_filter)
  also have "\<dots> = city_mean eng df c"
    by (cases ?ts) (simp_all add: city_mean_def Let_def)
  finally show ?thesis .
qed

lemma non_null_set: "set (non_null vs) = {x. Some x \<in> set vs}"
  by (induction vs rule: non_null.induct) auto

lemma filter_key_frame:
  "distinct ks \<Longrightarrow> c \<in> set ks \<Longrightarrow>
   filter (\<lambda>p. fst p = c) (map (\<lambda>k. (k, f k)) ks) = [(c, f c)]"
proof (induction ks)
  case Nil
  then show ?case by simp
next
  case (Cons k ks)
  show ?case
  proof (cases "k = c")
    case True
    with Cons.prems have "c \<notin> set ks" by simp
    then have "filter (\<lambda>p. fst p = c) (map (\<lambda>k. (k, f k)) ks) = []"
      by (auto simp: filter_empty_conv)
    with True show ?thesis by simp
  next
    case False
    with Cons show ?thesis by simp
  qed
qed

lemma concat_singletons:
  "concat (map (\<lambda>x. if P x then [g x] else []) xs) = map g (filter P xs)"
  by (induction xs) simp_all

lemma merge_rows:
  "merge_on_city_name df (city_avg_temp_frame eng df) =
     map (\<lambda>r. (r, city_mean eng df (city_name r))) (filter (\<lambda>r. city_name r \<noteq> None) df)"
proof -
  let ?ks = "sort (remdups (non_null (map city_name df)))"
  let ?f = "\<lambda>c. mean eng (map temperature (filter (\<lambda>r. city_name r = Some c) df))"
  have one: "(case city_name r of None \<Rightarrow> []
              | Some c \<Rightarrow> map (\<lambda>p. (r, snd p)) (filter (\<lambda>p. fst p = c) (city_avg_temp_frame eng df))) =
             (if city_name r \<noteq> None then [(r, city_mean eng df (city_name r))] else [])"
    if r: "r \<in> set df" for r
  proof (cases "city_name r")
    case None
    then show ?thesis by simp
  next
    case (Some c)
    with r have "c \<in> set ?ks" by (force simp: non_null_set)
    moreover have "distinct ?ks" by simp
    ultimately have "filter (\<lambda>p. fst p = c) (map (\<lambda>k. (k, ?f k)) ?ks) = [(c, ?f c)]"
      by (rule filter_key_frame [rotated])
    then show ?thesis using Some by (simp add: city_avg_temp_frame_def mean_city_mean)
  qed
  have "merge_on_city_name df (city_avg_temp_frame eng df) =
        concat (map (\<lambda>r. if city_name r \<noteq> None then [(r, city_mean eng df (city_name r))] else []) df)"
    unfolding merge_on_city_name_def
    by (intro arg_cong [where f = concat] map_cong refl one)
  also have "\<dots> = map (\<lambda>r. (r, city_mean eng df (city_name r))) (filter (\<lambda>r. city_name r \<noteq> None) df)"
    by (rule concat_singletons)
  finally show ?thesis .
qed

lemma anomaly_row_spec:
  "anomaly_row eng (r, city_mean eng df (city_name r)) = spec_anomaly eng df r"
  by (cases "temperature r"; cases "city_mean eng df (city_name r)")
     (simp_all add: anomaly_row_def spec_anomaly_def minus_cell_def)

lemma anomalies_eq:
  assumes "forecast_table db = Some rows"
  shows "calculate_temperature_anomalies eng db =
           (if to_datetime eng (map forecast_time (frame rows)) \<and>
               to_datetime eng (map retrieved_at (frame rows))
            then Inr (map (spec_anomaly eng (frame rows))
                        (filter (\<lambda>r. city_name r \<noteq> None) (frame rows)))
            else Inl ValueError)"
  unfolding calculate_temperature_anomalies_def get_forecast_data_eq [OF assms]
  by (simp add: merge_rows comp_def anomaly_row_spec)

lemma anomalies_Inr:
  assumes "forecast_table db = Some rows" and "calculate_temperature_anomalies eng db = Inr anoms"
  shows "anoms = map (spec_anomaly eng (frame rows)) (filter (\<lambda>r. city_name r \<noteq> None) (frame rows))"
  using assms(2) unfolding anomalies_eq [OF assms(1)] by (simp split: if_splits)

lemma spec_anomaly_fields [simp]:
  "an_city_name (spec_anomaly eng df r) = city_name r"
  "an_country (spec_anomaly eng df r) = country r"
  "an_forecast_time (spec_anomaly eng df r) = forecast_time r"
  "an_temperature (spec_anomaly eng df r) = temperature r"
  "city_avg_temp (spec_anomaly eng df r) = city_mean eng df (city_name r)"
  "temp_anomaly (spec_anomaly eng df r) =
     (case temperature r of
        None \<Rightarrow> None
      | Some t \<Rightarrow> map_option (float_minus eng t) (city_mean eng df (city_name r)))"
  by (simp_all add: spec_anomaly_def)

text \<open>
  Claim C5, as amended.  On a forecast table that exists, \<open>calculate_temperature_anomalies\<close>
  returns exactly when \<open>pd.to_datetime\<close> converts the columns \<open>forecast_time\<close> and
  \<open>retrieved_at\<close>.  It then returns, in frame order, one row for every record whose city name
  is not NULL and no other row.  The row carries the record's temperature, the float64 mean
  of the temperatures (those that are not NULL) of all records of the table with the same
  city name, and their float64 difference, missing where either is missing.  The float64
  mean need not be the exact mean.  Since a float minus itself is 0, a row whose
  temperature equals the mean it carries has anomaly 0.
\<close>

theorem calculate_temperature_anomalies_named_cities:
  assumes "forecast_table db = Some rows"
  shows "((\<exists>anoms. calculate_temperature_anomalies eng db = Inr anoms) \<longleftrightarrow>
            to_datetime eng (map forecast_time (frame rows)) \<and>
            to_datetime eng (map retrieved_at (frame rows))) \<and>
         (\<forall>anoms. calculate_temperature_anomalies eng db = Inr anoms \<longrightarrow>
            anoms = map (spec_anomaly eng (frame rows))
                      (filter (\<lambda>r. city_name r \<noteq> None) (frame rows)) \<and>
            set anoms = spec_anomaly eng (frame rows) ` {r \<in> set rows. city_name r \<noteq> None} \<and>
            length anoms = length (filter (\<lambda>r. city_name r \<noteq> None) rows) \<and>
            (\<forall>a \<in> set anoms.
               city_avg_temp a = city_mean eng (frame rows) (an_city_name a) \<and>
               temp_anomaly a =
                 (case an_temperature a of
                    None \<Rightarrow> None
                  | Some t \<Rightarrow> map_option (float_minus eng t) (city_avg_temp a))) \<and>
            ((\<forall>x. float_minus eng x x = 0) \<longrightarrow>
               (\<forall>a \<in> set anoms. an_temperature a \<noteq> None \<and> an_temperature a = city_avg_temp a \<longrightarrow>
                  temp_anomaly a = Some 0)))"
proof -
  let ?df = "frame rows"
  let ?anoms = "map (spec_anomaly eng ?df) (filter (\<lambda>r. city_name r \<noteq> None) ?df)"
  note eq = anomalies_eq [OF assms, of eng]
  have ret: "(\<exists>anoms. calculate_temperature_anomalies eng db = Inr anoms) \<longleftrightarrow>
            to_datetime eng (map forecast_time (frame rows)) \<and>
            to_datetime eng (map retrieved_at (frame rows))"
    unfolding eq by simp
  have st: "set ?anoms = spec_anomaly eng ?df ` {r \<in> set rows. city_name r \<noteq> None}"
    by auto
  have "mset (filter (\<lambda>r. city_name r \<noteq> None) ?df) = mset (filter (\<lambda>r. city_name r \<noteq> None) rows)"
    by (simp add: frame_def)
  then have "length (filter (\<lambda>r. city_name r \<noteq> None) ?df) = length (filter (\<lambda>r. city_name r \<noteq> None) rows)"
    by (rule mset_eq_length)
  then have len: "length ?anoms = length (filter (\<lambda>r. city_name r \<noteq> None) rows)"
    by simp
  have each: "\<forall>a \<in> set ?anoms.
               city_avg_temp a = city_mean eng (frame rows) (an_city_name a) \<and>
               temp_anomaly a =
                 (case an_temperature a of
                    None \<Rightarrow> None
                  | Some t \<Rightarrow> map_option (float_minus eng t) (city_avg_temp a))"
    by (auto split: option.splits)
  have zero: "(\<forall>x. float_minus eng x x = 0) \<longrightarrow>
               (\<forall>a \<in> set ?anoms. an_temperature a \<noteq> None \<and> an_temperature a = city_avg_temp a \<longrightarrow>
                  temp_anomaly a = Some 0)"
  proof (intro impI ballI)
    fix a
    assume fl: "\<forall>x. float_minus eng x x = 0" and a: "a \<in> set ?anoms"
      and h: "an_temperature a \<noteq> None \<and> an_temperature a = city_avg_temp a"
    from h obtain t where "an_temperature a = Some t" by blast
    with h have t: "an_temperature a = Some t" "city_avg_temp a = Some t" by simp_all
    from each a have "temp_anomaly a =
                 (case an_temperature a of
                    None \<Rightarrow> None
                  | Some t \<Rightarrow> map_option (float_minus eng t) (city_avg_temp a))"
      by blast
    with t fl show "temp_anomaly a = Some 0" by simp
  qed
  have val: "anoms = ?anoms \<and>
            set anoms = spec_anomaly eng (frame rows) ` {r \<in> set rows. city_name r \<noteq> None} \<and>
            length anoms = length (filter (\<lambda>r. city_name r \<noteq> None) rows) \<and>
            (\<forall>a \<in> set anoms.
               city_avg_temp a = city_mean eng (frame rows) (an_city_name a) \<and>
               temp_anomaly a =
                 (case an_temperature a of
                    None \<Rightarrow> None
                  | Some t \<Rightarrow> map_option (float_minus eng t) (city_avg_temp a))) \<and>
            ((\<forall>x. float_minus eng x x = 0) \<longrightarrow>
               (\<forall>a \<in> set anoms. an_temperature a \<noteq> None \<and> an_temperature a = city_avg_temp a \<longrightarrow>
                  temp_anomaly a = Some 0))"
    if "calculate_temperature_anomalies eng db = Inr anoms" for anoms
  proof -
    from assms that have "anoms = ?anoms" by (rule anomalies_Inr)
    with st len each zero show ?thesis by (simp only:) 
  qed
  show ?thesis
  proof (rule conjI)
    show "(\<exists>anoms. calculate_temperature_anomalies eng db = Inr anoms) \<longleftrightarrow>
            to_datetime eng (map forecast_time (frame rows)) \<and>
            to_datetime eng (map retrieved_at (frame rows))"
      by (rule ret)
  qed (use val in blast)
qed


lemma level_sorted: "frame level_rows = level_rows"
  by (simp add: frame_def level_rows_def example_slot_def)

theorem calculate_temperature_anomalies_named_cities_witness:
  "forecast_table (example_warehouse level_rows) = Some level_rows \<and>
   map (\<lambda>a. (an_temperature a, city_avg_temp a, temp_anomaly a))
     (projr (calculate_temperature_anomalies example_engine (example_warehouse level_rows))) =
     [(Some 18, Some 20, Some (- 2)), (Some 20, Some 20, Some 0), (Some 22, Some 20, Some 2)]"
proof -
  have tbl: "forecast_table (example_warehouse level_rows) = Some level_rows"
    by (simp add: example_warehouse_def)
  note inst = calculate_temperature_anomalies_named_cities [OF tbl, of example_engine]
  have "to_datetime example_engine (map forecast_time (frame level_rows)) \<and>
        to_datetime example_engine (map retrieved_at (frame level_rows))"
    unfolding level_sorted by (simp add: level_rows_def example_slot_def one_layout_def)
  with inst [THEN conjunct1] obtain anoms where
    ret: "calculate_temperature_anomalies example_engine (example_warehouse level_rows) = Inr anoms"
    by blast
  with inst [THEN conjunct2] have
    "anoms = map (spec_anomaly example_engine (frame level_rows))
               (filter (\<lambda>r. city_name r \<noteq> None) (frame level_rows))"
    by blast
  then have "map (\<lambda>a. (an_temperature a, city_avg_temp a, temp_anomaly a))
     (projr (calculate_temperature_anomalies example_engine (example_warehouse level_rows))) =
     map (\<lambda>a. (an_temperature a, city_avg_temp a, temp_anomaly a))
       (map (spec_anomaly example_engine level_rows) (filter (\<lambda>r. city_name r \<noteq> None) level_rows))"
    unfolding level_sorted ret by simp
  also have "\<dots> = [(Some 18, Some 20, Some (- 2)), (Some 20, Some 20, Some 0), (Some 22, Some 20, Some 2)]"
    by (simp add: level_rows_def example_slot_def city_mean_def Let_def map_filter_simps)
  finally show ?thesis using tbl by simp
qed

text \<open>
  Claim C5 as stated fails: a record without city name, which the loader stores when the
  payload has no city block, gets no anomaly row.
\<close>

theorem calculate_temperature_anomalies_nameless_counterexample:
  "forecast_table (example_warehouse nameless_rows) = Some nameless_rows \<and>
   length nameless_rows = 1 \<and>
   calculate_temperature_anomalies example_engine (example_warehouse nameless_rows) = Inr []"
proof -
  have tbl: "forecast_table (example_warehouse nameless_rows) = Some nameless_rows"
    by (simp add: example_warehouse_def)
  have fr: "frame nameless_rows = nameless_rows"
    by (simp add: frame_def nameless_rows_def)
  have "calculate_temperature_anomalies example_engine (example_warehouse nameless_rows) = Inr []"
    unfolding anomalies_eq [OF tbl] fr
    by (simp add: nameless_rows_def example_slot_def one_layout_def)
  with tbl show ?thesis
    by (simp add: nameless_rows_def)
qed







section \<open>Properties of the transformation run\<close>

lemma store_eq: "store_transformed_data df tbl = Some (table_rows tbl @ df)"
  by (cases tbl) (simp_all add: store_transformed_data_def table_rows_def)

lemma store_changes: "df \<noteq> [] \<Longrightarrow> store_transformed_data df tbl \<noteq> tbl"
  by (cases tbl) (simp_all add: store_transformed_data_def)

lemma run_transformations_eq:
  assumes "forecast_table db = Some rows"
  shows "run_transformations eng db =
     (let db1 = db\<lparr>daily_aggregates :=
                     store_transformed_data (map daily_row (daily_groups eng rows))
                       (daily_aggregates db)\<rparr>;
          db2 = db1\<lparr>temperature_anomalies :=
                     store_transformed_data
                       (map (spec_anomaly eng (frame rows))
                          (filter (\<lambda>r. city_name r \<noteq> None) (frame rows)))
                       (temperature_anomalies db)\<rparr>;
          evs = map (\<lambda>row. \<lparr>event_row = row,
                             event_description =
                               join ''; '' (map (clause row)
                                 (filter (matches row) [Cold, Heat, Wind, Rain, Snow]))\<rparr>)
                  (filter (\<lambda>r. \<exists>p. matches r p) (frame rows))
      in if \<not> to_datetime eng (map (\<lambda>g. snd (snd (fst g))) (daily_groups eng rows))
         then (Some ValueError, db)
         else if \<not> (to_datetime eng (map forecast_time (frame rows)) \<and>
                     to_datetime eng (map retrieved_at (frame rows)))
         then (Some ValueError, db1)
         else if (\<exists>r \<in> set rows. \<exists>p. matches r p) \<and> \<not> tested_columns_numeric rows
         then (Some TypeError, db2)
         else (None,
               if evs \<noteq> []
               then db2\<lparr>extreme_weather_events :=
                          store_transformed_data evs (extreme_weather_events db)\<rparr>
               else db2))"
proof -
  let ?db1 = "db\<lparr>daily_aggregates :=
                     store_transformed_data (map daily_row (daily_groups eng rows))
                       (daily_aggregates db)\<rparr>"
  let ?an = "map (spec_anomaly eng (frame rows)) (filter (\<lambda>r. city_name r \<noteq> None) (frame rows))"
  let ?db2 = "?db1\<lparr>temperature_anomalies := store_transformed_data ?an (temperature_anomalies db)\<rparr>"
  have t1: "forecast_table ?db1 = Some rows" using assms by simp
  have t2: "forecast_table ?db2 = Some rows" using assms by simp
  note d = daily_eq [OF assms, of eng]
  note a = anomalies_eq [OF t1, of eng]
  note f = find_extreme_eq [OF t2, of eng]
  show ?thesis
    unfolding run_transformations_def d
    by (cases "to_datetime eng (map (\<lambda>g. snd (snd (fst g))) (daily_groups eng rows))";
        cases "to_datetime eng (map forecast_time (frame rows))";
        cases "to_datetime eng (map retrieved_at (frame rows))";
        cases "\<exists>r \<in> set rows. \<exists>p. matches r p";
        cases "tested_columns_numeric rows")
       (simp_all add: Let_def a f del: not_None_eq)
qed

text \<open>
  Claim C8, as amended.  \<open>run_transformations\<close> reads the whole forecast table.  When no
  record of the table satisfies an extreme-condition predicate, it leaves table
  \<open>extreme_weather_events\<close> as it was (absent if it was absent).  When \<open>pd.to_datetime\<close>
  converts the dates of the daily groups and the columns \<open>forecast_time\<close> and \<open>retrieved_at\<close>,
  the daily aggregates and the temperature anomalies of the table are appended to their
  tables, or create them; the run then returns normally if no record qualifies, and also
  if some record qualifies and each tested column holds a number in some row, in which
  case the events are appended to table \<open>extreme_weather_events\<close>, or create it.  The run
  returns normally in no other case.
\<close>

theorem run_transformations_extreme_events:
  assumes "forecast_table db = Some rows"
  shows "forecast_table (snd (run_transformations eng db)) = Some rows \<and>
         ((\<forall>r \<in> set rows. \<forall>p. \<not> matches r p) \<longrightarrow>
            extreme_weather_events (snd (run_transformations eng db)) =
              extreme_weather_events db) \<and>
         (to_datetime eng (map (\<lambda>g. snd (snd (fst g))) (daily_groups eng rows)) \<and>
          to_datetime eng (map forecast_time (frame rows)) \<and>
          to_datetime eng (map retrieved_at (frame rows)) \<longrightarrow>
            daily_aggregates (snd (run_transformations eng db)) =
              Some (table_rows (daily_aggregates db) @ map daily_row (daily_groups eng rows)) \<and>
            temperature_anomalies (snd (run_transformations eng db)) =
              Some (table_rows (temperature_anomalies db) @
                    map (spec_anomaly eng (frame rows))
                      (filter (\<lambda>r. city_name r \<noteq> None) (frame rows))) \<and>
            ((\<forall>r \<in> set rows. \<forall>p. \<not> matches r p) \<longrightarrow>
               fst (run_transformations eng db) = None) \<and>
            ((\<exists>r \<in> set rows. \<exists>p. matches r p) \<and> tested_columns_numeric rows \<longrightarrow>
               fst (run_transformations eng db) = None \<and>
               map event_row (table_rows (extreme_weather_events (snd (run_transformations eng db)))) =
                 map event_row (table_rows (extreme_weather_events db)) @
                 filter (\<lambda>r. \<exists>p. matches r p) (frame rows) \<and>
               extreme_weather_events (snd (run_transformations eng db)) \<noteq>
                 extreme_weather_events db)) \<and>
         (fst (run_transformations eng db) = None \<longleftrightarrow>
            to_datetime eng (map (\<lambda>g. snd (snd (fst g))) (daily_groups eng rows)) \<and>
            to_datetime eng (map forecast_time (frame rows)) \<and>
            to_datetime eng (map retrieved_at (frame rows)) \<and>
            ((\<exists>r \<in> set rows. \<exists>p. matches r p) \<longrightarrow> tested_columns_numeric rows))"
proof -
  let ?evs = "map (\<lambda>row. \<lparr>event_row = row,
                             event_description =
                               join ''; '' (map (clause row)
                                 (filter (matches row) [Cold, Heat, Wind, Rain, Snow]))\<rparr>)
                (filter (\<lambda>r. \<exists>p. matches r p) (frame rows))"
  note run = run_transformations_eq [OF assms, of eng]
  have evs: "?evs = [] \<longleftrightarrow> (\<forall>r \<in> set rows. \<forall>p. \<not> matches r p)"
    by (auto simp: filter_empty_conv)
  have 1: "forecast_table (snd (run_transformations eng db)) = Some rows"
    unfolding run using assms by (simp add: Let_def)
  have 2: "extreme_weather_events (snd (run_transformations eng db)) = extreme_weather_events db"
    if "\<forall>r \<in> set rows. \<forall>p. \<not> matches r p"
  proof -
    from that evs have "?evs = []" by blast
    then show ?thesis unfolding run by (simp add: Let_def)
  qed
  have 3: "daily_aggregates (snd (run_transformations eng db)) =
              Some (table_rows (daily_aggregates db) @ map daily_row (daily_groups eng rows)) \<and>
            temperature_anomalies (snd (run_transformations eng db)) =
              Some (table_rows (temperature_anomalies db) @
                    map (spec_anomaly eng (frame rows))
                      (filter (\<lambda>r. city_name r \<noteq> None) (frame rows))) \<and>
            ((\<forall>r \<in> set rows. \<forall>p. \<not> matches r p) \<longrightarrow>
               fst (run_transformations eng db) = None) \<and>
            ((\<exists>r \<in> set rows. \<exists>p. matches r p) \<and> tested_columns_numeric rows \<longrightarrow>
               fst (run_transformations eng db) = None \<and>
               map event_row (table_rows (extreme_weather_events (snd (run_transformations eng db)))) =
                 map event_row (table_rows (extreme_weather_events db)) @
                 filter (\<lambda>r. \<exists>p. matches r p) (frame rows) \<and>
               extreme_weather_events (snd (run_transformations eng db)) \<noteq>
                 extreme_weather_events db)"
    if ok: "to_datetime eng (map (\<lambda>g. snd (snd (fst g))) (daily_groups eng rows)) \<and>
          to_datetime eng (map forecast_time (frame rows)) \<and>
          to_datetime eng (map retrieved_at (frame rows))"
  proof -
    have a: "daily_aggregates (snd (run_transformations eng db)) =
              Some (table_rows (daily_aggregates db) @ map daily_row (daily_groups eng rows))"
      unfolding run using ok by (simp add: Let_def store_eq)
    have b: "temperature_anomalies (snd (run_transformations eng db)) =
              Some (table_rows (temperature_anomalies db) @
                    map (spec_anomaly eng (frame rows))
                      (filter (\<lambda>r. city_name r \<noteq> None) (frame rows)))"
      unfolding run using ok by (simp add: Let_def store_eq)
    have c: "(\<forall>r \<in> set rows. \<forall>p. \<not> matches r p) \<longrightarrow> fst (run_transformations eng db) = None"
      unfolding run using ok by (simp add: Let_def)
    have d: "fst (run_transformations eng db) = None \<and>
               map event_row (table_rows (extreme_weather_events (snd (run_transformations eng db)))) =
                 map event_row (table_rows (extreme_weather_events db)) @
                 filter (\<lambda>r. \<exists>p. matches r p) (frame rows) \<and>
               extreme_weather_events (snd (run_transformations eng db)) \<noteq>
                 extreme_weather_events db"
      if q: "(\<exists>r \<in> set rows. \<exists>p. matches r p) \<and> tested_columns_numeric rows"
    proof -
      from q evs have ne: "?evs \<noteq> []" by blast
      have r: "fst (run_transformations eng db) = None"
        unfolding run using ok q by (simp add: Let_def)
      have e: "extreme_weather_events (snd (run_transformations eng db)) =
                 store_transformed_data ?evs (extreme_weather_events db)"
        unfolding run using ok q ne by (simp add: Let_def)
      have "map event_row (table_rows (store_transformed_data ?evs (extreme_weather_events db))) =
                 map event_row (table_rows (extreme_weather_events db)) @
                 filter (\<lambda>r. \<exists>p. matches r p) (frame rows)"
        unfolding store_eq by (simp add: table_rows_def comp_def)
      with r e store_changes [OF ne, of "extreme_weather_events db"] show ?thesis by simp
    qed
    from a b c d show ?thesis by blast
  qed
  have 4: "fst (run_transformations eng db) = None \<longleftrightarrow>
            to_datetime eng (map (\<lambda>g. snd (snd (fst g))) (daily_groups eng rows)) \<and>
            to_datetime eng (map forecast_time (frame rows)) \<and>
            to_datetime eng (map retrieved_at (frame rows)) \<and>
            ((\<exists>r \<in> set rows. \<exists>p. matches r p) \<longrightarrow> tested_columns_numeric rows)"
    unfolding run by (auto simp: Let_def)
  from 1 2 3 4 show ?thesis by blast
qed

theorem run_transformations_extreme_events_witness:
  "forecast_table (example_warehouse calm_rows) = Some calm_rows \<and>
   filter extreme_conditions calm_rows = [] \<and>
   fst (run_transformations example_engine (example_warehouse calm_rows)) = None \<and>
   extreme_weather_events (snd (run_transformations example_engine (example_warehouse calm_rows))) = None \<and>
   map max_temp (table_rows (daily_aggregates
     (snd (run_transformations example_engine (example_warehouse calm_rows))))) = [Some 25] \<and>
   map temp_anomaly (table_rows (temperature_anomalies
     (snd (run_transformations example_engine (example_warehouse calm_rows))))) = [Some 0]"
proof -
  have tbl: "forecast_table (example_warehouse calm_rows) = Some calm_rows"
    by (simp add: example_warehouse_def)
  have calm: "\<forall>r \<in> set calm_rows. \<forall>p. \<not> matches r p"
  proof (intro ballI allI)
    fix r p assume "r \<in> set calm_rows"
    then show "\<not> matches r p"
      by (cases p) (simp_all add: calm_rows_def example_slot_def)
  qed
  have fr: "frame calm_rows = calm_rows"
    by (simp add: frame_def calm_rows_def)
  have ok: "to_datetime example_engine
              (map (\<lambda>g. snd (snd (fst g))) (daily_groups example_engine calm_rows)) \<and>
            to_datetime example_engine (map forecast_time (frame calm_rows)) \<and>
            to_datetime example_engine (map retrieved_at (frame calm_rows))"
    unfolding fr
    by (simp add: calm_rows_def example_slot_def one_layout_def daily_groups_def group_key_def
          date_prefix_def)
  note inst = run_transformations_extreme_events [OF tbl, of example_engine]
  from inst calm
  have 2: "extreme_weather_events (snd (run_transformations example_engine (example_warehouse calm_rows))) = None"
    by (simp add: example_warehouse_def)
  from inst ok have
    d: "daily_aggregates (snd (run_transformations example_engine (example_warehouse calm_rows))) =
           Some (table_rows (daily_aggregates (example_warehouse calm_rows)) @
                 map daily_row (daily_groups example_engine calm_rows))" and
    a: "temperature_anomalies (snd (run_transformations example_engine (example_warehouse calm_rows))) =
           Some (table_rows (temperature_anomalies (example_warehouse calm_rows)) @
                 map (spec_anomaly example_engine (frame calm_rows))
                   (filter (\<lambda>r. city_name r \<noteq> None) (frame calm_rows)))" and
    n: "(\<forall>r \<in> set calm_rows. \<forall>p. \<not> matches r p) \<longrightarrow>
          fst (run_transformations example_engine (example_warehouse calm_rows)) = None"
    by blast+
  from n calm have 1: "fst (run_transformations example_engine (example_warehouse calm_rows)) = None"
    by blast
  from d have 3: "map max_temp (table_rows (daily_aggregates
     (snd (run_transformations example_engine (example_warehouse calm_rows))))) = [Some 25]"
    by (simp add: table_rows_def example_warehouse_def daily_groups_def calm_rows_def
          example_slot_def group_key_def date_prefix_def daily_row_def sql_max_def)
  from a have 4: "map temp_anomaly (table_rows (temperature_anomalies
     (snd (run_transformations example_engine (example_warehouse calm_rows))))) = [Some 0]"
    unfolding fr
    by (simp add: table_rows_def example_warehouse_def calm_rows_def example_slot_def
          city_mean_def Let_def map_filter_simps)
  from calm have 0: "filter extreme_conditions calm_rows = []"
    by (simp add: filter_empty_conv extreme_conditions_iff)
  from tbl 0 1 2 3 4 show ?thesis by (intro conjI)
qed

text \<open>
  Claim C8 as stated fails.  transform.py has no notion of a batch: the events are taken
  from the whole forecast table.  Here the table holds a record of 45 degrees from an
  earlier run and the current batch is one calm record of 25 degrees; the run still
  creates table \<open>extreme_weather_events\<close>, with the event of the earlier record.
\<close>

theorem run_transformations_batch_counterexample:
  "heat_rows = example_slot 1 ''Testville'' ''TV'' ''2024-07-01 12:00:00'' 45 # calm_rows \<and>
   \<not> extreme_conditions (hd calm_rows) \<and>
   extreme_weather_events (example_warehouse heat_rows) = None \<and>
   extreme_weather_events (snd (run_transformations example_engine (example_warehouse heat_rows))) =
     Some [\<lparr>event_row = example_slot 1 ''Testville'' ''TV'' ''2024-07-01 12:00:00'' 45,
            event_description = ''Extreme heat: 45.0'' @ degree @ ''C''\<rparr>]"
proof -
  let ?r = "example_slot 1 ''Testville'' ''TV'' ''2024-07-01 12:00:00'' 45"
  have tbl: "forecast_table (example_warehouse heat_rows) = Some heat_rows"
    by (simp add: example_warehouse_def)
  have sorted: "frame heat_rows = heat_rows"
    by (simp add: frame_def heat_rows_def example_slot_def)
  have flt: "filter (\<lambda>r. \<exists>p. matches r p) heat_rows = [?r]"
    by (simp add: heat_rows_def example_slot_def matches_cases)
  have fmt: "format_1f 45 = ''45.0''"
    by (simp add: format_eval)
  have descr: "join ''; '' (map (clause ?r) (filter (matches ?r) [Cold, Heat, Wind, Rain, Snow])) =
                 ''Extreme heat: 45.0'' @ degree @ ''C''"
    by (simp add: example_slot_def clause_def format_cell_def fmt)
  have ex: "\<exists>r \<in> set heat_rows. \<exists>p. matches r p"
  proof -
    have "?r \<in> set (filter (\<lambda>r. \<exists>p. matches r p) heat_rows)" unfolding flt by simp
    then show ?thesis by auto
  qed
  have ok: "to_datetime example_engine
              (map (\<lambda>g. snd (snd (fst g))) (daily_groups example_engine heat_rows)) \<and>
            to_datetime example_engine (map forecast_time heat_rows) \<and>
            to_datetime example_engine (map retrieved_at heat_rows) \<and>
            tested_columns_numeric heat_rows"
    by (simp add: heat_rows_def example_slot_def one_layout_def daily_groups_def group_key_def
          date_prefix_def tested_columns_numeric_def)
  have 1: "heat_rows = ?r # calm_rows"
    by (simp add: heat_rows_def calm_rows_def)
  have 2: "\<not> extreme_conditions (hd calm_rows)"
    by (simp add: calm_rows_def example_slot_def extreme_conditions_def lt_def gt_def)
  have 3: "extreme_weather_events (example_warehouse heat_rows) = None"
    by (simp add: example_warehouse_def)
  have 4: "extreme_weather_events (snd (run_transformations example_engine (example_warehouse heat_rows))) =
     Some [\<lparr>event_row = ?r, event_description = ''Extreme heat: 45.0'' @ degree @ ''C''\<rparr>]"
    unfolding run_transformations_eq [OF tbl] sorted flt list.map descr
    using ok ex by (simp add: Let_def store_transformed_data_def example_warehouse_def)
  from 1 2 3 4 show ?thesis by (intro conjI)
qed

section \<open>Properties of the loader: optional fields\<close>

lemma assignments_keys:
  "assignments ms = Inr vs \<Longrightarrow> map fst vs = map fst ms"
proof (induction ms arbitrary: vs)
  case Nil
  then show ?case by simp
next
  case (Cons m ms)
  obtain name x where m: "m = (name, x)" by (cases m)
  from Cons.prems obtain v vs' where "x = Inr v" "assignments ms = Inr vs'" "vs = (name, v) # vs'"
    unfolding m by (auto simp: and_then_eq_Inr)
  with Cons.IH [of vs'] show ?case by (simp add: m)
qed

lemma assignments_value:
  "assignments ms = Inr vs \<Longrightarrow> map_of ms k = Some m \<Longrightarrow>
   \<exists>v. m = Inr v \<and> map_of vs k = Some v"
proof (induction ms arbitrary: vs)
  case Nil
  then show ?case by simp
next
  case (Cons p ms)
  obtain name x where p: "p = (name, x)" by (cases p)
  from Cons.prems(1) obtain v vs' where
    x: "x = Inr v" and rest: "assignments ms = Inr vs'" and vs: "vs = (name, v) # vs'"
    unfolding p by (auto simp: and_then_eq_Inr)
  show ?case
  proof (cases "k = name")
    case True
    with Cons.prems(2) x show ?thesis by (simp add: p vs)
  next
    case False
    with Cons.prems(2) have "map_of ms k = Some m" by (simp add: p)
    from Cons.IH [OF rest this] False show ?thesis by (simp add: vs)
  qed
qed

lemma map_of_rotate1:
  "distinct (map fst vars) \<Longrightarrow> map_of (rotate1 vars) k = map_of vars k"
proof (cases vars)
  case Nil
  then show ?thesis by simp
next
  case (Cons x xs)
  assume "distinct (map fst vars)"
  with Cons have "fst x \<notin> fst ` set xs" by simp
  then have "map_of xs (fst x) = None" by (simp add: map_of_eq_None_iff)
  then show ?thesis
    unfolding Cons by (cases x) (auto simp: map_add_def split: option.splits)
qed

lemma map_of_bound:
  "map_of (map (\<lambda>p. (fst p, adapt (snd p))) params) k = map_option adapt (map_of params k)"
  by (induction params) auto

lemma execute_insert_Inr:
  "execute_insert tbl params = Inr tbl' \<Longrightarrow>
   \<exists>rows r. tbl = Some rows \<and> tbl' = Some (rows @ [r]) \<and>
            assignments (map (\<lambda>p. (fst p, adapt (snd p))) params) = Inr r"
  by (cases tbl) (auto simp: execute_insert_def and_then_eq_Inr)

lemma inserted_cell:
  assumes "execute_insert tbl params = Inr tbl'" and "map_of params k = Some v"
  shows "\<exists>rows r c. tbl = Some rows \<and> tbl' = Some (rows @ [r]) \<and> adapt v = Inr c \<and>
                    map_of r k = Some c"
proof -
  from execute_insert_Inr [OF assms(1)] obtain rows r where
    t: "tbl = Some rows" "tbl' = Some (rows @ [r])" and
    a: "assignments (map (\<lambda>p. (fst p, adapt (snd p))) params) = Inr r"
    by blast
  have "map_of (map (\<lambda>p. (fst p, adapt (snd p))) params) k = Some (adapt v)"
    by (simp add: map_of_bound assms(2))
  from assignments_value [OF a this] t show ?thesis by blast
qed

lemma lacks_cases:
  assumes "lacks data block field"
  obtains kvs where "data = JObj kvs" and "map_of kvs block = None"
  | kvs b where "data = JObj kvs" and "map_of kvs block = Some (JObj b)" and "map_of b field = None"
proof (cases data)
  case (JObj kvs)
  show ?thesis
  proof (cases "map_of kvs block")
    case None
    with JObj that(1) show ?thesis by blast
  next
    case (Some x)
    with assms JObj obtain b where "x = JObj b" "map_of b field = None"
      by (cases x) (simp_all add: lacks_def)
    with JObj Some that(2) show ?thesis by blast
  qed
qed (use assms in \<open>simp_all add: lacks_def\<close>)

lemma get2_lacks:
  "lacks data block field \<Longrightarrow> get2 data block field (JInt 0) = Inr (Json (JInt 0))"
  by (erule lacks_cases) (simp_all add: get2_def as_json_def)

lemma py_get_with_zero:
  "lacks data block field \<Longrightarrow> k \<noteq> block \<Longrightarrow>
   py_get (with_zero block field data) k d = py_get data k d"
  by (erule lacks_cases) (simp_all add: with_zero_def)

lemma get2_with_zero:
  "lacks data block field \<Longrightarrow>
   get2 (with_zero block field data) k1 k2 d =
     (if k1 = block then (if k2 = field then Inr (Json (JInt 0)) else Inr (Json d))
      else get2 data k1 k2 d)"
  by (erule lacks_cases) (simp_all add: with_zero_def get2_def as_json_def)

lemma current_weather_values_with_zero:
  assumes "lacks data block ''1h''" and "block = ''rain'' \<or> block = ''snow''"
  shows "current_weather_values w (with_zero block ''1h'' data) = current_weather_values w data"
  using assms(2)
proof
  assume b: "block = ''rain''"
  from assms(1) show ?thesis
    unfolding current_weather_values_def weather_field_def b
    by (simp add: py_get_with_zero get2_with_zero get2_lacks)
next
  assume b: "block = ''snow''"
  from assms(1) show ?thesis
    unfolding current_weather_values_def weather_field_def b
    by (simp add: py_get_with_zero get2_with_zero get2_lacks)
qed

lemma forecast_values_with_zero:
  assumes "lacks slot block ''3h''" and "block = ''rain'' \<or> block = ''snow''"
  shows "forecast_values w (with_zero block ''3h'' slot) = forecast_values w slot"
  using assms(2)
proof
  assume b: "block = ''rain''"
  from assms(1) show ?thesis
    unfolding forecast_values_def weather_field_def b
    by (simp add: py_get_with_zero get2_with_zero get2_lacks)
next
  assume b: "block = ''snow''"
  from assms(1) show ?thesis
    unfolding forecast_values_def weather_field_def b
    by (simp add: py_get_with_zero get2_with_zero get2_lacks)
qed

lemma current_weather_values_keys:
  "current_weather_values w data = Inr vars \<Longrightarrow>
   map fst vars =
     [''retrieved_at'', ''city_id'', ''city_name'', ''country'', ''latitude'', ''longitude'',
      ''weather_main'', ''weather_description'', ''temperature'', ''feels_like'', ''temp_min'',
      ''temp_max'', ''pressure'', ''humidity'', ''wind_speed'', ''wind_direction'',
      ''cloudiness'', ''rain_1h'', ''snow_1h'', ''timestamp'', ''sunrise'', ''sunset'']"
  unfolding current_weather_values_def by (drule assignments_keys) simp

lemma forecast_header_keys:
  "forecast_header data = Inr header \<Longrightarrow>
   map fst header = [''retrieved_at'', ''city_id'', ''city_name'', ''country'']"
  unfolding forecast_header_def by (drule assignments_keys) simp

lemma forecast_values_keys:
  "forecast_values w slot = Inr vars \<Longrightarrow>
   map fst vars =
     [''forecast_time'', ''weather_main'', ''weather_description'', ''temperature'',
      ''feels_like'', ''temp_min'', ''temp_max'', ''pressure'', ''humidity'', ''wind_speed'',
      ''wind_direction'', ''cloudiness'', ''rain_3h'', ''snow_3h'']"
  unfolding forecast_values_def by (drule assignments_keys) simp

lemma current_weather_values_precipitation:
  assumes "current_weather_values w data = Inr vars"
  shows "get2 data ''rain'' ''1h'' (JInt 0) = Inr v \<Longrightarrow> map_of (rotate1 vars) ''rain_1h'' = Some v"
    and "get2 data ''snow'' ''1h'' (JInt 0) = Inr v \<Longrightarrow> map_of (rotate1 vars) ''snow_1h'' = Some v"
proof -
  have d: "distinct (map fst vars)"
    unfolding current_weather_values_keys [OF assms] by simp
  note a = assms [unfolded current_weather_values_def]
  { assume g: "get2 data ''rain'' ''1h'' (JInt 0) = Inr v"
    from assignments_value [OF a, of "''rain_1h''"] g
    show "map_of (rotate1 vars) ''rain_1h'' = Some v"
      unfolding map_of_rotate1 [OF d] by simp }
  { assume g: "get2 data ''snow'' ''1h'' (JInt 0) = Inr v"
    from assignments_value [OF a, of "''snow_1h''"] g
    show "map_of (rotate1 vars) ''snow_1h'' = Some v"
      unfolding map_of_rotate1 [OF d] by simp }
qed

lemma forecast_values_precipitation:
  assumes "forecast_header data = Inr header" and "forecast_values w slot = Inr vars"
  shows "get2 slot ''rain'' ''3h'' (JInt 0) = Inr v \<Longrightarrow>
           map_of (rotate1 (header @ vars)) ''rain_3h'' = Some v"
    and "get2 slot ''snow'' ''3h'' (JInt 0) = Inr v \<Longrightarrow>
           map_of (rotate1 (header @ vars)) ''snow_3h'' = Some v"
proof -
  have d: "distinct (map fst (header @ vars))"
    using forecast_header_keys [OF assms(1)] forecast_values_keys [OF assms(2)] by simp
  have h: "map_of header k = None" if "k \<notin> set [''retrieved_at'', ''city_id'', ''city_name'', ''country'']" for k
    using that forecast_header_keys [OF assms(1)] by (metis map_of_eq_None_iff set_map)
  note a = assms(2) [unfolded forecast_values_def]
  { assume g: "get2 slot ''rain'' ''3h'' (JInt 0) = Inr v"
    from assignments_value [OF a, of "''rain_3h''"] g
    have "map_of vars ''rain_3h'' = Some v" by simp
    then show "map_of (rotate1 (header @ vars)) ''rain_3h'' = Some v"
      unfolding map_of_rotate1 [OF d] by (simp add: map_add_def h) }
  { assume g: "get2 slot ''snow'' ''3h'' (JInt 0) = Inr v"
    from assignments_value [OF a, of "''snow_3h''"] g
    have "map_of vars ''snow_3h'' = Some v" by simp
    then show "map_of (rotate1 (header @ vars)) ''snow_3h'' = Some v"
      unfolding map_of_rotate1 [OF d] by (simp add: map_add_def h) }
qed

lemma forecast_loop_rows:
  "forecast_loop w header entries (Some rows) = Inr tbl' \<Longrightarrow>
   \<exists>new. tbl' = Some (rows @ new) \<and> length new = length entries \<and>
     (\<forall>i < length entries. \<exists>vars.
        forecast_values w (entries ! i) = Inr vars \<and>
        assignments (map (\<lambda>p. (fst p, adapt (snd p))) (rotate1 (header @ vars))) = Inr (new ! i))"
proof (induction entries arbitrary: rows)
  case Nil
  then show ?case by simp
next
  case (Cons slot rest)
  from Cons.prems obtain vars t1 where
    v: "forecast_values w slot = Inr vars" and
    e: "execute_insert (Some rows) (rotate1 (header @ vars)) = Inr t1" and
    l: "forecast_loop w header rest t1 = Inr tbl'"
    by (auto simp: and_then_eq_Inr)
  from execute_insert_Inr [OF e] obtain r where
    t1: "t1 = Some (rows @ [r])" and
    r: "assignments (map (\<lambda>p. (fst p, adapt (snd p))) (rotate1 (header @ vars))) = Inr r"
    by auto
  from Cons.IH [OF l [unfolded t1]] obtain new where
    n: "tbl' = Some ((rows @ [r]) @ new)" "length new = length rest" and
    each: "\<forall>i < length rest. \<exists>vars.
        forecast_values w (rest ! i) = Inr vars \<and>
        assignments (map (\<lambda>p. (fst p, adapt (snd p))) (rotate1 (header @ vars))) = Inr (new ! i)"
    by blast
  have "\<forall>i < length (slot # rest). \<exists>vars.
        forecast_values w ((slot # rest) ! i) = Inr vars \<and>
        assignments (map (\<lambda>p. (fst p, adapt (snd p))) (rotate1 (header @ vars))) = Inr ((r # new) ! i)"
  proof (intro allI impI)
    fix i assume "i < length (slot # rest)"
    then show "\<exists>vars. forecast_values w ((slot # rest) ! i) = Inr vars \<and>
        assignments (map (\<lambda>p. (fst p, adapt (snd p))) (rotate1 (header @ vars))) = Inr ((r # new) ! i)"
      using v r each by (cases i) auto
  qed
  with n show ?case by (intro exI [of _ "r # new"]) simp
qed

lemma current_weather_transaction_Inr:
  "current_weather_transaction w p now data db = Inr (city, db') \<Longrightarrow>
   \<exists>vars cw rf.
     current_weather_values w data = Inr vars \<and>
     execute_insert (current_weather db) (rotate1 vars) = Inr cw \<and>
     execute_insert (raw_data_files db)
       (raw_data_file p ''current'' (local_var vars ''city_name'') now) = Inr rf \<and>
     city = local_var vars ''city_name'' \<and>
     db' = db\<lparr>current_weather := cw, raw_data_files := rf\<rparr>"
  unfolding current_weather_transaction_def by (auto simp: and_then_eq_Inr)

lemma forecast_transaction_Inr:
  "forecast_transaction w p now data db = Inr (city, db') \<Longrightarrow>
   \<exists>header entries fc rf.
     forecast_header data = Inr header \<and>
     and_then (py_get data ''list'' (JArr [])) py_iter = Inr entries \<and>
     forecast_loop w header entries (forecast db) = Inr fc \<and>
     execute_insert (raw_data_files db)
       (raw_data_file p ''forecast'' (local_var header ''city_name'') now) = Inr rf \<and>
     city = local_var header ''city_name'' \<and>
     db' = db\<lparr>forecast := fc, raw_data_files := rf\<rparr>"
  unfolding forecast_transaction_def by (auto simp: and_then_eq_Inr)

lemma observation_cell_zero:
  assumes "lacks data block ''1h''" and "block = ''rain'' \<or> block = ''snow''"
    and "current_weather_transaction w p now data db = Inr (city, db')"
  shows "\<exists>rows r. current_weather db = Some rows \<and> current_weather db' = Some (rows @ [r]) \<and>
                  map_of r (block @ ''_1h'') = Some (SInt 0)"
proof -
  from current_weather_transaction_Inr [OF assms(3)] obtain vars cw rf where
    v: "current_weather_values w data = Inr vars" and
    e: "execute_insert (current_weather db) (rotate1 vars) = Inr cw" and
    d: "db' = db\<lparr>current_weather := cw, raw_data_files := rf\<rparr>"
    by blast
  have "map_of (rotate1 vars) (block @ ''_1h'') = Some (Json (JInt 0))"
    using assms(2) get2_lacks [OF assms(1)] current_weather_values_precipitation [OF v]
    by auto
  from inserted_cell [OF e this] d show ?thesis by auto
qed

lemma forecast_cells_zero:
  assumes "block = ''rain'' \<or> block = ''snow''"
    and "forecast_transaction w p now data db = Inr (city, db')"
    and "forecast db = Some rows"
  shows "\<exists>entries new.
           and_then (py_get data ''list'' (JArr [])) py_iter = Inr entries \<and>
           forecast db' = Some (rows @ new) \<and> length new = length entries \<and>
           (\<forall>i < length entries. lacks (entries ! i) block ''3h'' \<longrightarrow>
              map_of (new ! i) (block @ ''_3h'') = Some (SInt 0))"
proof -
  from forecast_transaction_Inr [OF assms(2)] obtain header entries fc rf where
    h: "forecast_header data = Inr header" and
    it: "and_then (py_get data ''list'' (JArr [])) py_iter = Inr entries" and
    l: "forecast_loop w header entries (forecast db) = Inr fc" and
    d: "db' = db\<lparr>forecast := fc, raw_data_files := rf\<rparr>"
    by blast
  from forecast_loop_rows [OF l [unfolded assms(3)]] obtain new where
    fc: "fc = Some (rows @ new)" and len: "length new = length entries" and
    each: "\<forall>i < length entries. \<exists>vars.
        forecast_values w (entries ! i) = Inr vars \<and>
        assignments (map (\<lambda>p. (fst p, adapt (snd p))) (rotate1 (header @ vars))) = Inr (new ! i)"
    by blast
  have "map_of (new ! i) (block @ ''_3h'') = Some (SInt 0)"
    if i: "i < length entries" and lk: "lacks (entries ! i) block ''3h''" for i
  proof -
    from each i obtain vars where
      v: "forecast_values w (entries ! i) = Inr vars" and
      a: "assignments (map (\<lambda>p. (fst p, adapt (snd p))) (rotate1 (header @ vars))) = Inr (new ! i)"
      by blast
    have "map_of (rotate1 (header @ vars)) (block @ ''_3h'') = Some (Json (JInt 0))"
      using assms(1) get2_lacks [OF lk] forecast_values_precipitation [OF h v]
      by auto
    then have "map_of (map (\<lambda>p. (fst p, adapt (snd p))) (rotate1 (header @ vars))) (block @ ''_3h'') =
                 Some (adapt (Json (JInt 0)))"
      by (simp add: map_of_bound)
    from assignments_value [OF a this] show ?thesis by simp
  qed
  with it fc len d show ?thesis by auto
qed

text \<open>
  Claim C4.  Let the block be \<open>rain\<close> or \<open>snow\<close>.  For an observation payload in which the
  block is absent or has no field \<open>1h\<close>, reading the field gives 0 and does not raise; the
  transaction does what it does for the payload with the field given as 0, so the absence
  is no cause of failure; and when it commits, the new row of \<open>current_weather\<close> holds the
  integer 0, not NULL, in column \<open>rain_1h\<close> or \<open>snow_1h\<close>.  The same holds for field \<open>3h\<close> and
  columns \<open>rain_3h\<close> and \<open>snow_3h\<close> of every entry of a forecast payload.
\<close>

theorem missing_precipitation_loads_as_zero:
  assumes "block = ''rain'' \<or> block = ''snow''"
  shows "(lacks data block ''1h'' \<longrightarrow>
            get2 data block ''1h'' (JInt 0) = Inr (Json (JInt 0)) \<and>
            current_weather_transaction w p now (with_zero block ''1h'' data) db =
              current_weather_transaction w p now data db \<and>
            (\<forall>city db'. current_weather_transaction w p now data db = Inr (city, db') \<longrightarrow>
               (\<exists>rows r. current_weather db = Some rows \<and>
                  current_weather db' = Some (rows @ [r]) \<and>
                  map_of r (block @ ''_1h'') = Some (SInt 0)))) \<and>
         (lacks slot block ''3h'' \<longrightarrow>
            get2 slot block ''3h'' (JInt 0) = Inr (Json (JInt 0)) \<and>
            forecast_values w (with_zero block ''3h'' slot) = forecast_values w slot) \<and>
         (\<forall>city db' rows.
            forecast_transaction w p now fdata db = Inr (city, db') \<and> forecast db = Some rows \<longrightarrow>
            (\<exists>entries new.
               and_then (py_get fdata ''list'' (JArr [])) py_iter = Inr entries \<and>
               forecast db' = Some (rows @ new) \<and> length new = length entries \<and>
               (\<forall>i < length entries. lacks (entries ! i) block ''3h'' \<longrightarrow>
                  map_of (new ! i) (block @ ''_3h'') = Some (SInt 0))))"
proof (intro conjI impI allI)
  assume "lacks data block ''1h''"
  then show "get2 data block ''1h'' (JInt 0) = Inr (Json (JInt 0))" by (rule get2_lacks)
next
  assume "lacks data block ''1h''"
  then show "current_weather_transaction w p now (with_zero block ''1h'' data) db =
              current_weather_transaction w p now data db"
    unfolding current_weather_transaction_def
    by (simp only: current_weather_values_with_zero [OF _ assms])
next
  fix city db'
  assume "lacks data block ''1h''" and "current_weather_transaction w p now data db = Inr (city, db')"
  then show "\<exists>rows r. current_weather db = Some rows \<and>
                  current_weather db' = Some (rows @ [r]) \<and>
                  map_of r (block @ ''_1h'') = Some (SInt 0)"
    using assms by (intro observation_cell_zero)
next
  assume "lacks slot block ''3h''"
  then show "get2 slot block ''3h'' (JInt 0) = Inr (Json (JInt 0))" by (rule get2_lacks)
next
  assume "lacks slot block ''3h''"
  then show "forecast_values w (with_zero block ''3h'' slot) = forecast_values w slot"
    using assms by (rule forecast_values_with_zero)
next
  fix city db' rows
  assume "forecast_transaction w p now fdata db = Inr (city, db') \<and> forecast db = Some rows"
  then have t: "forecast_transaction w p now fdata db = Inr (city, db')" and f: "forecast db = Some rows"
    by simp_all
  show "\<exists>entries new.
               and_then (py_get fdata ''list'' (JArr [])) py_iter = Inr entries \<and>
               forecast db' = Some (rows @ new) \<and> length new = length entries \<and>
               (\<forall>i < length entries. lacks (entries ! i) block ''3h'' \<longrightarrow>
                  map_of (new ! i) (block @ ''_3h'') = Some (SInt 0))"
    by (rule forecast_cells_zero [OF assms t f])
qed

lemmas loader_eval =
  current_weather_transaction_def current_weather_values_def forecast_transaction_def
  forecast_header_def forecast_values_def get2_def weather_field_def as_json_def
  py_fromtimestamp_def example_world_def execute_insert_def raw_data_file_def
  init_database_def connect_def create_table_if_not_exists_def local_var_def

lemma london_observation_commits:
  "\<exists>city db'. current_weather_transaction (example_world []) p now london_observation
                 (init_database None) = Inr (city, db')"
  by (simp add: loader_eval london_observation_def)

lemma london_forecast_commits:
  "\<exists>city db'. forecast_transaction (example_world []) p now london_forecast
                 (init_database None) = Inr (city, db')"
  by (simp add: loader_eval london_forecast_def dry_slot_def)

theorem missing_precipitation_loads_as_zero_witness:
  "lacks london_observation ''rain'' ''1h'' \<and>
   (\<exists>city db' r.
      current_weather_transaction (example_world []) ''current_london.json'' ''noon''
        london_observation (init_database None) = Inr (city, db') \<and>
      current_weather db' = Some [r] \<and> map_of r ''rain_1h'' = Some (SInt 0)) \<and>
   (\<exists>city db' r1 r2.
      forecast_transaction (example_world []) ''forecast_london.json'' ''noon''
        london_forecast (init_database None) = Inr (city, db') \<and>
      forecast db' = Some [r1, r2] \<and> map_of r1 ''rain_3h'' = Some (SInt 0) \<and>
      map_of r2 ''rain_3h'' = Some (SInt 0))"
proof -
  let ?w = "example_world []"
  have rain: "''rain'' = ''rain'' \<or> ''rain'' = ''snow''" by simp
  note inst = missing_precipitation_loads_as_zero [OF rain, of london_observation ?w "''current_london.json''" "''noon''"
      "init_database None" "dry_slot 0 0" london_forecast]
  have lk: "lacks london_observation ''rain'' ''1h''"
    by (simp add: lacks_def london_observation_def)
  obtain city db' where
    t: "current_weather_transaction ?w ''current_london.json'' ''noon'' london_observation
          (init_database None) = Inr (city, db')"
    using london_observation_commits by blast
  from inst lk t obtain rows r where
    "current_weather (init_database None) = Some rows" and
    "current_weather db' = Some (rows @ [r])" and
    r: "map_of r (''rain'' @ ''_1h'') = Some (SInt 0)"
    by blast
  then have cw: "current_weather db' = Some [r]"
    by (simp add: init_database_def connect_def create_table_if_not_exists_def)
  note finst = missing_precipitation_loads_as_zero [OF rain, of london_observation ?w "''forecast_london.json''" "''noon''"
      "init_database None" "dry_slot 0 0" london_forecast]
  obtain fcity fdb where
    ft: "forecast_transaction ?w ''forecast_london.json'' ''noon'' london_forecast
          (init_database None) = Inr (fcity, fdb)"
    using london_forecast_commits by blast
  have f0: "forecast (init_database None) = Some []"
    by (simp add: init_database_def connect_def create_table_if_not_exists_def)
  from finst ft f0 obtain entries new where
    it: "and_then (py_get london_forecast ''list'' (JArr [])) py_iter = Inr entries" and
    fc: "forecast fdb = Some ([] @ new)" and len: "length new = length entries" and
    each: "\<forall>i < length entries. lacks (entries ! i) ''rain'' ''3h'' \<longrightarrow>
             map_of (new ! i) (''rain'' @ ''_3h'') = Some (SInt 0)"
    by blast
  from it have entries: "entries = [dry_slot 1704456000 7.5, dry_slot 1704466800 6]"
    by (simp add: london_forecast_def)
  with len obtain r1 r2 where new: "new = [r1, r2]"
    by (cases new; cases "tl new") auto
  have "lacks (dry_slot a b) ''rain'' ''3h''" for a b
    by (simp add: lacks_def dry_slot_def)
  with each have "map_of (new ! 0) ''rain_3h'' = Some (SInt 0)" "map_of (new ! 1) ''rain_3h'' = Some (SInt 0)"
    unfolding entries by simp_all
  then have cells: "map_of r1 ''rain_3h'' = Some (SInt 0)" "map_of r2 ''rain_3h'' = Some (SInt 0)"
    unfolding new by simp_all
  from r have r': "map_of r ''rain_1h'' = Some (SInt 0)" by simp
  from lk t cw r' ft fc new cells show ?thesis by auto
qed

section \<open>Properties of the loader: commit, rollback and repeated loads\<close>

lemma raw_row:
  "execute_insert (Some refs) (raw_data_file p ty cityv now) =
     (case adapt cityv of
        Inl e \<Rightarrow> Inl e
      | Inr c \<Rightarrow>
          Inr (Some (refs @ [[(''file_path'', SText p), (''data_type'', SText ty),
                              (''city'', c), (''timestamp'', SText now)]])))"
  by (cases "adapt cityv") (simp_all add: execute_insert_def raw_data_file_def)

lemma raw_row_Inr:
  assumes "execute_insert tbl (raw_data_file p ty cityv now) = Inr rf"
  shows "\<exists>refs c. tbl = Some refs \<and> adapt cityv = Inr c \<and>
           rf = Some (refs @ [[(''file_path'', SText p), (''data_type'', SText ty),
                               (''city'', c), (''timestamp'', SText now)]])"
proof (cases tbl)
  case None
  with assms show ?thesis by (simp add: execute_insert_def)
next
  case (Some refs)
  with assms show ?thesis
    unfolding Some raw_row by (cases "adapt cityv") simp_all
qed

lemma execute_insert_again:
  assumes "execute_insert (Some rows) params = Inr (Some (rows @ [r]))"
  shows "execute_insert (Some rows') params = Inr (Some (rows' @ [r]))"
proof -
  from execute_insert_Inr [OF assms] have
    "assignments (map (\<lambda>p. (fst p, adapt (snd p))) params) = Inr r" by auto
  then show ?thesis by (simp add: execute_insert_def)
qed

lemma load_current_weather_commit:
  assumes "files w p = Some (Parsed data)"
    and "current_weather_transaction w p (clock w (st_loads st)) data (st_db st) = Inr (city, db')"
  shows "load_current_weather w p st =
           Inr (st\<lparr>st_db := db', st_log := st_log st @ [LogInfo city],
                   st_loads := Suc (st_loads st)\<rparr>)"
  using assms by (simp add: load_current_weather_def json_load_def)

lemma load_current_weather_rollback:
  assumes "files w p = Some (Parsed data)"
    and "current_weather_transaction w p (clock w (st_loads st)) data (st_db st) = Inl e"
  shows "load_current_weather w p st =
           Inr (st\<lparr>st_log := st_log st @ [LogError p e], st_loads := Suc (st_loads st)\<rparr>)"
  using assms by (simp add: load_current_weather_def json_load_def)

lemma load_forecast_data_commit:
  assumes "files w p = Some (Parsed data)"
    and "forecast_transaction w p (clock w (st_loads st)) data (st_db st) = Inr (city, db')"
  shows "load_forecast_data w p st =
           Inr (st\<lparr>st_db := db', st_log := st_log st @ [LogInfo city],
                   st_loads := Suc (st_loads st)\<rparr>)"
  using assms by (simp add: load_forecast_data_def json_load_def)

lemma load_forecast_data_rollback:
  assumes "files w p = Some (Parsed data)"
    and "forecast_transaction w p (clock w (st_loads st)) data (st_db st) = Inl e"
  shows "load_forecast_data w p st =
           Inr (st\<lparr>st_log := st_log st @ [LogError p e], st_loads := Suc (st_loads st)\<rparr>)"
  using assms by (simp add: load_forecast_data_def json_load_def)

text \<open>
  Claim C9.  When an observation artifact loads (its transaction commits), loading the
  same artifact again commits again: table \<open>current_weather\<close> gains the same row twice and
  table \<open>raw_data_files\<close> gains two rows for the file, which differ in their timestamps
  only; nothing looks for an earlier row of the same city and observation time.
\<close>

theorem duplicate_load_duplicates_rows:
  assumes "files w p = Some (Parsed data)"
    and "current_weather_transaction w p (clock w (st_loads st)) data (st_db st) = Inr (city, db1)"
  shows "\<exists>rows refs r c st2.
           current_weather (st_db st) = Some rows \<and> raw_data_files (st_db st) = Some refs \<and>
           and_then (load_current_weather w p st) (load_current_weather w p) = Inr st2 \<and>
           current_weather (st_db st2) = Some (rows @ [r, r]) \<and>
           raw_data_files (st_db st2) =
             Some (refs @
               [[(''file_path'', SText p), (''data_type'', SText ''current''), (''city'', c),
                 (''timestamp'', SText (clock w (st_loads st)))],
                [(''file_path'', SText p), (''data_type'', SText ''current''), (''city'', c),
                 (''timestamp'', SText (clock w (Suc (st_loads st))))]]) \<and>
           forecast (st_db st2) = forecast (st_db st) \<and>
           st_log st2 = st_log st @ [LogInfo city, LogInfo city] \<and>
           st_loads st2 = st_loads st + 2"
proof -
  let ?db = "st_db st"
  let ?n = "st_loads st"
  from current_weather_transaction_Inr [OF assms(2)] obtain vars cw rf where
    v: "current_weather_values w data = Inr vars" and
    e1: "execute_insert (current_weather ?db) (rotate1 vars) = Inr cw" and
    e2: "execute_insert (raw_data_files ?db)
           (raw_data_file p ''current'' (local_var vars ''city_name'') (clock w ?n)) = Inr rf" and
    city: "city = local_var vars ''city_name''" and
    db1: "db1 = ?db\<lparr>current_weather := cw, raw_data_files := rf\<rparr>"
    by blast
  from execute_insert_Inr [OF e1] obtain rows r where
    rows: "current_weather ?db = Some rows" and cw: "cw = Some (rows @ [r])"
    by blast
  from raw_row_Inr [OF e2] obtain refs c where
    refs: "raw_data_files ?db = Some refs" and c: "adapt (local_var vars ''city_name'') = Inr c" and
    rf: "rf = Some (refs @ [[(''file_path'', SText p), (''data_type'', SText ''current''),
                             (''city'', c), (''timestamp'', SText (clock w ?n))]])"
    by blast
  let ?f1 = "[(''file_path'', SText p), (''data_type'', SText ''current''),
              (''city'', c), (''timestamp'', SText (clock w ?n))]"
  let ?f2 = "[(''file_path'', SText p), (''data_type'', SText ''current''),
              (''city'', c), (''timestamp'', SText (clock w (Suc ?n)))]"
  let ?st1 = "st\<lparr>st_db := db1, st_log := st_log st @ [LogInfo city], st_loads := Suc ?n\<rparr>"
  let ?db2 = "db1\<lparr>current_weather := Some ((rows @ [r]) @ [r]),
                    raw_data_files := Some ((refs @ [?f1]) @ [?f2])\<rparr>"
  let ?st2 = "?st1\<lparr>st_db := ?db2, st_log := st_log ?st1 @ [LogInfo city],
                     st_loads := Suc (st_loads ?st1)\<rparr>"
  have first: "load_current_weather w p st = Inr ?st1"
    using assms by (rule load_current_weather_commit)
  have again: "execute_insert (Some (rows @ [r])) (rotate1 vars) = Inr (Some ((rows @ [r]) @ [r]))"
    using e1 unfolding rows cw by (rule execute_insert_again)
  have t2: "current_weather_transaction w p (clock w (st_loads ?st1)) data (st_db ?st1) =
              Inr (city, ?db2)"
    unfolding current_weather_transaction_def
    by (simp add: v db1 cw rf again raw_row c city)
  have second: "load_current_weather w p ?st1 = Inr ?st2"
    using assms(1) t2 by (rule load_current_weather_commit)
  have run: "and_then (load_current_weather w p st) (load_current_weather w p) = Inr ?st2"
    unfolding first using second by simp
  have "current_weather (st_db ?st2) = Some (rows @ [r, r])" by simp
  moreover have "raw_data_files (st_db ?st2) = Some (refs @ [?f1, ?f2])" by simp
  moreover have "forecast (st_db ?st2) = forecast ?db" by (simp add: db1)
  moreover have "st_log ?st2 = st_log st @ [LogInfo city, LogInfo city]" by simp
  moreover have "st_loads ?st2 = ?n + 2" by simp
  ultimately show ?thesis using rows refs run by blast
qed

theorem duplicate_load_duplicates_rows_witness:
  "files london_world ''current_london.json'' = Some (Parsed london_observation) \<and>
   (\<exists>r c st2.
      and_then (load_current_weather london_world ''current_london.json'' initial_state)
        (load_current_weather london_world ''current_london.json'') = Inr st2 \<and>
      current_weather (st_db st2) = Some [r, r] \<and>
      raw_data_files (st_db st2) =
        Some [[(''file_path'', SText ''current_london.json''), (''data_type'', SText ''current''),
               (''city'', c), (''timestamp'', SText ''load 0'')],
              [(''file_path'', SText ''current_london.json''), (''data_type'', SText ''current''),
               (''city'', c), (''timestamp'', SText ''load 1'')]])"
proof -
  have f: "files london_world ''current_london.json'' = Some (Parsed london_observation)"
    by (simp add: london_world_def example_world_def)
  have "\<exists>city db'. current_weather_transaction london_world ''current_london.json''
          (clock london_world (st_loads initial_state)) london_observation (st_db initial_state) =
          Inr (city, db')"
    by (simp add: loader_eval london_observation_def london_world_def initial_state_def)
  then obtain city db' where
    t: "current_weather_transaction london_world ''current_london.json''
          (clock london_world (st_loads initial_state)) london_observation (st_db initial_state) =
          Inr (city, db')"
    by blast
  from duplicate_load_duplicates_rows [OF f t] obtain rows refs r c st2 where
    rows: "current_weather (st_db initial_state) = Some rows" and
    refs: "raw_data_files (st_db initial_state) = Some refs" and
    run: "and_then (load_current_weather london_world ''current_london.json'' initial_state)
        (load_current_weather london_world ''current_london.json'') = Inr st2" and
    cw: "current_weather (st_db st2) = Some (rows @ [r, r])" and
    rf: "raw_data_files (st_db st2) =
             Some (refs @
               [[(''file_path'', SText ''current_london.json''), (''data_type'', SText ''current''),
                 (''city'', c), (''timestamp'', SText (clock london_world (st_loads initial_state)))],
                [(''file_path'', SText ''current_london.json''), (''data_type'', SText ''current''),
                 (''city'', c),
                 (''timestamp'', SText (clock london_world (Suc (st_loads initial_state))))]])"
    by blast
  from rows have "rows = []"
    by (simp add: initial_state_def init_database_def connect_def create_table_if_not_exists_def)
  moreover from refs have "refs = []"
    by (simp add: initial_state_def init_database_def connect_def create_table_if_not_exists_def)
  moreover have "clock london_world (st_loads initial_state) = ''load 0''"
    "clock london_world (Suc (st_loads initial_state)) = ''load 1''"
    by (simp_all add: london_world_def example_world_def initial_state_def dec.simps digit_char_def)
  ultimately show ?thesis using f run cw rf by auto
qed

section \<open>Properties of the loader: failures in a batch\<close>

lemma load_current_weather_parsed:
  assumes "files w p = Some (Parsed data)"
  shows "\<exists>st1. load_current_weather w p st = Inr st1 \<and>
               length (st_log st1) = Suc (length (st_log st))"
proof (cases "current_weather_transaction w p (clock w (st_loads st)) data (st_db st)")
  case (Inl e)
  from load_current_weather_rollback [OF assms Inl] show ?thesis by simp
next
  case (Inr r)
  obtain city db' where "r = (city, db')" by (cases r)
  from load_current_weather_commit [OF assms Inr [unfolded this]] show ?thesis by simp
qed

lemma load_forecast_data_parsed:
  assumes "files w p = Some (Parsed data)"
  shows "\<exists>st1. load_forecast_data w p st = Inr st1 \<and>
               length (st_log st1) = Suc (length (st_log st))"
proof (cases "forecast_transaction w p (clock w (st_loads st)) data (st_db st)")
  case (Inl e)
  from load_forecast_data_rollback [OF assms Inl] show ?thesis by simp
next
  case (Inr r)
  obtain city db' where "r = (city, db')" by (cases r)
  from load_forecast_data_commit [OF assms Inr [unfolded this]] show ?thesis by simp
qed

lemma for_each_logs:
  assumes step: "\<And>x st. x \<in> set xs \<Longrightarrow>
                   \<exists>st1. body x st = Inr st1 \<and> length (st_log st1) = Suc (length (st_log st))"
  shows "\<exists>st'. for_each body xs st = Inr st' \<and>
               length (st_log st') = length (st_log st) + length xs"
  using step
proof (induction xs arbitrary: st)
  case Nil
  then show ?case by simp
next
  case (Cons x xs)
  from Cons.prems [of x st] obtain st1 where
    1: "body x st = Inr st1" "length (st_log st1) = Suc (length (st_log st))"
    by auto
  from Cons.IH [of st1] Cons.prems obtain st' where
    "for_each body xs st1 = Inr st'" "length (st_log st') = length (st_log st1) + length xs"
    by auto
  with 1 show ?case by simp
qed

lemma load_data_files_parsed:
  assumes "\<forall>item \<in> set (res_current res @ res_forecast res).
             \<exists>data. files w (snd item) = Some (Parsed data)"
  shows "\<exists>st. load_data_files w res dbfile = Inr st \<and>
              length (st_log st) = length (res_current res) + length (res_forecast res)"
proof -
  let ?db = "case dbfile of None \<Rightarrow> init_database None | Some db \<Rightarrow> db"
  let ?st0 = "\<lparr>st_db = ?db, st_log = [], st_loads = 0\<rparr>"
  have "\<exists>st1. for_each (\<lambda>item. load_current_weather w (snd item)) (res_current res) ?st0 = Inr st1 \<and>
              length (st_log st1) = length (st_log ?st0) + length (res_current res)"
    by (rule for_each_logs) (use assms in \<open>auto intro: load_current_weather_parsed\<close>)
  then obtain st1 where
    1: "for_each (\<lambda>item. load_current_weather w (snd item)) (res_current res) ?st0 = Inr st1"
       "length (st_log st1) = length (res_current res)"
    by auto
  have "\<exists>st2. for_each (\<lambda>item. load_forecast_data w (snd item)) (res_forecast res) st1 = Inr st2 \<and>
              length (st_log st2) = length (st_log st1) + length (res_forecast res)"
    by (rule for_each_logs) (use assms in \<open>auto intro: load_forecast_data_parsed\<close>)
  then obtain st2 where
    2: "for_each (\<lambda>item. load_forecast_data w (snd item)) (res_forecast res) st1 = Inr st2"
       "length (st_log st2) = length (st_log st1) + length (res_forecast res)"
    by auto
  from 1 2 show ?thesis
    by (simp add: load_data_files_def Let_def)
qed

text \<open>
  Claim C1, as amended.  For an artifact that \<open>json.load\<close> decodes, an exception raised
  while the fields are read or the rows are inserted makes \<open>load_current_weather\<close> and
  \<open>load_forecast_data\<close> return normally with the database as it was before (for a forecast
  also when rows of earlier entries had been inserted) and with the error added to the log;
  the loop of \<open>load_data_files\<close> goes on with the next artifact from that state.  When every
  artifact of a batch can be decoded, \<open>load_data_files\<close> does not raise and logs one line per
  artifact.
\<close>

theorem loader_failure_isolation:
  assumes "\<forall>item \<in> set (res_current res @ res_forecast res).
             \<exists>data. files w (snd item) = Some (Parsed data)"
  shows "(\<exists>st. load_data_files w res dbfile = Inr st \<and>
            length (st_log st) = length (res_current res) + length (res_forecast res)) \<and>
         (\<forall>p data st e (city :: string) rest.
            files w p = Some (Parsed data) \<and>
            current_weather_transaction w p (clock w (st_loads st)) data (st_db st) = Inl e \<longrightarrow>
            (\<exists>st'. load_current_weather w p st = Inr st' \<and>
                   st_db st' = st_db st \<and> st_log st' = st_log st @ [LogError p e] \<and>
                   st_loads st' = Suc (st_loads st) \<and>
                   for_each (\<lambda>item. load_current_weather w (snd item)) ((city, p) # rest) st =
                     for_each (\<lambda>item. load_current_weather w (snd item)) rest st')) \<and>
         (\<forall>p data st e (city :: string) rest.
            files w p = Some (Parsed data) \<and>
            forecast_transaction w p (clock w (st_loads st)) data (st_db st) = Inl e \<longrightarrow>
            (\<exists>st'. load_forecast_data w p st = Inr st' \<and>
                   st_db st' = st_db st \<and> st_log st' = st_log st @ [LogError p e] \<and>
                   st_loads st' = Suc (st_loads st) \<and>
                   for_each (\<lambda>item. load_forecast_data w (snd item)) ((city, p) # rest) st =
                     for_each (\<lambda>item. load_forecast_data w (snd item)) rest st'))"
proof (intro conjI allI impI)
  show "\<exists>st. load_data_files w res dbfile = Inr st \<and>
            length (st_log st) = length (res_current res) + length (res_forecast res)"
    using assms by (rule load_data_files_parsed)
next
  fix p data and st :: loader_state and e and city :: string and rest :: "(string \<times> string) list"
  assume a: "files w p = Some (Parsed data) \<and>
            current_weather_transaction w p (clock w (st_loads st)) data (st_db st) = Inl e"
  let ?st' = "st\<lparr>st_log := st_log st @ [LogError p e], st_loads := Suc (st_loads st)\<rparr>"
  from a have l: "load_current_weather w p st = Inr ?st'"
    by (intro load_current_weather_rollback [of w p data]) (erule conjunct1, erule conjunct2)
  then have "for_each (\<lambda>item. load_current_weather w (snd item)) ((city, p) # rest) st =
                     for_each (\<lambda>item. load_current_weather w (snd item)) rest ?st'"
    by simp
  with l show "\<exists>st'. load_current_weather w p st = Inr st' \<and>
                   st_db st' = st_db st \<and> st_log st' = st_log st @ [LogError p e] \<and>
                   st_loads st' = Suc (st_loads st) \<and>
                   for_each (\<lambda>item. load_current_weather w (snd item)) ((city, p) # rest) st =
                     for_each (\<lambda>item. load_current_weather w (snd item)) rest st'"
    by (intro exI [of _ ?st']) simp
next
  fix p data and st :: loader_state and e and city :: string and rest :: "(string \<times> string) list"
  assume a: "files w p = Some (Parsed data) \<and>
            forecast_transaction w p (clock w (st_loads st)) data (st_db st) = Inl e"
  let ?st' = "st\<lparr>st_log := st_log st @ [LogError p e], st_loads := Suc (st_loads st)\<rparr>"
  from a have l: "load_forecast_data w p st = Inr ?st'"
    by (intro load_forecast_data_rollback [of w p data]) (erule conjunct1, erule conjunct2)
  then have "for_each (\<lambda>item. load_forecast_data w (snd item)) ((city, p) # rest) st =
                     for_each (\<lambda>item. load_forecast_data w (snd item)) rest ?st'"
    by simp
  with l show "\<exists>st'. load_forecast_data w p st = Inr st' \<and>
                   st_db st' = st_db st \<and> st_log st' = st_log st @ [LogError p e] \<and>
                   st_loads st' = Suc (st_loads st) \<and>
                   for_each (\<lambda>item. load_forecast_data w (snd item)) ((city, p) # rest) st =
                     for_each (\<lambda>item. load_forecast_data w (snd item)) rest st'"
    by (intro exI [of _ ?st']) simp
qed

lemma batch_files:
  "files batch_world ''current_paris.json'' = Some (Parsed paris_observation)"
  "files batch_world ''current_london.json'' = Some (Parsed london_observation)"
  "files batch_world ''forecast_paris.json'' = Some (Parsed paris_forecast)"
  "files batch_world ''forecast_london.json'' = Some (Parsed london_forecast)"
  by (simp_all add: batch_world_def example_world_def)

lemma paris_observation_fails:
  "current_weather_transaction batch_world p now paris_observation db = Inl IndexError"
  by (simp add: loader_eval paris_observation_def batch_world_def)

lemma paris_forecast_fails:
  "forecast db = Some rows \<Longrightarrow>
   forecast_transaction batch_world p now paris_forecast db = Inl ProgrammingError"
  by (simp add: loader_eval paris_forecast_def dry_slot_def batch_world_def)

lemma london_observation_commits_in:
  "current_weather db = Some rows \<Longrightarrow> raw_data_files db = Some refs \<Longrightarrow>
   \<exists>r f. current_weather_transaction batch_world p now london_observation db =
           Inr (Json (JStr ''London''),
                db\<lparr>current_weather := Some (rows @ [r]), raw_data_files := Some (refs @ [f])\<rparr>)"
  by (simp add: loader_eval london_observation_def batch_world_def) (intro exI, rule refl)

lemma london_forecast_commits_in:
  "forecast db = Some rows \<Longrightarrow> raw_data_files db = Some refs \<Longrightarrow>
   \<exists>r1 r2 f. forecast_transaction batch_world p now london_forecast db =
           Inr (Json (JStr ''London''),
                db\<lparr>forecast := Some (rows @ [r1, r2]), raw_data_files := Some (refs @ [f])\<rparr>)"
  by (simp add: loader_eval london_forecast_def dry_slot_def batch_world_def) (intro exI, rule refl)

theorem loader_failure_isolation_witness:
  "\<exists>st r r1 r2 f1 f2.
     load_data_files batch_world batch_results None = Inr st \<and>
     st_log st =
       [LogError ''current_paris.json'' IndexError, LogInfo (Json (JStr ''London'')),
        LogError ''forecast_paris.json'' ProgrammingError, LogInfo (Json (JStr ''London''))] \<and>
     current_weather (st_db st) = Some [r] \<and>
     forecast (st_db st) = Some [r1, r2] \<and>
     raw_data_files (st_db st) = Some [f1, f2]"
proof -
  let ?cur = "\<lambda>item :: string \<times> string. load_current_weather batch_world (snd item)"
  let ?fc = "\<lambda>item :: string \<times> string. load_forecast_data batch_world (snd item)"
  let ?st0 = "\<lparr>st_db = init_database None, st_log = [], st_loads = 0\<rparr>"
  have parsed: "\<forall>item \<in> set (res_current batch_results @ res_forecast batch_results).
             \<exists>data. files batch_world (snd item) = Some (Parsed data)"
    by (simp add: batch_results_def batch_files)
  note inst = loader_failure_isolation [OF parsed, of None]
  from inst have obs: "\<And>p data st e city rest.
            files batch_world p = Some (Parsed data) \<Longrightarrow>
            current_weather_transaction batch_world p (clock batch_world (st_loads st)) data (st_db st) = Inl e \<Longrightarrow>
            \<exists>st'. load_current_weather batch_world p st = Inr st' \<and>
                   st_db st' = st_db st \<and> st_log st' = st_log st @ [LogError p e] \<and>
                   st_loads st' = Suc (st_loads st) \<and>
                   for_each ?cur ((city, p) # rest) st = for_each ?cur rest st'"
    by blast
  from inst have fcs: "\<And>p data st e city rest.
            files batch_world p = Some (Parsed data) \<Longrightarrow>
            forecast_transaction batch_world p (clock batch_world (st_loads st)) data (st_db st) = Inl e \<Longrightarrow>
            \<exists>st'. load_forecast_data batch_world p st = Inr st' \<and>
                   st_db st' = st_db st \<and> st_log st' = st_log st @ [LogError p e] \<and>
                   st_loads st' = Suc (st_loads st) \<and>
                   for_each ?fc ((city, p) # rest) st = for_each ?fc rest st'"
    by blast
  from obs [OF batch_files(1) paris_observation_fails, of ?st0 "''Paris,fr''"
      "[(''London,uk'', ''current_london.json'')]"]
  obtain st1 where
    s1: "st_db st1 = init_database None" "st_log st1 = [LogError ''current_paris.json'' IndexError]" and
    e1: "for_each ?cur [(''Paris,fr'', ''current_paris.json''), (''London,uk'', ''current_london.json'')] ?st0 =
           for_each ?cur [(''London,uk'', ''current_london.json'')] st1"
    by auto
  have t0: "current_weather (st_db st1) = Some []" "forecast (st_db st1) = Some []"
    "raw_data_files (st_db st1) = Some []"
    unfolding s1 by (simp_all add: init_database_def connect_def create_table_if_not_exists_def)
  from london_observation_commits_in [OF t0(1) t0(3)] obtain r f1 where
    t2: "current_weather_transaction batch_world ''current_london.json''
           (clock batch_world (st_loads st1)) london_observation (st_db st1) =
         Inr (Json (JStr ''London''),
              (st_db st1)\<lparr>current_weather := Some ([] @ [r]), raw_data_files := Some ([] @ [f1])\<rparr>)"
    by blast
  let ?st2 = "st1\<lparr>st_db := (st_db st1)\<lparr>current_weather := Some ([] @ [r]),
                                          raw_data_files := Some ([] @ [f1])\<rparr>,
                   st_log := st_log st1 @ [LogInfo (Json (JStr ''London''))],
                   st_loads := Suc (st_loads st1)\<rparr>"
  from load_current_weather_commit [OF batch_files(2) t2]
  have e2: "for_each ?cur [(''London,uk'', ''current_london.json'')] st1 = Inr ?st2"
    by simp
  have t2': "forecast (st_db ?st2) = Some []" "raw_data_files (st_db ?st2) = Some [f1]"
    using t0 by simp_all
  from fcs [OF batch_files(3) paris_forecast_fails [OF t2'(1)], of "''Paris,fr''"
      "[(''London,uk'', ''forecast_london.json'')]"]
  obtain st3 where
    s3: "st_db st3 = st_db ?st2"
        "st_log st3 = st_log ?st2 @ [LogError ''forecast_paris.json'' ProgrammingError]" and
    e3: "for_each ?fc [(''Paris,fr'', ''forecast_paris.json''), (''London,uk'', ''forecast_london.json'')] ?st2 =
           for_each ?fc [(''London,uk'', ''forecast_london.json'')] st3"
    by auto
  have t3: "forecast (st_db st3) = Some []" "raw_data_files (st_db st3) = Some [f1]"
    unfolding s3 using t2' by simp_all
  from london_forecast_commits_in [OF t3] obtain r1 r2 f2 where
    t4: "forecast_transaction batch_world ''forecast_london.json''
           (clock batch_world (st_loads st3)) london_forecast (st_db st3) =
         Inr (Json (JStr ''London''),
              (st_db st3)\<lparr>forecast := Some ([] @ [r1, r2]), raw_data_files := Some ([f1] @ [f2])\<rparr>)"
    by blast
  let ?st4 = "st3\<lparr>st_db := (st_db st3)\<lparr>forecast := Some ([] @ [r1, r2]),
                                          raw_data_files := Some ([f1] @ [f2])\<rparr>,
                   st_log := st_log st3 @ [LogInfo (Json (JStr ''London''))],
                   st_loads := Suc (st_loads st3)\<rparr>"
  from load_forecast_data_commit [OF batch_files(4) t4]
  have e4: "for_each ?fc [(''London,uk'', ''forecast_london.json'')] st3 = Inr ?st4"
    by simp
  have run: "load_data_files batch_world batch_results None = Inr ?st4"
    unfolding load_data_files_def Let_def batch_results_def
    by (simp only: option.case results.simps e1 e2 e3 e4 and_then_Inr)
  have "st_log ?st4 =
       [LogError ''current_paris.json'' IndexError, LogInfo (Json (JStr ''London'')),
        LogError ''forecast_paris.json'' ProgrammingError, LogInfo (Json (JStr ''London''))]"
    by (simp add: s3 s1)
  moreover have "current_weather (st_db ?st4) = Some [r]"
    by (simp add: s3)
  moreover have "forecast (st_db ?st4) = Some [r1, r2]"
    by simp
  moreover have "raw_data_files (st_db ?st4) = Some [f1, f2]"
    by simp
  ultimately show ?thesis using run by blast
qed

text \<open>
  Claim C1 as stated fails for an artifact whose content does not parse: \<open>json.load\<close> is
  called before the \<open>try\<close> block, so its exception leaves \<open>load_current_weather\<close> and ends
  \<open>load_data_files\<close>; the artifact after it is not loaded.
\<close>

theorem load_data_files_unreadable_counterexample:
  "files garbled_world ''current_paris.json'' = Some Unreadable \<and>
   files garbled_world ''current_london.json'' = Some (Parsed london_observation) \<and>
   res_current current_results =
     [(''Paris,fr'', ''current_paris.json''), (''London,uk'', ''current_london.json'')] \<and>
   load_current_weather garbled_world ''current_paris.json'' initial_state = Inl JSONDecodeError \<and>
   load_data_files garbled_world current_results None = Inl JSONDecodeError"
  by (simp add: garbled_world_def example_world_def current_results_def load_data_files_def
        load_current_weather_def json_load_def)

section \<open>Properties of the extraction\<close>

lemma map_of_dict_set: "map_of (dict_set k v ps) = (map_of ps)(k \<mapsto> v)"
  by (induction ps) (auto simp: fun_eq_iff)

lemma for_each_append:
  "for_each body (xs @ ys) st = and_then (for_each body xs st) (for_each body ys)"
proof (induction xs arbitrary: st)
  case Nil
  then show ?case by simp
next
  case (Cons x xs)
  then show ?case by (cases "body x st") simp_all
qed

lemma get_weather_failure:
  "request_exception (provider env k c) \<Longrightarrow> get_weather env k c key = Inr None"
  by (auto simp: request_exception_def get_weather_def split: response.splits)

lemma get_weather_delivered:
  assumes "delivered (provider env k c)"
  shows "get_weather env k c key = Inr (Some (payload (provider env k c)))"
    and "truthy (Some (payload (provider env k c)))"
proof -
  from assms obtain code kvs where
    r: "response (provider env k c) = Response code (Some (JObj kvs))" and
    ok: "\<not> (400 \<le> code \<and> code < 600)"
    by (auto simp: delivered_def split: response.splits option.splits json.splits)
  have "dict_set ''retrieved_at'' v kvs \<noteq> []" for v
    by (cases kvs) auto
  with r ok show "get_weather env k c key = Inr (Some (payload (provider env k c)))"
    and "truthy (Some (payload (provider env k c)))"
    by (simp_all add: get_weather_def payload_def truthy_def)
qed

lemma fetch_and_save_failure:
  "request_exception (provider env k c) \<Longrightarrow> fetch_and_save env key k c st = Inr st"
  by (simp add: fetch_and_save_def get_weather_failure truthy_def)

lemma fetch_and_save_delivered:
  assumes "delivered (provider env k c)"
  shows "fetch_and_save env key k c st =
           Inr (record_path k c (artifact_path env k c) (fst st),
                (snd st)(artifact_path env k c \<mapsto> payload (provider env k c)))"
proof -
  from assms have w: "writable (provider env k c)"
    by (auto simp: delivered_def split: response.splits option.splits json.splits)
  show ?thesis
    by (simp add: fetch_and_save_def get_weather_delivered [OF assms] save_raw_data_def
          Let_def w artifact_path_def)
qed

lemma failure_not_delivered:
  "request_exception f \<Longrightarrow> \<not> delivered f"
  by (auto simp: request_exception_def delivered_def split: response.splits option.splits json.splits)

text \<open>One fetch that ends in a \<open>RequestException\<close> or is delivered.\<close>

lemma fetch_and_save_benign:
  assumes "request_exception (provider env k c) \<or> delivered (provider env k c)"
  shows "fetch_and_save env key k c st =
           Inr (if delivered (provider env k c)
                then (record_path k c (artifact_path env k c) (fst st),
                      (snd st)(artifact_path env k c \<mapsto> payload (provider env k c)))
                else st)"
proof (cases "delivered (provider env k c)")
  case True
  then show ?thesis by (simp add: fetch_and_save_delivered)
next
  case False
  with assms have "request_exception (provider env k c)" by simp
  with False show ?thesis by (simp add: fetch_and_save_failure)
qed

lemma extract_loop:
  assumes "\<forall>c \<in> set cities. \<forall>k. request_exception (provider env k c) \<or> delivered (provider env k c)"
  shows "for_each (\<lambda>city st.
             and_then (fetch_and_save env key Current city st)
               (fetch_and_save env key Forecast city)) cities (res, store) =
         Inr (\<lparr>res_current =
                 foldl (\<lambda>ps city. dict_set city (artifact_path env Current city) ps) (res_current res)
                   (filter (\<lambda>city. delivered (provider env Current city)) cities),
               res_forecast =
                 foldl (\<lambda>ps city. dict_set city (artifact_path env Forecast city) ps) (res_forecast res)
                   (filter (\<lambda>city. delivered (provider env Forecast city)) cities)\<rparr>,
              foldl (\<lambda>s kc. s(artifact_path env (fst kc) (snd kc) \<mapsto>
                                payload (provider env (fst kc) (snd kc))))
                store
                (filter (\<lambda>kc. delivered (provider env (fst kc) (snd kc))) (fetches cities)))"
  using assms
proof (induction cities arbitrary: res store)
  case Nil
  then show ?case by (simp add: fetches_def)
next
  case (Cons c0 cs)
  from Cons.prems have b0: "\<And>k. request_exception (provider env k c0) \<or> delivered (provider env k c0)"
    and bs: "\<forall>c \<in> set cs. \<forall>k. request_exception (provider env k c) \<or> delivered (provider env k c)"
    by simp_all
  have f: "fetches (c0 # cs) = (Current, c0) # (Forecast, c0) # fetches cs"
    by (simp add: fetches_def)
  note IH = Cons.IH [OF bs]
  let ?body = "\<lambda>city st. and_then (fetch_and_save env key Current city st)
                            (fetch_and_save env key Forecast city)"
  let ?D = "\<lambda>kc. delivered (provider env (fst kc) (snd kc))"
  let ?F = "\<lambda>s kc. s(artifact_path env (fst kc) (snd kc) \<mapsto> payload (provider env (fst kc) (snd kc)))"
  let ?res1 = "if delivered (provider env Current c0)
               then record_path Current c0 (artifact_path env Current c0) res else res"
  let ?store1 = "if delivered (provider env Current c0)
                 then store(artifact_path env Current c0 \<mapsto> payload (provider env Current c0))
                 else store"
  let ?res2 = "if delivered (provider env Forecast c0)
               then record_path Forecast c0 (artifact_path env Forecast c0) ?res1 else ?res1"
  let ?store2 = "if delivered (provider env Forecast c0)
                 then ?store1(artifact_path env Forecast c0 \<mapsto> payload (provider env Forecast c0))
                 else ?store1"
  have s1: "fetch_and_save env key Current c0 (res, store) = Inr (?res1, ?store1)"
    unfolding fetch_and_save_benign [OF b0] by simp
  have s2: "fetch_and_save env key Forecast c0 (?res1, ?store1) = Inr (?res2, ?store2)"
    unfolding fetch_and_save_benign [OF b0] by simp
  have step: "for_each ?body (c0 # cs) (res, store) = for_each ?body cs (?res2, ?store2)"
    unfolding for_each.simps s1 and_then_Inr s2 ..
  have fl: "foldl ?F store (filter ?D (fetches (c0 # cs))) = foldl ?F ?store2 (filter ?D (fetches cs))"
    unfolding f by simp
  have rc: "foldl (\<lambda>ps city. dict_set city (artifact_path env Current city) ps) (res_current res)
              (filter (\<lambda>city. delivered (provider env Current city)) (c0 # cs)) =
            foldl (\<lambda>ps city. dict_set city (artifact_path env Current city) ps) (res_current ?res2)
              (filter (\<lambda>city. delivered (provider env Current city)) cs)"
    by (simp add: record_path_def)
  have rf: "foldl (\<lambda>ps city. dict_set city (artifact_path env Forecast city) ps) (res_forecast res)
              (filter (\<lambda>city. delivered (provider env Forecast city)) (c0 # cs)) =
            foldl (\<lambda>ps city. dict_set city (artifact_path env Forecast city) ps) (res_forecast ?res2)
              (filter (\<lambda>city. delivered (provider env Forecast city)) cs)"
    by (simp add: record_path_def)
  show ?case
    unfolding step IH fl rc rf ..
qed

lemma map_of_foldl_dict_set:
  "map_of (foldl (\<lambda>ps c. dict_set c (g c) ps) ps0 cs) c =
     (if c \<in> set cs then Some (g c) else map_of ps0 c)"
  by (induction cs arbitrary: ps0) (simp_all add: map_of_dict_set)

lemma recorded_map_of:
  "map_of (recorded env k cities) c =
     (if c \<in> set cities \<and> delivered (provider env k c) then Some (artifact_path env k c) else None)"
  by (simp add: recorded_def map_of_foldl_dict_set)

lemma foldl_upd_frame:
  "p \<notin> f ` set xs \<Longrightarrow> foldl (\<lambda>s x. s(f x \<mapsto> g x)) s0 xs p = s0 p"
  by (induction xs arbitrary: s0) simp_all

lemma foldl_upd_some:
  "x \<in> set xs \<Longrightarrow>
   \<exists>y \<in> set xs. f y = f x \<and> foldl (\<lambda>s x. s(f x \<mapsto> g x)) s0 xs (f x) = Some (g y)"
proof (induction xs arbitrary: s0 x)
  case Nil
  then show ?case by simp
next
  case (Cons a xs)
  show ?case
  proof (cases "f x \<in> f ` set xs")
    case True
    then obtain x' where x': "x' \<in> set xs" "f x' = f x" by auto
    from Cons.IH [OF x'(1), of "s0(f a \<mapsto> g a)"] x'(2)
    show ?thesis by auto
  next
    case False
    with Cons.prems have xa: "x = a" by auto
    from False have "foldl (\<lambda>s x. s(f x \<mapsto> g x)) (s0(f a \<mapsto> g a)) xs (f x) =
                     (s0(f a \<mapsto> g a)) (f x)"
      by (rule foldl_upd_frame)
    then have "foldl (\<lambda>s x. s(f x \<mapsto> g x)) s0 (a # xs) (f x) = Some (g a)"
      unfolding xa by simp
    moreover have "a \<in> set (a # xs)" "f a = f x"
      unfolding xa by simp_all
    ultimately show ?thesis by blast
  qed
qed

lemma foldl_upd_distinct:
  "distinct (map f xs) \<Longrightarrow> x \<in> set xs \<Longrightarrow>
   foldl (\<lambda>s x. s(f x \<mapsto> g x)) s0 xs (f x) = Some (g x)"
proof -
  assume d: "distinct (map f xs)" and x: "x \<in> set xs"
  from foldl_upd_some [OF x, of f g s0] obtain y where
    y: "y \<in> set xs" "f y = f x" "foldl (\<lambda>s x. s(f x \<mapsto> g x)) s0 xs (f x) = Some (g y)"
    by blast
  from d x y(1,2) have "y = x" by (meson distinct_map inj_onD)
  with y(3) show ?thesis by simp
qed

lemma fetches_set: "set (fetches cities) = {(k, c). c \<in> set cities}"
proof -
  have "k = Current \<or> k = Forecast" for k by (cases k) simp_all
  then show ?thesis by (auto simp: fetches_def)
qed

text \<open>
  Claim C7, as amended.  Let the API key be set.  A fetch that ends in a
  \<open>RequestException\<close> (no connection, a status from 400 to 599, a body that is not JSON)
  returns \<open>None\<close> and leaves the recorded paths and the raw store as they are, whatever
  happens to other cities; a run over a list with a city both of whose fetches end so is
  the run over the list without that city, also in what it raises.  When every fetch for
  the cities of a list either ends so or is delivered, \<open>extract_weather_data\<close> does not
  raise; it returns the paths of the delivered fetches of each kind and of no other, and has
  written the payloads of the delivered fetches, in their order, and nothing else: the file
  of a delivered fetch holds the payload of a delivered fetch of that path, its own when no
  two delivered fetches have the same path.
\<close>

theorem extract_failure_isolation:
  assumes "api_key env = Some key" and "key \<noteq> []"
  shows "(\<forall>k c st. request_exception (provider env k c) \<longrightarrow>
            get_weather env k c key = Inr None \<and> fetch_and_save env key k c st = Inr st) \<and>
         (\<forall>before (c :: string) after store.
            request_exception (provider env Current c) \<and>
            request_exception (provider env Forecast c) \<longrightarrow>
            extract_weather_data env (before @ c # after) store =
              extract_weather_data env (before @ after) store) \<and>
         (\<forall>cities store.
            (\<forall>c \<in> set cities. \<forall>k.
               request_exception (provider env k c) \<or> delivered (provider env k c)) \<longrightarrow>
            extract_weather_data env cities store =
              Inr (\<lparr>res_current = recorded env Current cities,
                    res_forecast = recorded env Forecast cities\<rparr>,
                   persisted env cities store) \<and>
            (\<forall>k c. map_of (recorded env k cities) c =
               (if c \<in> set cities \<and> delivered (provider env k c)
                then Some (artifact_path env k c) else None)) \<and>
            (\<forall>k. \<forall>c \<in> set cities. request_exception (provider env k c) \<longrightarrow>
               map_of (recorded env k cities) c = None) \<and>
            (\<forall>k. \<forall>c \<in> set cities. delivered (provider env k c) \<longrightarrow>
               (\<exists>k'. \<exists>c' \<in> set cities.
                  delivered (provider env k' c') \<and>
                  artifact_path env k' c' = artifact_path env k c \<and>
                  persisted env cities store (artifact_path env k c) =
                    Some (payload (provider env k' c')))) \<and>
            (distinct (map (\<lambda>kc. artifact_path env (fst kc) (snd kc))
                         (filter (\<lambda>kc. delivered (provider env (fst kc) (snd kc)))
                            (fetches cities))) \<longrightarrow>
               (\<forall>k. \<forall>c \<in> set cities. delivered (provider env k c) \<longrightarrow>
                  persisted env cities store (artifact_path env k c) =
                    Some (payload (provider env k c)))) \<and>
            (\<forall>p. (\<forall>k. \<forall>c \<in> set cities. delivered (provider env k c) \<longrightarrow>
                     artifact_path env k c \<noteq> p) \<longrightarrow>
                 persisted env cities store p = store p))"
proof -
  let ?body = "\<lambda>city st. and_then (fetch_and_save env key Current city st)
                            (fetch_and_save env key Forecast city)"
  have key: "load_api_key env = Inr key"
    using assms by (simp add: load_api_key_def)
  have one: "\<forall>k c st. request_exception (provider env k c) \<longrightarrow>
            get_weather env k c key = Inr None \<and> fetch_and_save env key k c st = Inr st"
    by (simp add: get_weather_failure fetch_and_save_failure)
  have skip: "\<forall>before (c :: string) after store.
            request_exception (provider env Current c) \<and>
            request_exception (provider env Forecast c) \<longrightarrow>
            extract_weather_data env (before @ c # after) store =
              extract_weather_data env (before @ after) store"
  proof (intro allI impI)
    fix before :: "string list" and c :: string and after :: "string list" and store :: raw_store
    assume f: "request_exception (provider env Current c) \<and>
               request_exception (provider env Forecast c)"
    have "for_each ?body (c # after) = for_each ?body after"
      using f by (intro ext) (simp add: fetch_and_save_failure)
    then have "for_each ?body (before @ c # after) st = for_each ?body (before @ after) st" for st
      unfolding for_each_append by simp
    then show "extract_weather_data env (before @ c # after) store =
              extract_weather_data env (before @ after) store"
      by (simp add: extract_weather_data_def key)
  qed
  have batch: "extract_weather_data env cities store =
              Inr (\<lparr>res_current = recorded env Current cities,
                    res_forecast = recorded env Forecast cities\<rparr>,
                   persisted env cities store) \<and>
            (\<forall>k c. map_of (recorded env k cities) c =
               (if c \<in> set cities \<and> delivered (provider env k c)
                then Some (artifact_path env k c) else None)) \<and>
            (\<forall>k. \<forall>c \<in> set cities. request_exception (provider env k c) \<longrightarrow>
               map_of (recorded env k cities) c = None) \<and>
            (\<forall>k. \<forall>c \<in> set cities. delivered (provider env k c) \<longrightarrow>
               (\<exists>k'. \<exists>c' \<in> set cities.
                  delivered (provider env k' c') \<and>
                  artifact_path env k' c' = artifact_path env k c \<and>
                  persisted env cities store (artifact_path env k c) =
                    Some (payload (provider env k' c')))) \<and>
            (distinct (map (\<lambda>kc. artifact_path env (fst kc) (snd kc))
                         (filter (\<lambda>kc. delivered (provider env (fst kc) (snd kc)))
                            (fetches cities))) \<longrightarrow>
               (\<forall>k. \<forall>c \<in> set cities. delivered (provider env k c) \<longrightarrow>
                  persisted env cities store (artifact_path env k c) =
                    Some (payload (provider env k c)))) \<and>
            (\<forall>p. (\<forall>k. \<forall>c \<in> set cities. delivered (provider env k c) \<longrightarrow>
                     artifact_path env k c \<noteq> p) \<longrightarrow>
                 persisted env cities store p = store p)"
    if benign: "\<forall>c \<in> set cities. \<forall>k.
               request_exception (provider env k c) \<or> delivered (provider env k c)"
    for cities store
  proof -
    let ?f = "\<lambda>kc. artifact_path env (fst kc) (snd kc)"
    let ?g = "\<lambda>kc. payload (provider env (fst kc) (snd kc))"
    let ?ds = "filter (\<lambda>kc. delivered (provider env (fst kc) (snd kc))) (fetches cities)"
    have ds: "set ?ds = {(k, c). c \<in> set cities \<and> delivered (provider env k c)}"
      by (auto simp: fetches_set)
    have pers: "persisted env cities store = foldl (\<lambda>s x. s(?f x \<mapsto> ?g x)) store ?ds"
      by (simp add: persisted_def)
    have 1: "extract_weather_data env cities store =
              Inr (\<lparr>res_current = recorded env Current cities,
                    res_forecast = recorded env Forecast cities\<rparr>,
                   persisted env cities store)"
      unfolding extract_weather_data_def key and_then_Inr extract_loop [OF benign]
      by (simp add: recorded_def persisted_def)
    have 2: "\<forall>k c. map_of (recorded env k cities) c =
               (if c \<in> set cities \<and> delivered (provider env k c)
                then Some (artifact_path env k c) else None)"
      by (simp add: recorded_map_of)
    have 3: "\<forall>k. \<forall>c \<in> set cities. request_exception (provider env k c) \<longrightarrow>
               map_of (recorded env k cities) c = None"
      by (simp add: recorded_map_of failure_not_delivered)
    have 4: "\<forall>k. \<forall>c \<in> set cities. delivered (provider env k c) \<longrightarrow>
               (\<exists>k'. \<exists>c' \<in> set cities.
                  delivered (provider env k' c') \<and>
                  artifact_path env k' c' = artifact_path env k c \<and>
                  persisted env cities store (artifact_path env k c) =
                    Some (payload (provider env k' c')))"
    proof (intro allI ballI impI)
      fix k c assume "c \<in> set cities" "delivered (provider env k c)"
      then have "(k, c) \<in> set ?ds" unfolding ds by simp
      from foldl_upd_some [OF this, of ?f ?g store] obtain y where
        y: "y \<in> set ?ds" "?f y = ?f (k, c)"
           "foldl (\<lambda>s x. s(?f x \<mapsto> ?g x)) store ?ds (?f (k, c)) = Some (?g y)"
        by blast
      from y(1) have "snd y \<in> set cities" "delivered (provider env (fst y) (snd y))"
        unfolding ds by auto
      with y(2,3) show "\<exists>k'. \<exists>c' \<in> set cities.
                  delivered (provider env k' c') \<and>
                  artifact_path env k' c' = artifact_path env k c \<and>
                  persisted env cities store (artifact_path env k c) =
                    Some (payload (provider env k' c'))"
        unfolding pers by auto
    qed
    have 5: "distinct (map ?f ?ds) \<longrightarrow>
               (\<forall>k. \<forall>c \<in> set cities. delivered (provider env k c) \<longrightarrow>
                  persisted env cities store (artifact_path env k c) =
                    Some (payload (provider env k c)))"
    proof (intro allI ballI impI)
      fix k c assume d: "distinct (map ?f ?ds)" and "c \<in> set cities" "delivered (provider env k c)"
      then have "(k, c) \<in> set ?ds" unfolding ds by simp
      from foldl_upd_distinct [OF d this, of ?g store]
      show "persisted env cities store (artifact_path env k c) = Some (payload (provider env k c))"
        unfolding pers by simp
    qed
    have 6: "\<forall>p. (\<forall>k. \<forall>c \<in> set cities. delivered (provider env k c) \<longrightarrow>
                     artifact_path env k c \<noteq> p) \<longrightarrow>
                 persisted env cities store p = store p"
    proof (intro allI impI)
      fix p assume "\<forall>k. \<forall>c \<in> set cities. delivered (provider env k c) \<longrightarrow>
                     artifact_path env k c \<noteq> p"
      then have "p \<notin> ?f ` set ?ds" unfolding ds by force
      then show "persisted env cities store p = store p"
        unfolding pers by (rule foldl_upd_frame)
    qed
    from 1 2 3 4 5 6 show ?thesis by (intro conjI)
  qed
  from one skip batch show ?thesis by (intro conjI allI impI) blast+
qed

lemma example_env_fetches:
  "delivered (provider example_env k ''London,uk'')"
  "request_exception (provider example_env k ''Paris,fr'')"
  by (cases k; simp add: example_env_def example_fetch_def delivered_def request_exception_def
        london_observation_def london_forecast_def)+

lemma london_paths:
  "artifact_path example_env Current ''London,uk'' =
                 ''raw_data/current_london_20240105_120000.json''"
  "artifact_path example_env Forecast ''London,uk'' =
                 ''raw_data/forecast_london_20240105_120000.json''"
  by (simp_all add: artifact_path_def raw_filename_def ascii_lower_def kind_name_def
          example_env_def example_fetch_def)

lemma london_payloads:
  "payload (provider example_env Current ''London,uk'') = london_observation"
  "payload (provider example_env Forecast ''London,uk'') = london_forecast"
  by (simp_all add: payload_def example_env_def example_fetch_def london_observation_def
        london_forecast_def)

theorem extract_failure_isolation_witness:
  "extract_weather_data example_env [''Paris,fr'', ''London,uk''] (\<lambda>p. None) =
     Inr (\<lparr>res_current = [(''London,uk'', ''raw_data/current_london_20240105_120000.json'')],
           res_forecast = [(''London,uk'', ''raw_data/forecast_london_20240105_120000.json'')]\<rparr>,
          [''raw_data/current_london_20240105_120000.json'' \<mapsto> london_observation,
           ''raw_data/forecast_london_20240105_120000.json'' \<mapsto> london_forecast]) \<and>
   extract_weather_data example_env [''Paris,fr'', ''London,uk''] (\<lambda>p. None) =
     extract_weather_data example_env [''London,uk''] (\<lambda>p. None)"
proof -
  have key: "api_key example_env = Some ''0123456789abcdef''" "''0123456789abcdef'' \<noteq> []"
    by (simp_all add: example_env_def)
  note inst = extract_failure_isolation [OF key]
  have benign: "\<forall>c \<in> set [''Paris,fr'', ''London,uk'']. \<forall>k.
      request_exception (provider example_env k c) \<or> delivered (provider example_env k c)"
    using example_env_fetches by simp
  have nd: "\<not> delivered (provider example_env k ''Paris,fr'')" for k
    by (rule failure_not_delivered) (rule example_env_fetches)
  from inst benign have
    "extract_weather_data example_env [''Paris,fr'', ''London,uk''] (\<lambda>p. None) =
       Inr (\<lparr>res_current = recorded example_env Current [''Paris,fr'', ''London,uk''],
             res_forecast = recorded example_env Forecast [''Paris,fr'', ''London,uk'']\<rparr>,
            persisted example_env [''Paris,fr'', ''London,uk''] (\<lambda>p. None))"
    by blast
  moreover have "recorded example_env Current [''Paris,fr'', ''London,uk''] =
                   [(''London,uk'', ''raw_data/current_london_20240105_120000.json'')]"
    "recorded example_env Forecast [''Paris,fr'', ''London,uk''] =
                   [(''London,uk'', ''raw_data/forecast_london_20240105_120000.json'')]"
    by (simp_all add: recorded_def nd example_env_fetches london_paths)
  moreover have "persisted example_env [''Paris,fr'', ''London,uk''] (\<lambda>p. None) =
          [''raw_data/current_london_20240105_120000.json'' \<mapsto> london_observation,
           ''raw_data/forecast_london_20240105_120000.json'' \<mapsto> london_forecast]"
    by (simp add: persisted_def fetches_def nd example_env_fetches london_paths london_payloads)
  ultimately have 1: "extract_weather_data example_env [''Paris,fr'', ''London,uk''] (\<lambda>p. None) =
     Inr (\<lparr>res_current = [(''London,uk'', ''raw_data/current_london_20240105_120000.json'')],
           res_forecast = [(''London,uk'', ''raw_data/forecast_london_20240105_120000.json'')]\<rparr>,
          [''raw_data/current_london_20240105_120000.json'' \<mapsto> london_observation,
           ''raw_data/forecast_london_20240105_120000.json'' \<mapsto> london_forecast])"
    by simp
  from inst example_env_fetches(2)
  have "extract_weather_data example_env ([] @ ''Paris,fr'' # [''London,uk'']) (\<lambda>p. None) =
        extract_weather_data example_env ([] @ [''London,uk'']) (\<lambda>p. None)"
    by blast
  then have 2: "extract_weather_data example_env [''Paris,fr'', ''London,uk''] (\<lambda>p. None) =
     extract_weather_data example_env [''London,uk''] (\<lambda>p. None)"
    by simp
  from 1 2 show ?thesis by (rule conjI)
qed

text \<open>
  Claim C7 as stated fails.  The provider answers the observation of Paris with status 200
  and a body that is JSON but not an object, here an array.  Storing \<open>retrieved_at\<close> in it
  raises \<open>TypeError\<close>, which is no \<open>RequestException\<close>: \<open>extract_weather_data\<close> raises, and
  London, whose fetches would be delivered, is not fetched.
\<close>

theorem extract_weather_data_array_body_counterexample:
  "api_key array_env = Some ''0123456789abcdef'' \<and>
   response (provider array_env Current ''Paris,fr'') = Response 200 (Some (JArr [])) \<and>
   delivered (provider array_env Current ''London,uk'') \<and>
   delivered (provider array_env Forecast ''London,uk'') \<and>
   extract_weather_data array_env [''Paris,fr'', ''London,uk''] (\<lambda>p. None) = Inl TypeError"
proof -
  have 1: "api_key array_env = Some ''0123456789abcdef''"
    by (simp add: array_env_def example_env_def)
  have 2: "response (provider array_env Current ''Paris,fr'') = Response 200 (Some (JArr []))"
    by (simp add: array_env_def example_fetch_def)
  have p: "provider array_env k ''London,uk'' = provider example_env k ''London,uk''" for k
    by (simp add: array_env_def)
  have 3: "delivered (provider array_env Current ''London,uk'')"
    and 4: "delivered (provider array_env Forecast ''London,uk'')"
    unfolding p by (rule example_env_fetches)+
  have "get_weather array_env Current ''Paris,fr'' key = Inl TypeError" for key
    by (simp add: get_weather_def 2)
  then have 5: "extract_weather_data array_env [''Paris,fr'', ''London,uk''] (\<lambda>p. None) = Inl TypeError"
    by (simp add: extract_weather_data_def load_api_key_def 1 fetch_and_save_def)
  from 1 2 3 4 5 show ?thesis by (intro conjI)
qed

section \<open>Supporting examples\<close>

text \<open>
  The double nearest to -10.1 is a little above it; it is below -10 all the same and is
  printed as -10.1.
\<close>

lemma nearest_double_to_minus_ten_point_one:
  assumes "temperature r = Some (- 5685794529555251 / 562949953421312)"
    and "\<not> matches r Wind" and "\<not> matches r Rain" and "\<not> matches r Snow"
  shows "extreme_conditions r"
    and "join ''; '' (map (clause r) (filter (matches r) [Cold, Heat, Wind, Rain, Snow])) =
           ''Extreme cold: -10.1'' @ degree @ ''C''"
proof -
  from assms(1) have c: "matches r Cold" and h: "\<not> matches r Heat" by simp_all
  from c show "extreme_conditions r" unfolding extreme_conditions_iff by blast
  from c h assms have "filter (matches r) [Cold, Heat, Wind, Rain, Snow] = [Cold]"
    by simp
  moreover have "format_1f (- (5685794529555251 / 562949953421312)) = ''-10.1''"
    by (simp add: format_eval)
  then have "clause r Cold = ''Extreme cold: -10.1'' @ degree @ ''C''"
    using assms(1) by (simp add: clause_def format_cell_def)
  ultimately show "join ''; '' (map (clause r) (filter (matches r) [Cold, Heat, Wind, Rain, Snow])) =
           ''Extreme cold: -10.1'' @ degree @ ''C''"
    by simp
qed

text \<open>
  A forecast payload without city block is loaded: the row has NULL for the city name and
  the country, as the record of the counterexample to claim C5 has.
\<close>

lemma nameless_forecast_loads:
  "\<exists>db' r. forecast_transaction (example_world []) p now nameless_forecast (init_database None) =
             Inr (Json JNull, db') \<and>
           forecast db' = Some [r] \<and>
           map_of r ''city_name'' = Some SNull \<and> map_of r ''country'' = Some SNull \<and>
           map_of r ''temperature'' = Some (SReal 5)"
  by (simp add: loader_eval nameless_forecast_def dry_slot_def)

text \<open>
  A status that is neither from 200 to 299 nor from 400 to 599 raises nothing: with a JSON
  object as body the fetch is delivered like any other, and its path is recorded.
\<close>

lemma other_status_is_delivered:
  assumes "response (provider env k c) = Response 304 (Some (JObj kvs))"
    and "writable (provider env k c)"
  shows "delivered (provider env k c)"
    and "fetch_and_save env key k c st =
           Inr (record_path k c (artifact_path env k c) (fst st),
                (snd st)(artifact_path env k c \<mapsto> payload (provider env k c)))"
proof -
  from assms show d: "delivered (provider env k c)"
    by (simp add: delivered_def)
  then show "fetch_and_save env key k c st =
           Inr (record_path k c (artifact_path env k c) (fst st),
                (snd st)(artifact_path env k c \<mapsto> payload (provider env k c)))"
    by (rule fetch_and_save_delivered)
qed

text \<open>
  With a float64 mean that is not the exact mean, a record whose temperature is the exact
  mean of its city has an anomaly that is not 0: the anomaly is 0 only for a temperature
  equal to the mean that was computed.
\<close>

lemma anomaly_of_exact_mean:
  assumes "float_mean eng [t, t, t] = m" and "float_minus eng t m = d"
    and "city_name r = Some c" and "temperature r = Some t"
  shows "map temp_anomaly (map (spec_anomaly eng [r, r, r]) [r, r, r]) = [Some d, Some d, Some d]"
  using assms by (simp add: spec_anomaly_def city_mean_def map_filter_simps)

end
